theory Spec2Isabelle
  imports Complex_Main "HOL-Library.Multiset" "HOL-Library.Word" "HOL-Library.Product_Lexorder"
begin

section \<open>Coordinates, exceptions and the geometry objects\<close>

text \<open>
  A \<^verbatim>\<open>double[3]\<close> or \<^verbatim>\<open>geo::Point_t\<close> is a triple of coordinates. Doubles are modelled
  by real numbers: rounding, infinities and NaN are outside the model.
\<close>

type_synonym vec3 = "real \<times> real \<times> real"

fun X :: "vec3 \<Rightarrow> real" where
  "X (x, y, z) = x"

fun Y :: "vec3 \<Rightarrow> real" where
  "Y (x, y, z) = y"

fun Z :: "vec3 \<Rightarrow> real" where
  "Z (x, y, z) = z"

text \<open>
  Every \<^verbatim>\<open>throw\<close> of the sources is a value of this type; the payload is what the
  message of the exception prints.
\<close>

datatype geo_exception =
    CantFindAuxDet vec3
  | CantFindAuxDetSensitive vec3
  | NoAuxDetGeoMatchingName string
  | ChannelNotInVector "32 word" nat nat
  | NoSensitiveVolumeVector nat
  | CantFindTPC vec3 nat
  | OpDetOutOfRange nat
  | DriftDirectionUnknown
  | std_out_of_range

text \<open>
  The classes \<^verbatim>\<open>AuxDetGeo\<close>, \<^verbatim>\<open>AuxDetSensitiveGeo\<close>, ... are declared in headers that are
  not part of the sources at hand. Each is a record of what the code under study reads
  from it; a member function of the class is a field of function type.
\<close>

record AuxDetSensitiveGeo =
  ads_Name :: string
  ads_WorldToLocal :: "vec3 \<Rightarrow> vec3"
  ads_HalfWidth1 :: real
  ads_HalfWidth2 :: real
  ads_HalfHeight :: real
  ads_Length :: real

record AuxDetGeo =
  ad_Name :: string
  ad_WorldToLocal :: "vec3 \<Rightarrow> vec3"
  ad_HalfWidth1 :: real
  ad_HalfWidth2 :: real
  ad_HalfHeight :: real
  ad_Length :: real
  ad_SensitiveVolumes :: "AuxDetSensitiveGeo list"

record OpDetGeo =
  opdet_DistanceToPoint :: "vec3 \<Rightarrow> real"

text \<open>
  \<^verbatim>\<open>TPCGeo::ContainsPosition\<close> is defined in a source file that is not at hand: the test
  is a field of the record, and the queries below are settled for every such test.
\<close>

record TPCGeo =
  tpc_LocalToWorld :: "vec3 \<Rightarrow> vec3"
  tpc_ContainsPosition :: "vec3 \<Rightarrow> real \<Rightarrow> bool"

record CryostatGeo =
  cryo_LocalToWorld :: "vec3 \<Rightarrow> vec3"
  fTPCs :: "TPCGeo list"
  fOpDets :: "OpDetGeo list"
  fID :: nat

record PlaneGeo =
  plane_LocalToWorld :: "vec3 \<Rightarrow> vec3"

record WireGeo =
  wire_GetCenter :: vec3

section \<open>AuxDetChannelMapAlg: the channel tables\<close>

text \<open>
  \<^verbatim>\<open>fADGeoToName\<close> is a \<^verbatim>\<open>std::map<size_t, std::string>\<close> and \<^verbatim>\<open>fADGeoToChannelAndSV\<close> a
  \<^verbatim>\<open>std::map<size_t, std::vector<std::pair<uint32_t, size_t>>>\<close>. A map is the list of its
  entries in iteration order; \<^verbatim>\<open>count\<close> and \<^verbatim>\<open>find\<close> are \<^const>\<open>map_of\<close>.
\<close>

record AuxDetChannelMapAlg =
  fADGeoToName :: "(nat \<times> string) list"
  fADGeoToChannelAndSV :: "(nat \<times> (32 word \<times> nat) list) list"

fun ChannelToAuxDet_loop :: "(nat \<times> string) list \<Rightarrow> string \<Rightarrow> geo_exception + nat" where
  "ChannelToAuxDet_loop [] detName = Inl (NoAuxDetGeoMatchingName detName)"
| "ChannelToAuxDet_loop (itr # rest) detName =
     (if snd itr = detName then Inr (fst itr) else ChannelToAuxDet_loop rest detName)"

definition ChannelToAuxDet ::
  "AuxDetChannelMapAlg \<Rightarrow> AuxDetGeo list \<Rightarrow> string \<Rightarrow> 32 word \<Rightarrow> geo_exception + nat" where
  "ChannelToAuxDet alg auxDets detName channel = ChannelToAuxDet_loop (fADGeoToName alg) detName"

definition ChannelToSensitiveAuxDet ::
  "AuxDetChannelMapAlg \<Rightarrow> AuxDetGeo list \<Rightarrow> string \<Rightarrow> 32 word \<Rightarrow> geo_exception + (nat \<times> nat)" where
  "ChannelToSensitiveAuxDet alg auxDets detName channel =
     (case ChannelToAuxDet alg auxDets detName channel of
        Inl e \<Rightarrow> Inl e
      | Inr adGeoIdx \<Rightarrow>
          (case map_of (fADGeoToChannelAndSV alg) adGeoIdx of
             Some v \<Rightarrow>
               if unat channel < length v then Inr (adGeoIdx, snd (v ! unat channel))
               else Inl (ChannelNotInVector channel adGeoIdx (length v))
           | None \<Rightarrow> Inl (NoSensitiveVolumeVector adGeoIdx)))"

section \<open>AuxDetChannelMapAlg: the containment queries\<close>

text \<open>
  Division by zero is where the code leaves the real numbers: a double divided by zero is
  an infinity, or NaN when the dividend is zero too. The quotient of the containment tests
  is therefore a value of this type, with the sums and comparisons of IEEE arithmetic
  that the tests apply to it: an infinity absorbs what is finite, a comparison with NaN is
  false. The zero of a length is taken to be \<^verbatim>\<open>+0.0\<close>.
\<close>

datatype xdouble = Finite real | PlusInfinity | MinusInfinity | NaN

definition xdiv :: "real \<Rightarrow> real \<Rightarrow> xdouble" where
  "xdiv n d =
     (if d \<noteq> 0 then Finite (n / d)
      else if n > 0 then PlusInfinity
      else if n < 0 then MinusInfinity
      else NaN)"

fun xneg :: "xdouble \<Rightarrow> xdouble" where
  "xneg (Finite a) = Finite (- a)"
| "xneg PlusInfinity = MinusInfinity"
| "xneg MinusInfinity = PlusInfinity"
| "xneg NaN = NaN"

fun xadd :: "xdouble \<Rightarrow> xdouble \<Rightarrow> xdouble" where
  "xadd (Finite a) (Finite b) = Finite (a + b)"
| "xadd NaN b = NaN"
| "xadd a NaN = NaN"
| "xadd PlusInfinity MinusInfinity = NaN"
| "xadd MinusInfinity PlusInfinity = NaN"
| "xadd PlusInfinity b = PlusInfinity"
| "xadd a PlusInfinity = PlusInfinity"
| "xadd MinusInfinity b = MinusInfinity"
| "xadd a MinusInfinity = MinusInfinity"

definition xsub :: "xdouble \<Rightarrow> xdouble \<Rightarrow> xdouble" where
  "xsub a b = xadd a (xneg b)"

fun xle :: "xdouble \<Rightarrow> xdouble \<Rightarrow> bool" where
  "xle (Finite a) (Finite b) = (a \<le> b)"
| "xle NaN b = False"
| "xle a NaN = False"
| "xle MinusInfinity b = True"
| "xle a PlusInfinity = True"
| "xle PlusInfinity b = False"
| "xle a MinusInfinity = False"

text \<open>
  The condition of the \<^verbatim>\<open>if\<close> in the loop of \<^verbatim>\<open>NearestAuxDet\<close>, on the point taken to the
  local frame of the detector. \<^verbatim>\<open>a >= b\<close> is \<open>xle b a\<close>.
\<close>

definition NearestAuxDet_accepts :: "AuxDetGeo \<Rightarrow> vec3 \<Rightarrow> real \<Rightarrow> bool" where
  "NearestAuxDet_accepts ad point tolerance =
     (let localPoint = ad_WorldToLocal ad point;
          HalfCenterWidth = 0.5 * (ad_HalfWidth1 ad + ad_HalfWidth2 ad)
      in Z localPoint \<ge> (- ad_Length ad / 2 - tolerance) \<and>
         Z localPoint \<le> (ad_Length ad / 2 + tolerance) \<and>
         Y localPoint \<ge> (- ad_HalfHeight ad - tolerance) \<and>
         Y localPoint \<le> (ad_HalfHeight ad + tolerance) \<and>
         xle (xsub (xadd (Finite (- HalfCenterWidth))
                      (xdiv (Z localPoint * (HalfCenterWidth - ad_HalfWidth2 ad))
                         (0.5 * ad_Length ad)))
                (Finite tolerance))
           (Finite (X localPoint)) \<and>
         xle (Finite (X localPoint))
           (xadd (xsub (Finite HalfCenterWidth)
                    (xdiv (Z localPoint * (HalfCenterWidth - ad_HalfWidth2 ad))
                       (0.5 * ad_Length ad)))
              (Finite tolerance)))"

fun NearestAuxDet_loop :: "AuxDetGeo list \<Rightarrow> vec3 \<Rightarrow> real \<Rightarrow> nat \<Rightarrow> geo_exception + nat" where
  "NearestAuxDet_loop [] point tolerance a = Inl (CantFindAuxDet point)"
| "NearestAuxDet_loop (ad # rest) point tolerance a =
     (if NearestAuxDet_accepts ad point tolerance then Inr a
      else NearestAuxDet_loop rest point tolerance (Suc a))"

definition NearestAuxDet :: "vec3 \<Rightarrow> AuxDetGeo list \<Rightarrow> real \<Rightarrow> geo_exception + nat" where
  "NearestAuxDet point auxDets tolerance = NearestAuxDet_loop auxDets point tolerance 0"

text \<open>The same condition in \<^verbatim>\<open>NearestSensitiveAuxDet\<close>, on a sensitive volume.\<close>

definition NearestSensitiveAuxDet_accepts :: "AuxDetSensitiveGeo \<Rightarrow> vec3 \<Rightarrow> real \<Rightarrow> bool" where
  "NearestSensitiveAuxDet_accepts adsg point tolerance =
     (let localPoint = ads_WorldToLocal adsg point;
          HalfCenterWidth = 0.5 * (ads_HalfWidth1 adsg + ads_HalfWidth2 adsg)
      in Z localPoint \<ge> - (ads_Length adsg / 2 + tolerance) \<and>
         Z localPoint \<le> ads_Length adsg / 2 + tolerance \<and>
         Y localPoint \<ge> - (ads_HalfHeight adsg + tolerance) \<and>
         Y localPoint \<le> ads_HalfHeight adsg + tolerance \<and>
         xle (xsub (xadd (Finite (- HalfCenterWidth))
                      (xdiv (Z localPoint * (HalfCenterWidth - ads_HalfWidth2 adsg))
                         (0.5 * ads_Length adsg)))
                (Finite tolerance))
           (Finite (X localPoint)) \<and>
         xle (Finite (X localPoint))
           (xadd (xsub (Finite HalfCenterWidth)
                    (xdiv (Z localPoint * (HalfCenterWidth - ads_HalfWidth2 adsg))
                       (0.5 * ads_Length adsg)))
              (Finite tolerance)))"

fun NearestSensitiveAuxDet_loop ::
  "AuxDetSensitiveGeo list \<Rightarrow> vec3 \<Rightarrow> real \<Rightarrow> nat \<Rightarrow> geo_exception + nat" where
  "NearestSensitiveAuxDet_loop [] point tolerance a = Inl (CantFindAuxDetSensitive point)"
| "NearestSensitiveAuxDet_loop (adsg # rest) point tolerance a =
     (if NearestSensitiveAuxDet_accepts adsg point tolerance then Inr a
      else NearestSensitiveAuxDet_loop rest point tolerance (Suc a))"

text \<open>
  The index \<^verbatim>\<open>ad\<close> is written through a reference and the index of the sensitive volume is
  returned: the model returns the pair. \<^verbatim>\<open>auxDets[ad]\<close> is in range, \<^verbatim>\<open>ad\<close> being a result of
  \<^const>\<open>NearestAuxDet\<close>.
\<close>

definition NearestSensitiveAuxDet ::
  "vec3 \<Rightarrow> AuxDetGeo list \<Rightarrow> real \<Rightarrow> geo_exception + (nat \<times> nat)" where
  "NearestSensitiveAuxDet point auxDets tolerance =
     (case NearestAuxDet point auxDets tolerance of
        Inl e \<Rightarrow> Inl e
      | Inr ad \<Rightarrow>
          (case NearestSensitiveAuxDet_loop (ad_SensitiveVolumes (auxDets ! ad)) point tolerance 0 of
             Inl e \<Rightarrow> Inl e
           | Inr a \<Rightarrow> Inr (ad, a)))"

text \<open>
  The containment test in the words of the specification: the half-width of the band at
  local \<open>z\<close> is the linear interpolation between \<open>halfWidth1\<close> at the face \<open>z = - length / 2\<close>
  and \<open>halfWidth2\<close> at the face \<open>z = length / 2\<close>.
\<close>

definition spec_band_half_width :: "real \<Rightarrow> real \<Rightarrow> real \<Rightarrow> real \<Rightarrow> real" where
  "spec_band_half_width halfWidth1 halfWidth2 len z =
     halfWidth1 + (halfWidth2 - halfWidth1) * (z - (- len / 2)) / (len / 2 - (- len / 2))"

definition spec_contains :: "real \<Rightarrow> real \<Rightarrow> real \<Rightarrow> real \<Rightarrow> vec3 \<Rightarrow> real \<Rightarrow> bool" where
  "spec_contains halfWidth1 halfWidth2 halfHeight len localPoint tolerance =
     (\<bar>Z localPoint\<bar> \<le> len / 2 + tolerance \<and>
      \<bar>Y localPoint\<bar> \<le> halfHeight + tolerance \<and>
      \<bar>X localPoint\<bar> \<le> spec_band_half_width halfWidth1 halfWidth2 len (Z localPoint) + tolerance)"

section \<open>CryostatGeo: the queries\<close>

text \<open>
  A pointer to an element of \<^verbatim>\<open>fTPCs\<close> is the index of the element; \<^verbatim>\<open>nullptr\<close> is
  \<^const>\<open>None\<close>.
\<close>

fun PositionToTPCptr_loop :: "TPCGeo list \<Rightarrow> vec3 \<Rightarrow> real \<Rightarrow> nat \<Rightarrow> nat option" where
  "PositionToTPCptr_loop [] point wiggle i = None"
| "PositionToTPCptr_loop (tpc # rest) point wiggle i =
     (if tpc_ContainsPosition tpc point wiggle then Some i
      else PositionToTPCptr_loop rest point wiggle (Suc i))"

definition PositionToTPCptr :: "CryostatGeo \<Rightarrow> vec3 \<Rightarrow> real \<Rightarrow> nat option" where
  "PositionToTPCptr c point wiggle = PositionToTPCptr_loop (fTPCs c) point wiggle 0"

definition PositionToTPC :: "CryostatGeo \<Rightarrow> vec3 \<Rightarrow> real \<Rightarrow> geo_exception + TPCGeo" where
  "PositionToTPC c point wiggle =
     (case PositionToTPCptr c point wiggle of
        None \<Rightarrow> Inl (CantFindTPC point (fID c))
      | Some tpc \<Rightarrow> Inr (fTPCs c ! tpc))"

text \<open>
  \<^verbatim>\<open>unsigned int\<close> values are natural numbers; the two limits read by the code are
  \<^verbatim>\<open>std::numeric_limits<unsigned int>::max()\<close> and \<^verbatim>\<open>std::numeric_limits<double>::max()\<close>.
\<close>

definition UINT_MAX :: nat where
  "UINT_MAX = 4294967295"

definition DBL_MAX :: real where
  "DBL_MAX = 2 ^ 1024 - 2 ^ 971"

definition NOpDet :: "CryostatGeo \<Rightarrow> nat" where
  "NOpDet c = length (fOpDets c)"

definition OpDet :: "CryostatGeo \<Rightarrow> nat \<Rightarrow> geo_exception + OpDetGeo" where
  "OpDet c iopdet =
     (if iopdet \<ge> length (fOpDets c) then Inl (OpDetOutOfRange iopdet)
      else Inr (fOpDets c ! iopdet))"

text \<open>
  The loop of \<^verbatim>\<open>GetClosestOpDet\<close> over \<^verbatim>\<open>o < NOpDet()\<close>: \<open>ods\<close> are the detectors from index \<open>o'\<close> on, and the pair is
  \<^verbatim>\<open>(ClosestDet, ClosestDist)\<close>.
\<close>

fun GetClosestOpDet_loop :: "OpDetGeo list \<Rightarrow> vec3 \<Rightarrow> nat \<Rightarrow> nat \<times> real \<Rightarrow> nat \<times> real" where
  "GetClosestOpDet_loop [] point o' (ClosestDet, ClosestDist) = (ClosestDet, ClosestDist)"
| "GetClosestOpDet_loop (od # ods) point o' (ClosestDet, ClosestDist) =
     (let ThisDist = opdet_DistanceToPoint od point
      in if ThisDist < ClosestDist then GetClosestOpDet_loop ods point (Suc o') (o', ThisDist)
         else GetClosestOpDet_loop ods point (Suc o') (ClosestDet, ClosestDist))"

definition GetClosestOpDet :: "CryostatGeo \<Rightarrow> vec3 \<Rightarrow> nat" where
  "GetClosestOpDet c point = fst (GetClosestOpDet_loop (fOpDets c) point 0 (UINT_MAX, DBL_MAX))"

text \<open>
  \<^verbatim>\<open>GetClosestOpDetPtr\<close> compares the index with the largest \<^verbatim>\<open>double\<close>; the index is
  converted to \<^verbatim>\<open>double\<close> for the comparison. The result is the detector the pointer
  refers to, or \<^const>\<open>None\<close> for \<^verbatim>\<open>nullptr\<close>.
\<close>

definition GetClosestOpDetPtr :: "CryostatGeo \<Rightarrow> vec3 \<Rightarrow> geo_exception + OpDetGeo option" where
  "GetClosestOpDetPtr c point =
     (let iOpDet = GetClosestOpDet c point
      in if real iOpDet = DBL_MAX then Inr None
         else (case OpDet c iOpDet of Inl e \<Rightarrow> Inl e | Inr od \<Rightarrow> Inr (Some od)))"

section \<open>GeoObjectSorterStandard: the comparators\<close>

definition DistanceTol :: real where
  "DistanceTol = 0.001"

text \<open>
  \<^verbatim>\<open>std::string::substr(pos, n)\<close> throws \<^verbatim>\<open>std::out_of_range\<close> when \<^verbatim>\<open>pos\<close> is beyond the size
  of the string. \<^verbatim>\<open>atoi\<close> is that of the GNU C library, \<^verbatim>\<open>(int) strtol(nptr, NULL, 10)\<close>:
  \<^verbatim>\<open>strtol\<close> skips white space, reads a sign and then the digits there are, with the value 0
  when there is none and the nearest \<^verbatim>\<open>long\<close> (of 64 bits) when the number is out of range;
  the conversion to \<^verbatim>\<open>int\<close> keeps the low 32 bits.
\<close>

definition substr :: "string \<Rightarrow> nat \<Rightarrow> nat \<Rightarrow> geo_exception + string" where
  "substr s pos n = (if pos > length s then Inl std_out_of_range else Inr (take n (drop pos s)))"

definition isspace :: "char \<Rightarrow> bool" where
  "isspace c \<longleftrightarrow> c \<in> set [CHR '' '', CHR 0x09, CHR 0x0A, CHR 0x0B, CHR 0x0C, CHR 0x0D]"

definition isdigit :: "char \<Rightarrow> bool" where
  "isdigit c \<longleftrightarrow> (48::nat) \<le> of_char c \<and> (of_char c :: nat) \<le> 57"

fun strtol_digits :: "int \<Rightarrow> string \<Rightarrow> int" where
  "strtol_digits acc [] = acc"
| "strtol_digits acc (c # cs) =
     (if isdigit c then strtol_digits (10 * acc + (of_char c - 48)) cs else acc)"

definition LONG_MAX :: int where
  "LONG_MAX = 2 ^ 63 - 1"

definition LONG_MIN :: int where
  "LONG_MIN = - (2 ^ 63)"

definition strtol :: "string \<Rightarrow> int" where
  "strtol s =
     (case dropWhile isspace s of
        [] \<Rightarrow> 0
      | c # cs \<Rightarrow>
          if c = CHR ''-'' then max LONG_MIN (- strtol_digits 0 cs)
          else if c = CHR ''+'' then min LONG_MAX (strtol_digits 0 cs)
          else min LONG_MAX (strtol_digits 0 (c # cs)))"

definition long_to_int :: "int \<Rightarrow> int" where
  "long_to_int v = (v + 2 ^ 31) mod 2 ^ 32 - 2 ^ 31"

definition atoi :: "string \<Rightarrow> int" where
  "atoi s = long_to_int (strtol s)"

definition sortAuxDetStandard :: "AuxDetGeo \<Rightarrow> AuxDetGeo \<Rightarrow> geo_exception + bool" where
  "sortAuxDetStandard ad1 ad2 =
     (let ad1name = ad_Name ad1; ad2name = ad_Name ad2
      in case substr ad1name 9 (length ad1name) of
           Inl e \<Rightarrow> Inl e
         | Inr s1 \<Rightarrow>
             (case substr ad2name 9 (length ad2name) of
                Inl e \<Rightarrow> Inl e
              | Inr s2 \<Rightarrow> (let ad1Num = atoi s1; ad2Num = atoi s2 in Inr (ad1Num < ad2Num))))"

definition sortAuxDetSensitiveStandard ::
  "AuxDetSensitiveGeo \<Rightarrow> AuxDetSensitiveGeo \<Rightarrow> geo_exception + bool" where
  "sortAuxDetSensitiveStandard ad1 ad2 =
     (let ad1name = ads_Name ad1; ad2name = ads_Name ad2
      in case substr ad1name 9 (length ad1name) of
           Inl e \<Rightarrow> Inl e
         | Inr s1 \<Rightarrow>
             (case substr ad2name 9 (length ad2name) of
                Inl e \<Rightarrow> Inl e
              | Inr s2 \<Rightarrow> (let ad1Num = atoi s1; ad2Num = atoi s2 in Inr (ad1Num < ad2Num))))"

definition sortCryoStandard :: "CryostatGeo \<Rightarrow> CryostatGeo \<Rightarrow> bool" where
  "sortCryoStandard c1 c2 =
     (let local = (0, 0, 0);
          xyz1 = cryo_LocalToWorld c1 local;
          xyz2 = cryo_LocalToWorld c2 local
      in X xyz1 < X xyz2)"

definition sortTPCStandard :: "TPCGeo \<Rightarrow> TPCGeo \<Rightarrow> bool" where
  "sortTPCStandard t1 t2 =
     (let local = (0, 0, 0);
          xyz1 = tpc_LocalToWorld t1 local;
          xyz2 = tpc_LocalToWorld t2 local
      in X xyz1 < X xyz2)"

definition sortPlaneStandard :: "PlaneGeo \<Rightarrow> PlaneGeo \<Rightarrow> bool" where
  "sortPlaneStandard p1 p2 =
     (let local = (0, 0, 0);
          xyz1 = plane_LocalToWorld p1 local;
          xyz2 = plane_LocalToWorld p2 local
      in if \<bar>X xyz1 - X xyz2\<bar> > DistanceTol then X xyz1 > X xyz2
         else if \<bar>Z xyz1 - Z xyz2\<bar> > DistanceTol then Z xyz1 < Z xyz2
         else Y xyz1 < Y xyz2)"

definition sortWireStandard :: "WireGeo \<Rightarrow> WireGeo \<Rightarrow> bool" where
  "sortWireStandard w1 w2 =
     (let xyz1 = wire_GetCenter w1;
          xyz2 = wire_GetCenter w2
      in if \<bar>Z xyz1 - Z xyz2\<bar> > DistanceTol then Z xyz1 < Z xyz2
         else if \<bar>Y xyz1 - Y xyz2\<bar> > DistanceTol then Y xyz1 < Y xyz2
         else X xyz1 < X xyz2)"

section \<open>std::sort\<close>

text \<open>
  \<^verbatim>\<open>std::sort\<close> belongs to the C++ library, not to the sources: the sorting operations take
  it as a parameter \<open>srt\<close>. A comparator returns a truth value or throws. A sort takes the
  comparator and the elements of the range and returns the elements the range holds
  afterwards, with the exception that escaped, if one did.
\<close>

type_synonym 'a compare = "'a \<Rightarrow> 'a \<Rightarrow> geo_exception + bool"

type_synonym 'a std_sort = "'a compare \<Rightarrow> 'a list \<Rightarrow> 'a list \<times> geo_exception option"

definition nothrow :: "('a \<Rightarrow> 'a \<Rightarrow> bool) \<Rightarrow> 'a compare" where
  "nothrow cmp a b = Inr (cmp a b)"

definition comp_less :: "'a compare \<Rightarrow> 'a \<Rightarrow> 'a \<Rightarrow> bool" where
  "comp_less cmp a b \<longleftrightarrow> cmp a b = Inr True"

definition comp_total_on :: "'a set \<Rightarrow> 'a compare \<Rightarrow> bool" where
  "comp_total_on S cmp \<longleftrightarrow> (\<forall>a \<in> S. \<forall>b \<in> S. \<exists>r. cmp a b = Inr r)"

text \<open>
  The requirement of the C++ standard on the comparator, on the elements of the range: it
  is irreflexive and transitive, and the equivalence "neither is less than the other" is
  transitive.
\<close>

definition strict_weak_ordering_on :: "'a set \<Rightarrow> ('a \<Rightarrow> 'a \<Rightarrow> bool) \<Rightarrow> bool" where
  "strict_weak_ordering_on S R \<longleftrightarrow>
     (\<forall>a \<in> S. \<not> R a a) \<and>
     (\<forall>a \<in> S. \<forall>b \<in> S. \<forall>c \<in> S. R a b \<and> R b c \<longrightarrow> R a c) \<and>
     (\<forall>a \<in> S. \<forall>b \<in> S. \<forall>c \<in> S.
        (\<not> R a b \<and> \<not> R b a) \<and> (\<not> R b c \<and> \<not> R c b) \<longrightarrow> (\<not> R a c \<and> \<not> R c a))"

text \<open>No two different elements of \<open>S\<close> are equivalent.\<close>

definition no_ties_on :: "'a set \<Rightarrow> ('a \<Rightarrow> 'a \<Rightarrow> bool) \<Rightarrow> bool" where
  "no_ties_on S R \<longleftrightarrow> (\<forall>a \<in> S. \<forall>b \<in> S. \<not> R a b \<and> \<not> R b a \<longrightarrow> a = b)"

text \<open>
  What the standard promises of \<^verbatim>\<open>std::sort\<close>: with a comparator that throws nothing and is
  a strict weak ordering on the elements, the range afterwards is a permutation of the
  range before in which no element is less than an element before it. The order of
  equivalent elements is not promised, and nothing is promised for another comparator.
  The sort throws nothing of its own: an exception that escapes is one of the comparator,
  thrown on two elements of the range.
\<close>

definition std_sort_contract :: "'a std_sort \<Rightarrow> bool" where
  "std_sort_contract srt \<longleftrightarrow>
     (\<forall>cmp xs.
        (\<forall>e. snd (srt cmp xs) = Some e \<longrightarrow> (\<exists>a \<in> set xs. \<exists>b \<in> set xs. cmp a b = Inl e)) \<and>
        (comp_total_on (set xs) cmp \<and> strict_weak_ordering_on (set xs) (comp_less cmp) \<longrightarrow>
           snd (srt cmp xs) = None \<and>
           mset (fst (srt cmp xs)) = mset xs \<and>
           sorted_wrt (\<lambda>a b. \<not> comp_less cmp b a) (fst (srt cmp xs))))"

text \<open>
  One sort that keeps the promise, for running the sorting operations on elements where
  the promise fixes the result: insertion sort. \<open>placed\<close> is the part of the range that is
  in order already; the next element goes before the first element of it that is not
  less than it. When the comparator throws the range is left as it is at that moment.
  This is not the algorithm of a library: it places an element before the elements
  equivalent to it, where the sort of the GNU C++ library, embedded below, leaves a few
  equivalent elements as they are.
\<close>

fun insert_before :: "'a compare \<Rightarrow> 'a \<Rightarrow> 'a list \<Rightarrow> geo_exception + 'a list" where
  "insert_before cmp x [] = Inr [x]"
| "insert_before cmp x (y # ys) =
     (case cmp y x of
        Inl e \<Rightarrow> Inl e
      | Inr lt \<Rightarrow>
          if lt then (case insert_before cmp x ys of Inl e \<Rightarrow> Inl e | Inr zs \<Rightarrow> Inr (y # zs))
          else Inr (x # y # ys))"

fun insertion_sort_from :: "'a compare \<Rightarrow> 'a list \<Rightarrow> 'a list \<Rightarrow> 'a list \<times> geo_exception option" where
  "insertion_sort_from cmp placed [] = (placed, None)"
| "insertion_sort_from cmp placed (x # rest) =
     (case insert_before cmp x placed of
        Inl e \<Rightarrow> (placed @ x # rest, Some e)
      | Inr placed' \<Rightarrow> insertion_sort_from cmp placed' rest)"

definition insertion_sort :: "'a std_sort" where
  "insertion_sort cmp xs = insertion_sort_from cmp [] xs"

subsection \<open>The std::sort of the GNU C++ library\<close>

text \<open>
  The promise of the standard leaves the order of equivalent elements open: what becomes
  of them is decided by the algorithm of the library. The algorithm of the GNU C++ library
  (libstdc++, in the headers \<^verbatim>\<open>bits/stl_algo.h\<close> and \<^verbatim>\<open>bits/stl_heap.h\<close>) is embedded here
  function by function, under the names the library gives them without the leading
  underscores (\<open>gnu_insertion_sort\<close> and \<open>gnu_sort\<close> for \<^verbatim>\<open>__insertion_sort\<close> and \<^verbatim>\<open>__sort\<close>);
  a loop of a function has the name of the function followed by \<open>_loop\<close>, and \<open>lst\<close> and
  \<open>cutp\<close> stand for \<^verbatim>\<open>__last\<close> and \<^verbatim>\<open>__cut\<close>.

  The vector is a list \<open>a\<close>, an iterator is an index into it, and a function that writes
  to the range returns the list afterwards. A run returns; or it throws the exception of
  the comparator, with the vector as it is at that moment (an element that has been moved
  out of its place is shown still in it); or it is undefined: the loops that the library
  calls unguarded rely on the comparator to stop them, and with a comparator that does
  not they read outside the vector.
\<close>

datatype ('a, 'r) run = Returned 'r | Thrown geo_exception "'a list" | Undefined

definition S_threshold :: nat where
  "S_threshold = 16"

fun lg :: "nat \<Rightarrow> nat" where
  "lg n = (if n < 2 then 0 else Suc (lg (n div 2)))"

declare lg.simps [simp del]

definition iter_swap :: "'a list \<Rightarrow> nat \<Rightarrow> nat \<Rightarrow> 'a list" where
  "iter_swap a i j = a[i := a ! j, j := a ! i]"

definition move_backward :: "'a list \<Rightarrow> nat \<Rightarrow> nat \<Rightarrow> nat \<Rightarrow> 'a list" where
  "move_backward a first lst d_last =
     take (d_last - (lst - first)) a @ take (lst - first) (drop first a) @ drop d_last a"

text \<open>
  \<^verbatim>\<open>__unguarded_linear_insert\<close> moves the element at \<open>lst\<close> down past the elements it is less
  than; \<^verbatim>\<open>__insertion_sort\<close> (here \<open>gnu_insertion_sort\<close>) places the elements of the range one
  by one, an element less than the first at the front; \<^verbatim>\<open>__final_insertion_sort\<close> runs it
  on the first \<open>S_threshold\<close> elements and the unguarded insertion on the others.
\<close>

fun unguarded_linear_insert_loop :: "'a compare \<Rightarrow> 'a \<Rightarrow> 'a list \<Rightarrow> nat \<Rightarrow> ('a, 'a list) run" where
  "unguarded_linear_insert_loop cmp val a lst =
     (if lst = 0 then Undefined
      else
        (case cmp val (a ! (lst - 1)) of
           Inl e \<Rightarrow> Thrown e a
         | Inr lt \<Rightarrow>
             if lt then unguarded_linear_insert_loop cmp val (a[lst := a ! (lst - 1)]) (lst - 1)
             else Returned (a[lst := val])))"

declare unguarded_linear_insert_loop.simps [simp del]

definition unguarded_linear_insert :: "'a compare \<Rightarrow> 'a list \<Rightarrow> nat \<Rightarrow> ('a, 'a list) run" where
  "unguarded_linear_insert cmp a lst = unguarded_linear_insert_loop cmp (a ! lst) a lst"

function insertion_sort_loop ::
  "'a compare \<Rightarrow> 'a list \<Rightarrow> nat \<Rightarrow> nat \<Rightarrow> nat \<Rightarrow> ('a, 'a list) run" where
  "insertion_sort_loop cmp a first i lst =
     (if i < lst then
        (case cmp (a ! i) (a ! first) of
           Inl e \<Rightarrow> Thrown e a
         | Inr lt \<Rightarrow>
             if lt then
               insertion_sort_loop cmp ((move_backward a first i (Suc i))[first := a ! i])
                 first (Suc i) lst
             else
               (case unguarded_linear_insert cmp a i of
                  Returned a' \<Rightarrow> insertion_sort_loop cmp a' first (Suc i) lst
                | Thrown e a' \<Rightarrow> Thrown e a'
                | Undefined \<Rightarrow> Undefined))
      else Returned a)"
  by pat_completeness auto
termination
  by (relation "measure (\<lambda>(cmp, a, first, i, lst). lst - i)") auto

declare insertion_sort_loop.simps [simp del]

definition gnu_insertion_sort :: "'a compare \<Rightarrow> 'a list \<Rightarrow> nat \<Rightarrow> nat \<Rightarrow> ('a, 'a list) run" where
  "gnu_insertion_sort cmp a first lst =
     (if first = lst then Returned a else insertion_sort_loop cmp a first (Suc first) lst)"

function unguarded_insertion_sort ::
  "'a compare \<Rightarrow> 'a list \<Rightarrow> nat \<Rightarrow> nat \<Rightarrow> ('a, 'a list) run" where
  "unguarded_insertion_sort cmp a i lst =
     (if i < lst then
        (case unguarded_linear_insert cmp a i of
           Returned a' \<Rightarrow> unguarded_insertion_sort cmp a' (Suc i) lst
         | Thrown e a' \<Rightarrow> Thrown e a'
         | Undefined \<Rightarrow> Undefined)
      else Returned a)"
  by pat_completeness auto
termination
  by (relation "measure (\<lambda>(cmp, a, i, lst). lst - i)") auto

declare unguarded_insertion_sort.simps [simp del]

definition final_insertion_sort :: "'a compare \<Rightarrow> 'a list \<Rightarrow> nat \<Rightarrow> nat \<Rightarrow> ('a, 'a list) run" where
  "final_insertion_sort cmp a first lst =
     (if lst - first > S_threshold then
        (case gnu_insertion_sort cmp a first (first + S_threshold) of
           Returned a' \<Rightarrow> unguarded_insertion_sort cmp a' (first + S_threshold) lst
         | Thrown e a' \<Rightarrow> Thrown e a'
         | Undefined \<Rightarrow> Undefined)
      else gnu_insertion_sort cmp a first lst)"

text \<open>
  The partition step: \<^verbatim>\<open>__move_median_to_first\<close> exchanges the first element with the
  median of three, and \<^verbatim>\<open>__unguarded_partition\<close> exchanges elements from both ends around
  this pivot.
\<close>

definition move_median_to_first ::
  "'a compare \<Rightarrow> 'a list \<Rightarrow> nat \<Rightarrow> nat \<Rightarrow> nat \<Rightarrow> nat \<Rightarrow> ('a, 'a list) run" where
  "move_median_to_first cmp v result a b c =
     (case cmp (v ! a) (v ! b) of
        Inl e \<Rightarrow> Thrown e v
      | Inr ab \<Rightarrow>
          if ab then
            (case cmp (v ! b) (v ! c) of
               Inl e \<Rightarrow> Thrown e v
             | Inr bc \<Rightarrow>
                 if bc then Returned (iter_swap v result b)
                 else
                   (case cmp (v ! a) (v ! c) of
                      Inl e \<Rightarrow> Thrown e v
                    | Inr ac \<Rightarrow>
                        if ac then Returned (iter_swap v result c)
                        else Returned (iter_swap v result a)))
          else
            (case cmp (v ! a) (v ! c) of
               Inl e \<Rightarrow> Thrown e v
             | Inr ac \<Rightarrow>
                 if ac then Returned (iter_swap v result a)
                 else
                   (case cmp (v ! b) (v ! c) of
                      Inl e \<Rightarrow> Thrown e v
                    | Inr bc \<Rightarrow>
                        if bc then Returned (iter_swap v result c)
                        else Returned (iter_swap v result b))))"

function unguarded_partition_first_loop ::
  "'a compare \<Rightarrow> 'a list \<Rightarrow> nat \<Rightarrow> nat \<Rightarrow> ('a, nat) run" where
  "unguarded_partition_first_loop cmp a first pivot =
     (if length a \<le> first then Undefined
      else
        (case cmp (a ! first) (a ! pivot) of
           Inl e \<Rightarrow> Thrown e a
         | Inr lt \<Rightarrow>
             if lt then unguarded_partition_first_loop cmp a (Suc first) pivot
             else Returned first))"
  by pat_completeness auto
termination
  by (relation "measure (\<lambda>(cmp, a, first, pivot). length a - first)") auto

declare unguarded_partition_first_loop.simps [simp del]

fun unguarded_partition_last_loop ::
  "'a compare \<Rightarrow> 'a list \<Rightarrow> nat \<Rightarrow> nat \<Rightarrow> ('a, nat) run" where
  "unguarded_partition_last_loop cmp a lst pivot =
     (case cmp (a ! pivot) (a ! lst) of
        Inl e \<Rightarrow> Thrown e a
      | Inr lt \<Rightarrow>
          if lt then
            (if lst = 0 then Undefined
             else unguarded_partition_last_loop cmp a (lst - 1) pivot)
          else Returned lst)"

declare unguarded_partition_last_loop.simps [simp del]

function unguarded_partition ::
  "'a compare \<Rightarrow> 'a list \<Rightarrow> nat \<Rightarrow> nat \<Rightarrow> nat \<Rightarrow> ('a, 'a list \<times> nat) run" where
  "unguarded_partition cmp a first lst pivot =
     (case unguarded_partition_first_loop cmp a first pivot of
        Thrown e a' \<Rightarrow> Thrown e a'
      | Undefined \<Rightarrow> Undefined
      | Returned first' \<Rightarrow>
          if lst = 0 then Undefined
          else
            (case unguarded_partition_last_loop cmp a (lst - 1) pivot of
               Thrown e a' \<Rightarrow> Thrown e a'
             | Undefined \<Rightarrow> Undefined
             | Returned lst' \<Rightarrow>
                 if \<not> first' < lst' then Returned (a, first')
                 else unguarded_partition cmp (iter_swap a first' lst') (Suc first') lst' pivot))"
  by pat_completeness auto
termination
proof (relation "measure (\<lambda>(cmp, a, first, lst, pivot). lst)")
  show "wf (measure (\<lambda>(cmp, a, first, lst, pivot). lst))" by simp
next
  fix cmp :: "'a compare" and a first lst pivot first' lst'
  assume "lst \<noteq> 0"
    and r: "unguarded_partition_last_loop cmp a (lst - 1) pivot = Returned lst'"
  have "l' \<le> l" if "unguarded_partition_last_loop cmp a l pivot = Returned l'" for l l'
    using that
  proof (induction l)
    case 0
    then show ?case
      by (simp add: unguarded_partition_last_loop.simps split: sum.splits if_splits)
  next
    case (Suc k)
    then show ?case
      by (subst (asm) (2) unguarded_partition_last_loop.simps)
        (auto split: sum.splits if_splits)
  qed
  from this [OF r] \<open>lst \<noteq> 0\<close>
  show "((cmp, iter_swap a first' lst', Suc first', lst', pivot), cmp, a, first, lst, pivot)
      \<in> measure (\<lambda>(cmp, a, first, lst, pivot). lst)"
    by simp
qed

declare unguarded_partition.simps [simp del]

definition unguarded_partition_pivot ::
  "'a compare \<Rightarrow> 'a list \<Rightarrow> nat \<Rightarrow> nat \<Rightarrow> ('a, 'a list \<times> nat) run" where
  "unguarded_partition_pivot cmp a first lst =
     (let mid = first + (lst - first) div 2 in
      case move_median_to_first cmp a first (first + 1) mid (lst - 1) of
        Thrown e a' \<Rightarrow> Thrown e a'
      | Undefined \<Rightarrow> Undefined
      | Returned a' \<Rightarrow> unguarded_partition cmp a' (first + 1) lst first)"

text \<open>
  The heap sort that \<^verbatim>\<open>__introsort_loop\<close> falls back on when the depth limit is used up.
  A heap starts at \<open>first\<close>; \<open>holeIndex\<close>, \<open>topIndex\<close>, \<open>parent\<close> and \<open>secondChild\<close> count
  from there.
\<close>

function push_heap ::
  "'a compare \<Rightarrow> 'a list \<Rightarrow> nat \<Rightarrow> nat \<Rightarrow> nat \<Rightarrow> 'a \<Rightarrow> ('a, 'a list) run" where
  "push_heap cmp a first holeIndex topIndex val =
     (if holeIndex > topIndex then
        (case cmp (a ! (first + (holeIndex - 1) div 2)) val of
           Inl e \<Rightarrow> Thrown e a
         | Inr lt \<Rightarrow>
             if lt then
               push_heap cmp (a[first + holeIndex := a ! (first + (holeIndex - 1) div 2)])
                 first ((holeIndex - 1) div 2) topIndex val
             else Returned (a[first + holeIndex := val]))
      else Returned (a[first + holeIndex := val]))"
  by pat_completeness auto
termination
  by (relation "measure (\<lambda>(cmp, a, first, holeIndex, topIndex, val). holeIndex)") auto

declare push_heap.simps [simp del]

function adjust_heap_loop ::
  "'a compare \<Rightarrow> 'a list \<Rightarrow> nat \<Rightarrow> nat \<Rightarrow> nat \<Rightarrow> nat \<Rightarrow> ('a, 'a list \<times> nat \<times> nat) run" where
  "adjust_heap_loop cmp a first holeIndex len secondChild =
     (if secondChild < (len - 1) div 2 then
        (case cmp (a ! (first + 2 * (secondChild + 1))) (a ! (first + (2 * (secondChild + 1) - 1))) of
           Inl e \<Rightarrow> Thrown e a
         | Inr lt \<Rightarrow>
             if lt then
               adjust_heap_loop cmp (a[first + holeIndex := a ! (first + (2 * (secondChild + 1) - 1))])
                 first (2 * (secondChild + 1) - 1) len (2 * (secondChild + 1) - 1)
             else
               adjust_heap_loop cmp (a[first + holeIndex := a ! (first + 2 * (secondChild + 1))])
                 first (2 * (secondChild + 1)) len (2 * (secondChild + 1)))
      else Returned (a, holeIndex, secondChild))"
  by pat_completeness auto
termination
  by (relation "measure (\<lambda>(cmp, a, first, holeIndex, len, secondChild). len - secondChild)") auto

declare adjust_heap_loop.simps [simp del]

definition adjust_heap ::
  "'a compare \<Rightarrow> 'a list \<Rightarrow> nat \<Rightarrow> nat \<Rightarrow> nat \<Rightarrow> 'a \<Rightarrow> ('a, 'a list) run" where
  "adjust_heap cmp a first holeIndex len val =
     (case adjust_heap_loop cmp a first holeIndex len holeIndex of
        Thrown e a' \<Rightarrow> Thrown e a'
      | Undefined \<Rightarrow> Undefined
      | Returned (a', holeIndex', secondChild) \<Rightarrow>
          if len mod 2 = 0 \<and> secondChild = (len - 2) div 2 then
            push_heap cmp (a'[first + holeIndex' := a' ! (first + (2 * (secondChild + 1) - 1))])
              first (2 * (secondChild + 1) - 1) holeIndex val
          else push_heap cmp a' first holeIndex' holeIndex val)"

definition pop_heap :: "'a compare \<Rightarrow> 'a list \<Rightarrow> nat \<Rightarrow> nat \<Rightarrow> nat \<Rightarrow> ('a, 'a list) run" where
  "pop_heap cmp a first lst result =
     adjust_heap cmp (a[result := a ! first]) first 0 (lst - first) (a ! result)"

function make_heap_loop ::
  "'a compare \<Rightarrow> 'a list \<Rightarrow> nat \<Rightarrow> nat \<Rightarrow> nat \<Rightarrow> ('a, 'a list) run" where
  "make_heap_loop cmp a first len parent =
     (case adjust_heap cmp a first parent len (a ! (first + parent)) of
        Thrown e a' \<Rightarrow> Thrown e a'
      | Undefined \<Rightarrow> Undefined
      | Returned a' \<Rightarrow>
          if parent = 0 then Returned a' else make_heap_loop cmp a' first len (parent - 1))"
  by pat_completeness auto
termination
  by (relation "measure (\<lambda>(cmp, a, first, len, parent). parent)") auto

declare make_heap_loop.simps [simp del]

definition make_heap :: "'a compare \<Rightarrow> 'a list \<Rightarrow> nat \<Rightarrow> nat \<Rightarrow> ('a, 'a list) run" where
  "make_heap cmp a first lst =
     (if lst - first < 2 then Returned a
      else make_heap_loop cmp a first (lst - first) ((lst - first - 2) div 2))"

function heap_select_loop ::
  "'a compare \<Rightarrow> 'a list \<Rightarrow> nat \<Rightarrow> nat \<Rightarrow> nat \<Rightarrow> nat \<Rightarrow> ('a, 'a list) run" where
  "heap_select_loop cmp a first middle i lst =
     (if i < lst then
        (case cmp (a ! i) (a ! first) of
           Inl e \<Rightarrow> Thrown e a
         | Inr lt \<Rightarrow>
             if lt then
               (case pop_heap cmp a first middle i of
                  Thrown e a' \<Rightarrow> Thrown e a'
                | Undefined \<Rightarrow> Undefined
                | Returned a' \<Rightarrow> heap_select_loop cmp a' first middle (Suc i) lst)
             else heap_select_loop cmp a first middle (Suc i) lst)
      else Returned a)"
  by pat_completeness auto
termination
  by (relation "measure (\<lambda>(cmp, a, first, middle, i, lst). lst - i)") auto

declare heap_select_loop.simps [simp del]

definition heap_select :: "'a compare \<Rightarrow> 'a list \<Rightarrow> nat \<Rightarrow> nat \<Rightarrow> nat \<Rightarrow> ('a, 'a list) run" where
  "heap_select cmp a first middle lst =
     (case make_heap cmp a first middle of
        Thrown e a' \<Rightarrow> Thrown e a'
      | Undefined \<Rightarrow> Undefined
      | Returned a' \<Rightarrow> heap_select_loop cmp a' first middle middle lst)"

function sort_heap :: "'a compare \<Rightarrow> 'a list \<Rightarrow> nat \<Rightarrow> nat \<Rightarrow> ('a, 'a list) run" where
  "sort_heap cmp a first lst =
     (if lst - first > 1 then
        (case pop_heap cmp a first (lst - 1) (lst - 1) of
           Thrown e a' \<Rightarrow> Thrown e a'
         | Undefined \<Rightarrow> Undefined
         | Returned a' \<Rightarrow> sort_heap cmp a' first (lst - 1))
      else Returned a)"
  by pat_completeness auto
termination
  by (relation "measure (\<lambda>(cmp, a, first, lst). lst - first)") auto

declare sort_heap.simps [simp del]

definition partial_sort :: "'a compare \<Rightarrow> 'a list \<Rightarrow> nat \<Rightarrow> nat \<Rightarrow> nat \<Rightarrow> ('a, 'a list) run" where
  "partial_sort cmp a first middle lst =
     (case heap_select cmp a first middle lst of
        Thrown e a' \<Rightarrow> Thrown e a'
      | Undefined \<Rightarrow> Undefined
      | Returned a' \<Rightarrow> sort_heap cmp a' first middle)"

text \<open>
  \<^verbatim>\<open>__introsort_loop\<close> partitions until the ranges have \<open>S_threshold\<close> elements or fewer.
  \<open>gnu_sort\<close> is \<^verbatim>\<open>std::__sort\<close> on the whole vector, which is what \<^verbatim>\<open>std::sort\<close> calls; \<open>lg\<close> is
  the binary logarithm rounded down, \<^verbatim>\<open>std::__lg\<close>.
\<close>

function introsort_loop ::
  "'a compare \<Rightarrow> 'a list \<Rightarrow> nat \<Rightarrow> nat \<Rightarrow> nat \<Rightarrow> ('a, 'a list) run" where
  "introsort_loop cmp a first lst depth_limit =
     (if lst - first > S_threshold then
        (if depth_limit = 0 then partial_sort cmp a first lst lst
         else
           (case unguarded_partition_pivot cmp a first lst of
              Thrown e a' \<Rightarrow> Thrown e a'
            | Undefined \<Rightarrow> Undefined
            | Returned (a', cutp) \<Rightarrow>
                (case introsort_loop cmp a' cutp lst (depth_limit - 1) of
                   Thrown e a'' \<Rightarrow> Thrown e a''
                 | Undefined \<Rightarrow> Undefined
                 | Returned a'' \<Rightarrow> introsort_loop cmp a'' first cutp (depth_limit - 1))))
      else Returned a)"
  by pat_completeness auto
termination
  by (relation "measure (\<lambda>(cmp, a, first, lst, depth_limit). depth_limit)") auto

declare introsort_loop.simps [simp del]

definition gnu_sort :: "'a compare \<Rightarrow> 'a list \<Rightarrow> ('a, 'a list) run" where
  "gnu_sort cmp a =
     (if 0 \<noteq> length a then
        (case introsort_loop cmp a 0 (length a) (lg (length a) * 2) of
           Thrown e a' \<Rightarrow> Thrown e a'
         | Undefined \<Rightarrow> Undefined
         | Returned a' \<Rightarrow> final_insertion_sort cmp a' 0 (length a))
      else Returned a)"

text \<open>
  \<open>gnu_std_sort\<close> is this sort as the parameter of the sorting operations. Where the run is
  undefined there is no vector to give, and it hands back the vector it was given:
  every statement below about \<open>gnu_std_sort\<close> is on vectors on which the run returns.
\<close>

definition gnu_std_sort :: "'a std_sort" where
  "gnu_std_sort cmp xs =
     (case gnu_sort cmp xs of
        Returned ys \<Rightarrow> (ys, None)
      | Thrown e ys \<Rightarrow> (ys, Some e)
      | Undefined \<Rightarrow> (xs, None))"

section \<open>GeoObjectSorterStandard: the sorting operations\<close>

text \<open>
  Each operation sorts the vector it is given in place: the result is the vector
  afterwards and the exception that escaped, if any. The drift directions are those of
  \<^verbatim>\<open>geo::DriftDirection_t\<close>. Sorting from \<^verbatim>\<open>rbegin()\<close> to \<^verbatim>\<open>rend()\<close> sorts the vector read
  backwards.
\<close>

datatype DriftDirection_t = kUnknownDrift | kPosX | kNegX

definition SortAuxDets :: "AuxDetGeo std_sort \<Rightarrow> AuxDetGeo list \<Rightarrow> AuxDetGeo list \<times> geo_exception option" where
  "SortAuxDets srt adgeo = srt sortAuxDetStandard adgeo"

definition SortAuxDetSensitive ::
  "AuxDetSensitiveGeo std_sort \<Rightarrow> AuxDetSensitiveGeo list \<Rightarrow>
     AuxDetSensitiveGeo list \<times> geo_exception option" where
  "SortAuxDetSensitive srt adsgeo = srt sortAuxDetSensitiveStandard adsgeo"

definition SortCryostats ::
  "CryostatGeo std_sort \<Rightarrow> CryostatGeo list \<Rightarrow> CryostatGeo list \<times> geo_exception option" where
  "SortCryostats srt cgeo = srt (nothrow sortCryoStandard) cgeo"

definition SortTPCs :: "TPCGeo std_sort \<Rightarrow> TPCGeo list \<Rightarrow> TPCGeo list \<times> geo_exception option" where
  "SortTPCs srt tgeo = srt (nothrow sortTPCStandard) tgeo"

definition SortPlanes ::
  "PlaneGeo std_sort \<Rightarrow> PlaneGeo list \<Rightarrow> DriftDirection_t \<Rightarrow>
     PlaneGeo list \<times> geo_exception option" where
  "SortPlanes srt pgeo driftDir =
     (if driftDir = kPosX then
        (case srt (nothrow sortPlaneStandard) (rev pgeo) of (ys, exc) \<Rightarrow> (rev ys, exc))
      else if driftDir = kNegX then srt (nothrow sortPlaneStandard) pgeo
      else if driftDir = kUnknownDrift then (pgeo, Some DriftDirectionUnknown)
      else (pgeo, None))"

definition SortWires :: "WireGeo std_sort \<Rightarrow> WireGeo list \<Rightarrow> WireGeo list \<times> geo_exception option" where
  "SortWires srt wgeo = srt (nothrow sortWireStandard) wgeo"

section \<open>The orders in the words of the specification\<close>

text \<open>
  Wires, on the world coordinates of their centres: by \<open>z\<close> ascending when the \<open>z\<close> differ by
  more than the tolerance, otherwise by \<open>y\<close> ascending when the \<open>y\<close> differ by more than the
  tolerance, otherwise by \<open>x\<close> ascending. \<open>spec_wire_less\<close> is the comparison, and
  \<open>spec_wire_order c1 c2\<close> says that a wire at \<open>c1\<close> may stand before a wire at \<open>c2\<close>.
\<close>

definition spec_wire_less :: "vec3 \<Rightarrow> vec3 \<Rightarrow> bool" where
  "spec_wire_less c1 c2 \<longleftrightarrow>
     (if \<bar>Z c1 - Z c2\<bar> > 0.001 then Z c1 < Z c2
      else if \<bar>Y c1 - Y c2\<bar> > 0.001 then Y c1 < Y c2
      else X c1 < X c2)"

definition spec_wire_order :: "vec3 \<Rightarrow> vec3 \<Rightarrow> bool" where
  "spec_wire_order c1 c2 \<longleftrightarrow>
     (if \<bar>Z c1 - Z c2\<bar> > 0.001 then Z c1 < Z c2
      else if \<bar>Y c1 - Y c2\<bar> > 0.001 then Y c1 < Y c2
      else X c1 \<le> X c2)"

text \<open>
  Planes, on the world coordinates of their local origins. \<open>spec_plane_order\<close> is the order
  as the specification states it: along the drift direction in \<open>x\<close>; when the \<open>x\<close> differ by
  at most the tolerance, by \<open>z\<close> ascending; when the \<open>z\<close> too differ by at most the tolerance,
  by \<open>y\<close> ascending, for both drift directions. \<open>plane_order_along_drift\<close> differs from it
  for the drift towards positive \<open>x\<close>, where the order among planes of equal \<open>x\<close> is
  descending in \<open>z\<close> and then in \<open>y\<close>.
\<close>

definition spec_plane_order :: "DriftDirection_t \<Rightarrow> vec3 \<Rightarrow> vec3 \<Rightarrow> bool" where
  "spec_plane_order driftDir o1 o2 \<longleftrightarrow>
     (if \<bar>X o1 - X o2\<bar> > 0.001 then (if driftDir = kNegX then X o1 > X o2 else X o1 < X o2)
      else if \<bar>Z o1 - Z o2\<bar> > 0.001 then Z o1 < Z o2
      else Y o1 \<le> Y o2)"

definition plane_order_along_drift :: "DriftDirection_t \<Rightarrow> vec3 \<Rightarrow> vec3 \<Rightarrow> bool" where
  "plane_order_along_drift driftDir o1 o2 \<longleftrightarrow>
     (if driftDir = kNegX then
        (if \<bar>X o1 - X o2\<bar> > 0.001 then X o1 > X o2
         else if \<bar>Z o1 - Z o2\<bar> > 0.001 then Z o1 < Z o2
         else Y o1 \<le> Y o2)
      else
        (if \<bar>X o1 - X o2\<bar> > 0.001 then X o1 < X o2
         else if \<bar>Z o1 - Z o2\<bar> > 0.001 then Z o1 > Z o2
         else Y o1 \<ge> Y o2))"

text \<open>
  The scans of the queries all have one shape: the index of the first element of a list
  that passes a test, counted from \<open>k\<close>. This function is the yardstick the loops above are
  compared with.
\<close>

fun first_match :: "('a \<Rightarrow> bool) \<Rightarrow> 'a list \<Rightarrow> nat \<Rightarrow> nat option" where
  "first_match P [] k = None"
| "first_match P (x # xs) k = (if P x then Some k else first_match P xs (Suc k))"

section \<open>Channel mapping\<close>

lemma ChannelToAuxDet_loop_miss:
  "(\<forall>itr \<in> set tbl. snd itr \<noteq> detName) \<longleftrightarrow>
     ChannelToAuxDet_loop tbl detName = Inl (NoAuxDetGeoMatchingName detName)"
  by (induction tbl) auto

lemma ChannelToAuxDet_loop_result:
  "(\<exists>idx. ChannelToAuxDet_loop tbl detName = Inr idx) \<or>
     ChannelToAuxDet_loop tbl detName = Inl (NoAuxDetGeoMatchingName detName)"
  by (induction tbl) auto

lemma ChannelToAuxDet_loop_first:
  "i < length tbl \<Longrightarrow> snd (tbl ! i) = detName \<Longrightarrow> \<forall>j < i. snd (tbl ! j) \<noteq> detName \<Longrightarrow>
     ChannelToAuxDet_loop tbl detName = Inr (fst (tbl ! i))"
proof (induction tbl arbitrary: i)
  case Nil
  then show ?case by simp
next
  case (Cons itr rest)
  show ?case
  proof (cases i)
    case 0
    with Cons.prems show ?thesis by simp
  next
    case (Suc k)
    with Cons.prems have "snd itr \<noteq> detName" by auto
    moreover have "k < length rest" "snd (rest ! k) = detName"
      using Cons.prems Suc by auto
    moreover have "\<forall>j < k. snd (rest ! j) \<noteq> detName"
    proof (intro allI impI)
      fix j assume "j < k"
      then have "Suc j < i" using Suc by simp
      with Cons.prems(3) have "snd ((itr # rest) ! Suc j) \<noteq> detName" by blast
      then show "snd (rest ! j) \<noteq> detName" by simp
    qed
    ultimately show ?thesis using Cons.IH [of k] Suc by simp
  qed
qed

text \<open>
  C8. \<^const>\<open>ChannelToSensitiveAuxDet\<close> resolves the name first: a name that no entry of the
  name table carries fails with the no-such-element exception, and a name that the table
  carries resolves to the index \<open>idx\<close> of the first entry, in the order of the map, that
  carries it. Then, with no entry for \<open>idx\<close> in the sensitive-channel table the call fails
  with the no-sensitive-table exception; with the channel vector \<open>v\<close> of size \<open>N\<close> stored for
  \<open>idx\<close> (the keys of a \<^verbatim>\<open>std::map\<close> are distinct) it fails with the channel-out-of-range
  exception exactly when \<open>channel \<ge> N\<close>, and for \<open>channel < N\<close> it returns \<open>idx\<close> paired with
  the sensitive-volume index stored at that channel.
\<close>

theorem ChannelToSensitiveAuxDet_outcomes:
  "((\<forall>itr \<in> set (fADGeoToName alg). snd itr \<noteq> detName) \<longrightarrow>
      ChannelToSensitiveAuxDet alg auxDets detName channel = Inl (NoAuxDetGeoMatchingName detName)) \<and>
   (i < length (fADGeoToName alg) \<and> snd (fADGeoToName alg ! i) = detName \<and>
    (\<forall>j < i. snd (fADGeoToName alg ! j) \<noteq> detName) \<and> idx = fst (fADGeoToName alg ! i) \<longrightarrow>
      ChannelToAuxDet alg auxDets detName channel = Inr idx \<and>
      (idx \<notin> fst ` set (fADGeoToChannelAndSV alg) \<longrightarrow>
         ChannelToSensitiveAuxDet alg auxDets detName channel = Inl (NoSensitiveVolumeVector idx)) \<and>
      (distinct (map fst (fADGeoToChannelAndSV alg)) \<and> (idx, v) \<in> set (fADGeoToChannelAndSV alg) \<longrightarrow>
         ((\<exists>e. ChannelToSensitiveAuxDet alg auxDets detName channel = Inl e) \<longleftrightarrow>
            length v \<le> unat channel) \<and>
         (length v \<le> unat channel \<longrightarrow>
            ChannelToSensitiveAuxDet alg auxDets detName channel =
              Inl (ChannelNotInVector channel idx (length v))) \<and>
         (unat channel < length v \<longrightarrow>
            ChannelToSensitiveAuxDet alg auxDets detName channel =
              Inr (idx, snd (v ! unat channel)))))"
proof -
  have miss: "(\<forall>itr \<in> set (fADGeoToName alg). snd itr \<noteq> detName) \<longrightarrow>
      ChannelToSensitiveAuxDet alg auxDets detName channel = Inl (NoAuxDetGeoMatchingName detName)"
    using ChannelToAuxDet_loop_miss [of "fADGeoToName alg" detName]
    by (simp add: ChannelToSensitiveAuxDet_def ChannelToAuxDet_def)
  have hit: "ChannelToAuxDet alg auxDets detName channel = Inr idx"
    if "i < length (fADGeoToName alg)" "snd (fADGeoToName alg ! i) = detName"
      "\<forall>j < i. snd (fADGeoToName alg ! j) \<noteq> detName" "idx = fst (fADGeoToName alg ! i)"
    using ChannelToAuxDet_loop_first [OF that(1-3)] that(4) by (simp add: ChannelToAuxDet_def)
  have rest: "(idx \<notin> fst ` set (fADGeoToChannelAndSV alg) \<longrightarrow>
         ChannelToSensitiveAuxDet alg auxDets detName channel = Inl (NoSensitiveVolumeVector idx)) \<and>
      (distinct (map fst (fADGeoToChannelAndSV alg)) \<and> (idx, v) \<in> set (fADGeoToChannelAndSV alg) \<longrightarrow>
         ((\<exists>e. ChannelToSensitiveAuxDet alg auxDets detName channel = Inl e) \<longleftrightarrow>
            length v \<le> unat channel) \<and>
         (length v \<le> unat channel \<longrightarrow>
            ChannelToSensitiveAuxDet alg auxDets detName channel =
              Inl (ChannelNotInVector channel idx (length v))) \<and>
         (unat channel < length v \<longrightarrow>
            ChannelToSensitiveAuxDet alg auxDets detName channel =
              Inr (idx, snd (v ! unat channel))))"
    if r: "ChannelToAuxDet alg auxDets detName channel = Inr idx"
  proof (intro conjI impI)
    assume "idx \<notin> fst ` set (fADGeoToChannelAndSV alg)"
    then have "map_of (fADGeoToChannelAndSV alg) idx = None"
      by (simp add: map_of_eq_None_iff)
    with r show "ChannelToSensitiveAuxDet alg auxDets detName channel = Inl (NoSensitiveVolumeVector idx)"
      by (simp add: ChannelToSensitiveAuxDet_def)
  next
    assume "distinct (map fst (fADGeoToChannelAndSV alg)) \<and> (idx, v) \<in> set (fADGeoToChannelAndSV alg)"
    then have m: "map_of (fADGeoToChannelAndSV alg) idx = Some v" by simp
    with r show "(\<exists>e. ChannelToSensitiveAuxDet alg auxDets detName channel = Inl e) \<longleftrightarrow>
            length v \<le> unat channel"
      by (auto simp: ChannelToSensitiveAuxDet_def)
    { assume "length v \<le> unat channel"
      with r m show "ChannelToSensitiveAuxDet alg auxDets detName channel =
              Inl (ChannelNotInVector channel idx (length v))"
        by (simp add: ChannelToSensitiveAuxDet_def) }
    { assume "unat channel < length v"
      with r m show "ChannelToSensitiveAuxDet alg auxDets detName channel =
              Inr (idx, snd (v ! unat channel))"
        by (simp add: ChannelToSensitiveAuxDet_def) }
  qed
  show ?thesis
    using miss hit rest by blast
qed

text \<open>
  The table of the witness: the element named \<open>''det1''\<close> is the entry at position 1, has
  index 1 and two channels; with \<open>N = 2\<close>, channel \<open>N - 1 = 1\<close> succeeds and channel \<open>N = 2\<close>
  is out of range.
\<close>

theorem ChannelToSensitiveAuxDet_outcomes_witness:
  "ChannelToSensitiveAuxDet
     \<lparr>fADGeoToName = [(0, ''det0''), (1, ''det1'')],
      fADGeoToChannelAndSV = [(1, [(0, 7), (1, 5)])]\<rparr> [] ''det1'' 1 = Inr (1, 5) \<and>
   ChannelToSensitiveAuxDet
     \<lparr>fADGeoToName = [(0, ''det0''), (1, ''det1'')],
      fADGeoToChannelAndSV = [(1, [(0, 7), (1, 5)])]\<rparr> [] ''det1'' 2 =
     Inl (ChannelNotInVector 2 1 2) \<and>
   ChannelToSensitiveAuxDet
     \<lparr>fADGeoToName = [(0, ''det0''), (1, ''det1'')],
      fADGeoToChannelAndSV = [(1, [(0, 7), (1, 5)])]\<rparr> [] ''det0'' 0 =
     Inl (NoSensitiveVolumeVector 0) \<and>
   ChannelToSensitiveAuxDet
     \<lparr>fADGeoToName = [(0, ''det0''), (1, ''det1'')],
      fADGeoToChannelAndSV = [(1, [(0, 7), (1, 5)])]\<rparr> [] ''det2'' 0 =
     Inl (NoAuxDetGeoMatchingName ''det2'')"
proof -
  let ?alg = "\<lparr>fADGeoToName = [(0, ''det0''), (1, ''det1'')],
      fADGeoToChannelAndSV = [(1, [(0, 7), (1, 5)])]\<rparr>"
  have a: "ChannelToSensitiveAuxDet ?alg [] ''det1'' 1 = Inr (1, 5)"
    using ChannelToSensitiveAuxDet_outcomes [where alg = ?alg and detName = "''det1''"
        and auxDets = "[]" and channel = 1 and i = 1 and idx = 1 and v = "[(0, 7), (1, 5)]"]
    by simp
  have b: "ChannelToSensitiveAuxDet ?alg [] ''det1'' 2 = Inl (ChannelNotInVector 2 1 2)"
    using ChannelToSensitiveAuxDet_outcomes [where alg = ?alg and detName = "''det1''"
        and auxDets = "[]" and channel = 2 and i = 1 and idx = 1 and v = "[(0, 7), (1, 5)]"]
    by simp
  have c: "ChannelToSensitiveAuxDet ?alg [] ''det0'' 0 = Inl (NoSensitiveVolumeVector 0)"
    using ChannelToSensitiveAuxDet_outcomes [where alg = ?alg and detName = "''det0''"
        and auxDets = "[]" and channel = 0 and i = 0 and idx = 0]
    by simp
  have d: "ChannelToSensitiveAuxDet ?alg [] ''det2'' 0 = Inl (NoAuxDetGeoMatchingName ''det2'')"
    using ChannelToSensitiveAuxDet_outcomes [where alg = ?alg and detName = "''det2''"
        and auxDets = "[]" and channel = 0]
    by simp
  show ?thesis using a b c d by simp
qed

text \<open>
  C10. The result of \<^const>\<open>ChannelToAuxDet\<close> is a function of the requested name and the
  name table alone: two calls with the same name on algorithms with the same name table
  agree, whatever the lists of auxiliary detectors, the channels and the sensitive-channel
  tables are, and the common result is an index or the no-such-element exception for
  that name.
\<close>

theorem ChannelToAuxDet_depends_on_name_table_only:
  "fADGeoToName alg1 = fADGeoToName alg2 \<Longrightarrow>
     ChannelToAuxDet alg1 auxDets1 detName channel1 = ChannelToAuxDet alg2 auxDets2 detName channel2 \<and>
     ((\<exists>idx. ChannelToAuxDet alg1 auxDets1 detName channel1 = Inr idx) \<or>
      ChannelToAuxDet alg1 auxDets1 detName channel1 = Inl (NoAuxDetGeoMatchingName detName))"
  using ChannelToAuxDet_loop_result [of "fADGeoToName alg2" detName]
  by (simp add: ChannelToAuxDet_def)

theorem ChannelToAuxDet_depends_on_name_table_only_witness:
  "ChannelToAuxDet \<lparr>fADGeoToName = [(0, ''det0''), (1, ''det1'')], fADGeoToChannelAndSV = []\<rparr>
      [] ''det1'' 0 =
   ChannelToAuxDet
      \<lparr>fADGeoToName = [(0, ''det0''), (1, ''det1'')], fADGeoToChannelAndSV = [(1, [(0, 7)])]\<rparr>
      [\<lparr>ad_Name = ''volAuxDet0'', ad_WorldToLocal = (\<lambda>p. p), ad_HalfWidth1 = 1,
        ad_HalfWidth2 = 1, ad_HalfHeight = 1, ad_Length = 2, ad_SensitiveVolumes = []\<rparr>]
      ''det1'' 9"
  using ChannelToAuxDet_depends_on_name_table_only
    [of "\<lparr>fADGeoToName = [(0, ''det0''), (1, ''det1'')], fADGeoToChannelAndSV = []\<rparr>"
        "\<lparr>fADGeoToName = [(0, ''det0''), (1, ''det1'')], fADGeoToChannelAndSV = [(1, [(0, 7)])]\<rparr>"
        "[]" "''det1''" 0
        "[\<lparr>ad_Name = ''volAuxDet0'', ad_WorldToLocal = (\<lambda>p. p), ad_HalfWidth1 = 1,
          ad_HalfWidth2 = 1, ad_HalfHeight = 1, ad_Length = 2, ad_SensitiveVolumes = []\<rparr>]" 9]
  by simp

section \<open>Containment queries\<close>

lemma first_match_Some:
  "first_match P xs k = Some a \<longleftrightarrow>
     (k \<le> a \<and> a - k < length xs \<and> P (xs ! (a - k)) \<and> (\<forall>j < a - k. \<not> P (xs ! j)))"
proof (induction xs arbitrary: k)
  case Nil
  then show ?case by simp
next
  case (Cons x xs)
  show ?case
  proof (cases "P x")
    case True
    then show ?thesis by (auto simp: nth_Cons')
  next
    case False
    show ?thesis
    proof (cases "a \<le> k")
      case True
      then show ?thesis using False by (auto simp: Cons.IH)
    next
      case gt: False
      then obtain d where d: "a - k = Suc d" "a - Suc k = d" "k \<le> a" "Suc k \<le> a"
        by (metis Suc_diff_Suc Suc_leI diff_Suc_eq_diff_pred not_le_imp_less less_imp_le_nat diff_Suc_1)
      show ?thesis using False d
        by (simp add: Cons.IH All_less_Suc2)
    qed
  qed
qed

lemma first_match_None: "first_match P xs k = None \<longleftrightarrow> (\<forall>x \<in> set xs. \<not> P x)"
  by (induction xs arbitrary: k) auto

lemma NearestAuxDet_loop_first_match:
  "NearestAuxDet_loop auxDets point tolerance k =
     (case first_match (\<lambda>ad. NearestAuxDet_accepts ad point tolerance) auxDets k of
        None \<Rightarrow> Inl (CantFindAuxDet point) | Some a \<Rightarrow> Inr a)"
  by (induction auxDets arbitrary: k) auto

lemma NearestSensitiveAuxDet_loop_first_match:
  "NearestSensitiveAuxDet_loop svs point tolerance k =
     (case first_match (\<lambda>adsg. NearestSensitiveAuxDet_accepts adsg point tolerance) svs k of
        None \<Rightarrow> Inl (CantFindAuxDetSensitive point) | Some a \<Rightarrow> Inr a)"
  by (induction svs arbitrary: k) auto

lemma PositionToTPCptr_loop_first_match:
  "PositionToTPCptr_loop tpcs point wiggle k =
     first_match (\<lambda>tpc. tpc_ContainsPosition tpc point wiggle) tpcs k"
  by (induction tpcs arbitrary: k) auto

lemma band_eq:
  "len \<noteq> 0 \<Longrightarrow>
     0.5 * (hw1 + hw2) - z * (0.5 * (hw1 + hw2) - hw2) / (0.5 * len) =
     spec_band_half_width hw1 hw2 len (z::real)"
  by (simp add: spec_band_half_width_def field_simps)

lemma NearestAuxDet_accepts_spec:
  "ad_Length ad \<noteq> 0 \<Longrightarrow>
     NearestAuxDet_accepts ad point tolerance \<longleftrightarrow>
       spec_contains (ad_HalfWidth1 ad) (ad_HalfWidth2 ad) (ad_HalfHeight ad) (ad_Length ad)
         (ad_WorldToLocal ad point) tolerance"
  unfolding NearestAuxDet_accepts_def spec_contains_def Let_def
  using band_eq [of "ad_Length ad" "ad_HalfWidth1 ad" "ad_HalfWidth2 ad" "Z (ad_WorldToLocal ad point)"]
  by (auto simp: abs_le_iff xdiv_def xsub_def)

lemma NearestSensitiveAuxDet_accepts_spec:
  "ads_Length adsg \<noteq> 0 \<Longrightarrow>
     NearestSensitiveAuxDet_accepts adsg point tolerance \<longleftrightarrow>
       spec_contains (ads_HalfWidth1 adsg) (ads_HalfWidth2 adsg) (ads_HalfHeight adsg)
         (ads_Length adsg) (ads_WorldToLocal adsg point) tolerance"
  unfolding NearestSensitiveAuxDet_accepts_def spec_contains_def Let_def
  using band_eq [of "ads_Length adsg" "ads_HalfWidth1 adsg" "ads_HalfWidth2 adsg"
      "Z (ads_WorldToLocal adsg point)"]
  by (auto simp: abs_le_iff xdiv_def xsub_def)

lemma spec_band_half_width_faces:
  "len \<noteq> 0 \<Longrightarrow>
     spec_band_half_width hw1 hw2 len (- len / 2) = hw1 \<and>
     spec_band_half_width hw1 hw2 len (len / 2) = hw2 \<and>
     spec_band_half_width hw1 hw2 len 0 = (hw1 + hw2) / 2"
  by (simp add: spec_band_half_width_def field_simps)

lemma spec_band_half_width_box: "spec_band_half_width hw hw len z = hw"
  by (simp add: spec_band_half_width_def)

lemma NearestAuxDet_accepts_zero_length_box:
  "ad_Length ad = 0 \<Longrightarrow> ad_HalfWidth1 ad = ad_HalfWidth2 ad \<Longrightarrow>
     \<not> NearestAuxDet_accepts ad point tolerance"
  by (simp add: NearestAuxDet_accepts_def xdiv_def xsub_def Let_def)

lemma NearestSensitiveAuxDet_accepts_zero_length_box:
  "ads_Length adsg = 0 \<Longrightarrow> ads_HalfWidth1 adsg = ads_HalfWidth2 adsg \<Longrightarrow>
     \<not> NearestSensitiveAuxDet_accepts adsg point tolerance"
  by (simp add: NearestSensitiveAuxDet_accepts_def xdiv_def xsub_def Let_def)

text \<open>
  C2, as the specification states it, fails for a detector of length zero: a box of
  half-width 1, half-height 1 and length 0 contains its own origin by the test of the box,
  \<open>\<bar>z\<bar> \<le> 0\<close>, \<open>\<bar>y\<bar> \<le> 1\<close>, \<open>\<bar>x\<bar> \<le> 1\<close>, and the code rejects the point: the bound on \<open>x\<close> is
  computed from \<open>0 / 0\<close>, which is NaN, and every comparison with it is false.
\<close>

theorem zero_length_box_rejects_its_origin:
  "\<not> (NearestAuxDet_accepts
        \<lparr>ad_Name = ''volAuxDet0'', ad_WorldToLocal = (\<lambda>p. p), ad_HalfWidth1 = 1,
         ad_HalfWidth2 = 1, ad_HalfHeight = 1, ad_Length = 0, ad_SensitiveVolumes = []\<rparr>
        (0, 0, 0) 0 \<longleftrightarrow>
      \<bar>Z (0, 0, 0)\<bar> \<le> (0::real) / 2 + 0 \<and> \<bar>Y (0, 0, 0)\<bar> \<le> (1::real) + 0 \<and>
      \<bar>X (0, 0, 0)\<bar> \<le> (1::real) + 0)"
  by (simp add: NearestAuxDet_accepts_def xdiv_def xsub_def)

text \<open>
  C2, amended. For a detector (or sensitive volume) of length other than zero, the
  containment test of the code accepts a point exactly when, in the local frame, \<open>z\<close> is
  within \<open>\<plusminus>(Length / 2 + tolerance)\<close>, \<open>y\<close> within \<open>\<plusminus>(HalfHeight + tolerance)\<close> and \<open>x\<close> within
  \<open>\<plusminus>\<close> the half-width of the band widened by the tolerance. The half-width is the linear
  interpolation in \<open>z\<close> that is \<open>HalfWidth1\<close> at \<open>z = - Length / 2\<close>, \<open>HalfWidth2\<close> at
  \<open>z = Length / 2\<close> and \<open>(HalfWidth1 + HalfWidth2) / 2\<close> at the centre. With
  \<open>HalfWidth1 = HalfWidth2\<close> the test is that of the box, \<open>\<bar>x\<bar> \<le> HalfWidth1 + tolerance\<close>. A
  box of length zero accepts no point.
\<close>

theorem containment_test_is_interpolated_band:
  "(ad_Length ad \<noteq> 0 \<longrightarrow>
      (NearestAuxDet_accepts ad point tolerance \<longleftrightarrow>
         spec_contains (ad_HalfWidth1 ad) (ad_HalfWidth2 ad) (ad_HalfHeight ad) (ad_Length ad)
           (ad_WorldToLocal ad point) tolerance)) \<and>
   (ads_Length adsg \<noteq> 0 \<longrightarrow>
      (NearestSensitiveAuxDet_accepts adsg point tolerance \<longleftrightarrow>
         spec_contains (ads_HalfWidth1 adsg) (ads_HalfWidth2 adsg) (ads_HalfHeight adsg)
           (ads_Length adsg) (ads_WorldToLocal adsg point) tolerance)) \<and>
   (len \<noteq> 0 \<longrightarrow>
      spec_band_half_width hw1 hw2 len (- len / 2) = hw1 \<and>
      spec_band_half_width hw1 hw2 len (len / 2) = hw2 \<and>
      spec_band_half_width hw1 hw2 len 0 = (hw1 + hw2) / 2) \<and>
   (ad_Length ad \<noteq> 0 \<and> ad_HalfWidth1 ad = ad_HalfWidth2 ad \<longrightarrow>
      (NearestAuxDet_accepts ad point tolerance \<longleftrightarrow>
         \<bar>Z (ad_WorldToLocal ad point)\<bar> \<le> ad_Length ad / 2 + tolerance \<and>
         \<bar>Y (ad_WorldToLocal ad point)\<bar> \<le> ad_HalfHeight ad + tolerance \<and>
         \<bar>X (ad_WorldToLocal ad point)\<bar> \<le> ad_HalfWidth1 ad + tolerance)) \<and>
   (ads_Length adsg \<noteq> 0 \<and> ads_HalfWidth1 adsg = ads_HalfWidth2 adsg \<longrightarrow>
      (NearestSensitiveAuxDet_accepts adsg point tolerance \<longleftrightarrow>
         \<bar>Z (ads_WorldToLocal adsg point)\<bar> \<le> ads_Length adsg / 2 + tolerance \<and>
         \<bar>Y (ads_WorldToLocal adsg point)\<bar> \<le> ads_HalfHeight adsg + tolerance \<and>
         \<bar>X (ads_WorldToLocal adsg point)\<bar> \<le> ads_HalfWidth1 adsg + tolerance)) \<and>
   (ad_Length ad = 0 \<and> ad_HalfWidth1 ad = ad_HalfWidth2 ad \<longrightarrow>
      \<not> NearestAuxDet_accepts ad point tolerance) \<and>
   (ads_Length adsg = 0 \<and> ads_HalfWidth1 adsg = ads_HalfWidth2 adsg \<longrightarrow>
      \<not> NearestSensitiveAuxDet_accepts adsg point tolerance)"
proof -
  have box_ad: "NearestAuxDet_accepts ad point tolerance \<longleftrightarrow>
         \<bar>Z (ad_WorldToLocal ad point)\<bar> \<le> ad_Length ad / 2 + tolerance \<and>
         \<bar>Y (ad_WorldToLocal ad point)\<bar> \<le> ad_HalfHeight ad + tolerance \<and>
         \<bar>X (ad_WorldToLocal ad point)\<bar> \<le> ad_HalfWidth1 ad + tolerance"
    if "ad_Length ad \<noteq> 0" "ad_HalfWidth1 ad = ad_HalfWidth2 ad"
    using that NearestAuxDet_accepts_spec [of ad point tolerance]
    by (simp add: spec_contains_def spec_band_half_width_box)
  have box_ads: "NearestSensitiveAuxDet_accepts adsg point tolerance \<longleftrightarrow>
         \<bar>Z (ads_WorldToLocal adsg point)\<bar> \<le> ads_Length adsg / 2 + tolerance \<and>
         \<bar>Y (ads_WorldToLocal adsg point)\<bar> \<le> ads_HalfHeight adsg + tolerance \<and>
         \<bar>X (ads_WorldToLocal adsg point)\<bar> \<le> ads_HalfWidth1 adsg + tolerance"
    if "ads_Length adsg \<noteq> 0" "ads_HalfWidth1 adsg = ads_HalfWidth2 adsg"
    using that NearestSensitiveAuxDet_accepts_spec [of adsg point tolerance]
    by (simp add: spec_contains_def spec_band_half_width_box)
  show ?thesis
    using NearestAuxDet_accepts_spec [of ad point tolerance]
      NearestSensitiveAuxDet_accepts_spec [of adsg point tolerance]
      spec_band_half_width_faces [of len hw1 hw2] box_ad box_ads
      NearestAuxDet_accepts_zero_length_box [of ad point tolerance]
      NearestSensitiveAuxDet_accepts_zero_length_box [of adsg point tolerance]
    by blast
qed

text \<open>
  The witness: a trapezoid with half-widths 1 and 3, half-height 1 and length 4, in its own
  frame. At \<open>z = 1\<close> the band has half-width \<open>5/2\<close>, so \<open>x = 5/2\<close> is accepted there and
  rejected at \<open>z = 0\<close>, where the half-width is 2. The box of half-width 1 accepts
  \<open>x = 1\<close> and rejects \<open>x = 2\<close> at every \<open>z\<close> within the length. The box of length zero
  rejects its origin.
\<close>

theorem containment_test_is_interpolated_band_witness:
  "NearestAuxDet_accepts
     \<lparr>ad_Name = ''volAuxDet0'', ad_WorldToLocal = (\<lambda>p. p), ad_HalfWidth1 = 1,
      ad_HalfWidth2 = 3, ad_HalfHeight = 1, ad_Length = 4, ad_SensitiveVolumes = []\<rparr>
     (5 / 2, 0, 1) 0 \<and>
   \<not> NearestAuxDet_accepts
     \<lparr>ad_Name = ''volAuxDet0'', ad_WorldToLocal = (\<lambda>p. p), ad_HalfWidth1 = 1,
      ad_HalfWidth2 = 3, ad_HalfHeight = 1, ad_Length = 4, ad_SensitiveVolumes = []\<rparr>
     (5 / 2, 0, 0) 0 \<and>
   NearestSensitiveAuxDet_accepts
     \<lparr>ads_Name = ''volAuxDetSensitive0'', ads_WorldToLocal = (\<lambda>p. p), ads_HalfWidth1 = 1,
      ads_HalfWidth2 = 1, ads_HalfHeight = 1, ads_Length = 4\<rparr>
     (1, 0, 2) 0 \<and>
   \<not> NearestSensitiveAuxDet_accepts
     \<lparr>ads_Name = ''volAuxDetSensitive0'', ads_WorldToLocal = (\<lambda>p. p), ads_HalfWidth1 = 1,
      ads_HalfWidth2 = 1, ads_HalfHeight = 1, ads_Length = 4\<rparr>
     (2, 0, 2) 0 \<and>
   \<not> NearestAuxDet_accepts
     \<lparr>ad_Name = ''volAuxDet0'', ad_WorldToLocal = (\<lambda>p. p), ad_HalfWidth1 = 1,
      ad_HalfWidth2 = 1, ad_HalfHeight = 1, ad_Length = 0, ad_SensitiveVolumes = []\<rparr>
     (0, 0, 0) 0"
proof -
  let ?ad = "\<lparr>ad_Name = ''volAuxDet0'', ad_WorldToLocal = (\<lambda>p. p), ad_HalfWidth1 = 1,
      ad_HalfWidth2 = 3, ad_HalfHeight = 1, ad_Length = 4, ad_SensitiveVolumes = []\<rparr>"
  let ?flat = "\<lparr>ad_Name = ''volAuxDet0'', ad_WorldToLocal = (\<lambda>p. p), ad_HalfWidth1 = 1,
      ad_HalfWidth2 = 1, ad_HalfHeight = 1, ad_Length = 0, ad_SensitiveVolumes = []\<rparr>"
  let ?adsg = "\<lparr>ads_Name = ''volAuxDetSensitive0'', ads_WorldToLocal = (\<lambda>p. p),
      ads_HalfWidth1 = 1, ads_HalfWidth2 = 1, ads_HalfHeight = 1, ads_Length = 4\<rparr>"
  have a: "NearestAuxDet_accepts ?ad (5 / 2, 0, 1) 0"
    using containment_test_is_interpolated_band [of ?ad "(5 / 2, 0, 1)" 0 ?adsg 4 1 3]
    by (simp add: spec_contains_def spec_band_half_width_def)
  have b: "\<not> NearestAuxDet_accepts ?ad (5 / 2, 0, 0) 0"
    using containment_test_is_interpolated_band [of ?ad "(5 / 2, 0, 0)" 0 ?adsg 4 1 3]
    by (simp add: spec_contains_def spec_band_half_width_def)
  have c: "NearestSensitiveAuxDet_accepts ?adsg (1, 0, 2) 0"
    using containment_test_is_interpolated_band [of ?ad "(1, 0, 2)" 0 ?adsg 4 1 3]
    by (simp add: spec_contains_def spec_band_half_width_def)
  have d: "\<not> NearestSensitiveAuxDet_accepts ?adsg (2, 0, 2) 0"
    using containment_test_is_interpolated_band [of ?ad "(2, 0, 2)" 0 ?adsg 4 1 3]
    by (simp add: spec_contains_def spec_band_half_width_def)
  have e: "\<not> NearestAuxDet_accepts ?flat (0, 0, 0) 0"
    using containment_test_is_interpolated_band [of ?flat "(0, 0, 0)" 0 ?adsg 4 1 3]
    by simp
  show ?thesis using a b c d e by simp
qed

text \<open>
  C3. Each containment query returns the first candidate, in the order of the list, whose
  test accepts the point, whether or not a later candidate accepts it too. When no
  candidate accepts the point, \<^const>\<open>PositionToTPCptr\<close> returns the null pointer, and
  \<^const>\<open>PositionToTPC\<close> and \<^const>\<open>NearestAuxDet\<close> raise an exception that carries the point. A
  query fails exactly when no candidate accepts the point at the tolerance it was given:
  nothing is retried and the tolerance is not widened.
\<close>

theorem containment_query_first_match:
  "(PositionToTPCptr c point wiggle = Some i \<longleftrightarrow>
      i < length (fTPCs c) \<and> tpc_ContainsPosition (fTPCs c ! i) point wiggle \<and>
      (\<forall>j < i. \<not> tpc_ContainsPosition (fTPCs c ! j) point wiggle)) \<and>
   (PositionToTPCptr c point wiggle = None \<longleftrightarrow>
      (\<forall>tpc \<in> set (fTPCs c). \<not> tpc_ContainsPosition tpc point wiggle)) \<and>
   (PositionToTPC c point wiggle = Inr t \<longleftrightarrow>
      (\<exists>i. PositionToTPCptr c point wiggle = Some i \<and> t = fTPCs c ! i)) \<and>
   (PositionToTPC c point wiggle = Inl e \<longleftrightarrow>
      (\<forall>tpc \<in> set (fTPCs c). \<not> tpc_ContainsPosition tpc point wiggle) \<and>
      e = CantFindTPC point (fID c)) \<and>
   (NearestAuxDet point auxDets tolerance = Inr a \<longleftrightarrow>
      a < length auxDets \<and> NearestAuxDet_accepts (auxDets ! a) point tolerance \<and>
      (\<forall>b < a. \<not> NearestAuxDet_accepts (auxDets ! b) point tolerance)) \<and>
   (NearestAuxDet point auxDets tolerance = Inl e' \<longleftrightarrow>
      (\<forall>ad \<in> set auxDets. \<not> NearestAuxDet_accepts ad point tolerance) \<and>
      e' = CantFindAuxDet point)"
proof -
  have p1: "PositionToTPCptr c point wiggle = Some i \<longleftrightarrow>
      i < length (fTPCs c) \<and> tpc_ContainsPosition (fTPCs c ! i) point wiggle \<and>
      (\<forall>j < i. \<not> tpc_ContainsPosition (fTPCs c ! j) point wiggle)"
    by (simp add: PositionToTPCptr_def PositionToTPCptr_loop_first_match first_match_Some)
  have p2: "PositionToTPCptr c point wiggle = None \<longleftrightarrow>
      (\<forall>tpc \<in> set (fTPCs c). \<not> tpc_ContainsPosition tpc point wiggle)"
    by (simp add: PositionToTPCptr_def PositionToTPCptr_loop_first_match first_match_None)
  have p3: "PositionToTPC c point wiggle = Inr t \<longleftrightarrow>
      (\<exists>i. PositionToTPCptr c point wiggle = Some i \<and> t = fTPCs c ! i)"
    by (auto simp: PositionToTPC_def split: option.splits)
  have p4: "PositionToTPC c point wiggle = Inl e \<longleftrightarrow>
      (\<forall>tpc \<in> set (fTPCs c). \<not> tpc_ContainsPosition tpc point wiggle) \<and>
      e = CantFindTPC point (fID c)"
    unfolding p2 [symmetric] by (auto simp: PositionToTPC_def split: option.splits)
  have n1: "NearestAuxDet point auxDets tolerance = Inr a \<longleftrightarrow>
      a < length auxDets \<and> NearestAuxDet_accepts (auxDets ! a) point tolerance \<and>
      (\<forall>b < a. \<not> NearestAuxDet_accepts (auxDets ! b) point tolerance)"
  proof -
    have "NearestAuxDet point auxDets tolerance = Inr a \<longleftrightarrow>
        first_match (\<lambda>ad. NearestAuxDet_accepts ad point tolerance) auxDets 0 = Some a"
      by (simp add: NearestAuxDet_def NearestAuxDet_loop_first_match split: option.splits)
    then show ?thesis
      by (simp add: first_match_Some)
  qed
  have n2: "NearestAuxDet point auxDets tolerance = Inl e' \<longleftrightarrow>
      (\<forall>ad \<in> set auxDets. \<not> NearestAuxDet_accepts ad point tolerance) \<and>
      e' = CantFindAuxDet point"
    using first_match_None [of "\<lambda>ad. NearestAuxDet_accepts ad point tolerance" auxDets 0]
    by (auto simp: NearestAuxDet_def NearestAuxDet_loop_first_match split: option.splits)
  show ?thesis
    using p1 p2 p3 p4 n1 n2 by blast
qed

text \<open>
  The witness: two overlapping TPCs and two overlapping auxiliary detectors, one unit apart
  along \<open>x\<close>. The point at \<open>x = 1/2\<close> is inside both, and the queries return the first;
  the point at \<open>x = 5\<close> is inside neither.
\<close>

theorem containment_query_first_match_witness:
  "PositionToTPCptr
     \<lparr>cryo_LocalToWorld = (\<lambda>p. p),
      fTPCs = [\<lparr>tpc_LocalToWorld = (\<lambda>p. p), tpc_ContainsPosition = (\<lambda>p w. \<bar>X p\<bar> \<le> 1 * w)\<rparr>,
               \<lparr>tpc_LocalToWorld = (\<lambda>p. p), tpc_ContainsPosition = (\<lambda>p w. \<bar>X p - 1\<bar> \<le> 1 * w)\<rparr>],
      fOpDets = [], fID = 0\<rparr> (1 / 2, 0, 0) 1 = Some 0 \<and>
   PositionToTPC
     \<lparr>cryo_LocalToWorld = (\<lambda>p. p),
      fTPCs = [\<lparr>tpc_LocalToWorld = (\<lambda>p. p), tpc_ContainsPosition = (\<lambda>p w. \<bar>X p\<bar> \<le> 1 * w)\<rparr>,
               \<lparr>tpc_LocalToWorld = (\<lambda>p. p), tpc_ContainsPosition = (\<lambda>p w. \<bar>X p - 1\<bar> \<le> 1 * w)\<rparr>],
      fOpDets = [], fID = 0\<rparr> (5, 0, 0) 1 = Inl (CantFindTPC (5, 0, 0) 0) \<and>
   NearestAuxDet (1 / 2, 0, 0)
     [\<lparr>ad_Name = ''volAuxDet0'', ad_WorldToLocal = (\<lambda>p. p), ad_HalfWidth1 = 1,
       ad_HalfWidth2 = 1, ad_HalfHeight = 1, ad_Length = 2, ad_SensitiveVolumes = []\<rparr>,
      \<lparr>ad_Name = ''volAuxDet1'', ad_WorldToLocal = (\<lambda>p. (X p - 1, Y p, Z p)), ad_HalfWidth1 = 1,
       ad_HalfWidth2 = 1, ad_HalfHeight = 1, ad_Length = 2, ad_SensitiveVolumes = []\<rparr>] 0 = Inr 0 \<and>
   NearestAuxDet (5, 0, 0)
     [\<lparr>ad_Name = ''volAuxDet0'', ad_WorldToLocal = (\<lambda>p. p), ad_HalfWidth1 = 1,
       ad_HalfWidth2 = 1, ad_HalfHeight = 1, ad_Length = 2, ad_SensitiveVolumes = []\<rparr>,
      \<lparr>ad_Name = ''volAuxDet1'', ad_WorldToLocal = (\<lambda>p. (X p - 1, Y p, Z p)), ad_HalfWidth1 = 1,
       ad_HalfWidth2 = 1, ad_HalfHeight = 1, ad_Length = 2, ad_SensitiveVolumes = []\<rparr>] 0 =
     Inl (CantFindAuxDet (5, 0, 0))"
proof -
  let ?c = "\<lparr>cryo_LocalToWorld = (\<lambda>p. p),
      fTPCs = [\<lparr>tpc_LocalToWorld = (\<lambda>p. p), tpc_ContainsPosition = (\<lambda>p w. \<bar>X p\<bar> \<le> 1 * w)\<rparr>,
               \<lparr>tpc_LocalToWorld = (\<lambda>p. p), tpc_ContainsPosition = (\<lambda>p w. \<bar>X p - 1\<bar> \<le> 1 * w)\<rparr>],
      fOpDets = [], fID = 0\<rparr>"
  let ?ads = "[\<lparr>ad_Name = ''volAuxDet0'', ad_WorldToLocal = (\<lambda>p. p), ad_HalfWidth1 = 1,
       ad_HalfWidth2 = 1, ad_HalfHeight = 1, ad_Length = 2, ad_SensitiveVolumes = []\<rparr>,
      \<lparr>ad_Name = ''volAuxDet1'', ad_WorldToLocal = (\<lambda>p. (X p - 1, Y p, Z p)), ad_HalfWidth1 = 1,
       ad_HalfWidth2 = 1, ad_HalfHeight = 1, ad_Length = 2, ad_SensitiveVolumes = []\<rparr>]"
  have a: "PositionToTPCptr ?c (1 / 2, 0, 0) 1 = Some 0"
    using containment_query_first_match [where c = ?c and point = "(1 / 2, 0, 0)" and wiggle = 1 and i = 0]
    by simp
  have b: "PositionToTPC ?c (5, 0, 0) 1 = Inl (CantFindTPC (5, 0, 0) 0)"
    using containment_query_first_match [where c = ?c and point = "(5, 0, 0)" and wiggle = 1
        and e = "CantFindTPC (5, 0, 0) 0"]
    by simp
  have c: "NearestAuxDet (1 / 2, 0, 0) ?ads 0 = Inr 0"
    using containment_query_first_match [where point = "(1 / 2, 0, 0)" and auxDets = ?ads
        and tolerance = 0 and a = 0]
    by (simp add: NearestAuxDet_accepts_def xdiv_def xsub_def)
  have d: "NearestAuxDet (5, 0, 0) ?ads 0 = Inl (CantFindAuxDet (5, 0, 0))"
    using containment_query_first_match [where point = "(5, 0, 0)" and auxDets = ?ads
        and tolerance = 0 and e' = "CantFindAuxDet (5, 0, 0)"]
    by (simp add: NearestAuxDet_accepts_def xdiv_def xsub_def)
  show ?thesis using a b c d by simp
qed

section \<open>The closest optical detector\<close>

text \<open>
  What the loop of \<^const>\<open>GetClosestOpDet\<close> keeps: the distance it holds is the least seen so
  far, and the index it holds is where that distance was first seen.
\<close>

lemma GetClosestOpDet_loop_inv:
  "GetClosestOpDet_loop ods p k (cd, cdist) = (r, rd) \<Longrightarrow>
     rd \<le> cdist \<and> (\<forall>od \<in> set ods. rd \<le> opdet_DistanceToPoint od p) \<and>
     ((r = cd \<and> rd = cdist) \<or>
      (k \<le> r \<and> r - k < length ods \<and> opdet_DistanceToPoint (ods ! (r - k)) p = rd \<and> rd < cdist))"
proof (induction ods arbitrary: k cd cdist)
  case Nil
  then show ?case by simp
next
  case (Cons od ods)
  show ?case
  proof (cases "opdet_DistanceToPoint od p < cdist")
    case True
    with Cons.prems have "GetClosestOpDet_loop ods p (Suc k) (k, opdet_DistanceToPoint od p) = (r, rd)"
      by simp
    from Cons.IH [OF this] True show ?thesis
      by (auto simp: nth_Cons' Suc_diff_Suc less_Suc_eq_le)
  next
    case False
    with Cons.prems have "GetClosestOpDet_loop ods p (Suc k) (cd, cdist) = (r, rd)"
      by simp
    from Cons.IH [OF this] False show ?thesis
      by (auto simp: nth_Cons' Suc_diff_Suc less_Suc_eq_le)
  qed
qed

lemma GetClosestOpDet_minimal:
  assumes "fOpDets c \<noteq> []"
    and "\<forall>od \<in> set (fOpDets c). opdet_DistanceToPoint od p < DBL_MAX"
  shows "GetClosestOpDet c p < length (fOpDets c) \<and>
     (\<forall>od \<in> set (fOpDets c).
        opdet_DistanceToPoint (fOpDets c ! GetClosestOpDet c p) p \<le> opdet_DistanceToPoint od p)"
proof -
  obtain r rd where res: "GetClosestOpDet_loop (fOpDets c) p 0 (UINT_MAX, DBL_MAX) = (r, rd)"
    by (cases "GetClosestOpDet_loop (fOpDets c) p 0 (UINT_MAX, DBL_MAX)") 
  from GetClosestOpDet_loop_inv [OF res]
  have inv: "\<forall>od \<in> set (fOpDets c). rd \<le> opdet_DistanceToPoint od p"
    "(r = UINT_MAX \<and> rd = DBL_MAX) \<or>
      (r < length (fOpDets c) \<and> opdet_DistanceToPoint (fOpDets c ! r) p = rd \<and> rd < DBL_MAX)"
    by auto
  from assms obtain od where "od \<in> set (fOpDets c)" "opdet_DistanceToPoint od p < DBL_MAX"
    by (cases "fOpDets c") auto
  with inv(1) have "rd < DBL_MAX" by fastforce
  with inv show ?thesis
    by (auto simp: GetClosestOpDet_def res)
qed

text \<open>
  C4. On a cryostat with no optical detector \<^const>\<open>GetClosestOpDet\<close> returns the largest
  \<^verbatim>\<open>unsigned int\<close>, and \<^const>\<open>GetClosestOpDetPtr\<close> does not return the null pointer: the index
  is compared with the largest \<^verbatim>\<open>double\<close>, which it never equals, and the access to the
  detector of that index raises the out-of-range exception. (With detectors present,
  \<open>GetClosestOpDet_minimal\<close> above is the minimality the claim states.)
\<close>

theorem GetClosestOpDetPtr_empty_throws:
  "GetClosestOpDet (c\<lparr>fOpDets := []\<rparr>) point = UINT_MAX \<and>
   GetClosestOpDetPtr (c\<lparr>fOpDets := []\<rparr>) point = Inl (OpDetOutOfRange UINT_MAX)"
  by (simp add: GetClosestOpDetPtr_def GetClosestOpDet_def OpDet_def UINT_MAX_def DBL_MAX_def)

section \<open>Sorting: the comparator and the promise of std::sort\<close>

subsection \<open>Strict weak orderings\<close>


lemma swo_asym:
  "strict_weak_ordering_on S R \<Longrightarrow> a \<in> S \<Longrightarrow> b \<in> S \<Longrightarrow> R a b \<Longrightarrow> \<not> R b a"
  unfolding strict_weak_ordering_on_def by blast

lemma swo_negtrans:
  assumes "strict_weak_ordering_on S R" "a \<in> S" "b \<in> S" "c \<in> S" "\<not> R a b" "\<not> R b c"
  shows "\<not> R a c"
proof
  assume ac: "R a c"
  have irr: "\<And>x. x \<in> S \<Longrightarrow> \<not> R x x"
    and tr: "\<And>x y z. x \<in> S \<Longrightarrow> y \<in> S \<Longrightarrow> z \<in> S \<Longrightarrow> R x y \<Longrightarrow> R y z \<Longrightarrow> R x z"
    and eq: "\<And>x y z. x \<in> S \<Longrightarrow> y \<in> S \<Longrightarrow> z \<in> S \<Longrightarrow> \<not> R x y \<Longrightarrow> \<not> R y x \<Longrightarrow>
               \<not> R y z \<Longrightarrow> \<not> R z y \<Longrightarrow> \<not> R x z \<and> \<not> R z x"
    using assms(1) unfolding strict_weak_ordering_on_def by blast+
  have "\<not> R b a" using tr [OF assms(3,2,4) _ ac] assms(6) by blast
  moreover have "\<not> R c b" using tr [OF assms(2,4,3) ac] assms(5) by blast
  ultimately have "\<not> R a c" using eq [OF assms(2,3,4)] assms(5,6) by blast
  with ac show False by blast
qed

text \<open>A comparison by a key in a linear order is a strict weak ordering.\<close>

lemma swo_by_key:
  fixes f :: "'a \<Rightarrow> 'b::linorder"
  assumes "\<forall>a \<in> S. \<forall>b \<in> S. R a b \<longleftrightarrow> f a < f b"
  shows "strict_weak_ordering_on S R"
  unfolding strict_weak_ordering_on_def
proof (intro conjI ballI impI)
  fix a assume "a \<in> S"
  with assms show "\<not> R a a" by simp
next
  fix a b c assume "a \<in> S" "b \<in> S" "c \<in> S" "R a b \<and> R b c"
  with assms show "R a c" by (metis less_trans)
next
  fix a b c
  assume s: "a \<in> S" "b \<in> S" "c \<in> S"
    and e: "(\<not> R a b \<and> \<not> R b a) \<and> \<not> R b c \<and> \<not> R c b"
  from s e assms have "f a = f b" "f b = f c"
    by (metis not_less_iff_gr_or_eq)+
  with s assms show "\<not> R a c" "\<not> R c a" by simp_all
qed

subsection \<open>Insertion sort keeps the promise\<close>

lemma comp_less_nothrow [simp]: "comp_less (nothrow f) a b = f a b"
  by (simp add: comp_less_def nothrow_def)

lemma comp_total_on_nothrow [simp]: "comp_total_on S (nothrow f)"
  by (simp add: comp_total_on_def nothrow_def)

lemma insert_before_Inl:
  "insert_before cmp x ys = Inl e \<Longrightarrow> \<exists>y \<in> set ys. cmp y x = Inl e"
  by (induction ys) (auto split: sum.splits if_splits)

lemma insert_before_mset:
  "insert_before cmp x ys = Inr zs \<Longrightarrow> mset zs = add_mset x (mset ys)"
  by (induction ys arbitrary: zs) (auto split: sum.splits if_splits)

lemma insert_before_set:
  "insert_before cmp x ys = Inr zs \<Longrightarrow> set zs = insert x (set ys)"
  using insert_before_mset [of cmp x ys zs] by (metis set_mset_add_mset_insert set_mset_mset)

lemma insert_before_total:
  "comp_total_on S cmp \<Longrightarrow> x \<in> S \<Longrightarrow> set ys \<subseteq> S \<Longrightarrow> \<exists>zs. insert_before cmp x ys = Inr zs"
proof (induction ys)
  case Nil
  then show ?case by simp
next
  case (Cons y ys)
  then have "y \<in> S" "x \<in> S" by auto
  with Cons.prems(1) obtain r where "cmp y x = Inr r"
    unfolding comp_total_on_def by blast
  moreover from Cons obtain zs where "insert_before cmp x ys = Inr zs"
    by auto
  ultimately show ?case by simp
qed

lemma insert_before_sorted:
  assumes swo: "strict_weak_ordering_on S (comp_less cmp)"
    and x: "x \<in> S"
  shows "set ys \<subseteq> S \<Longrightarrow> sorted_wrt (\<lambda>a b. \<not> comp_less cmp b a) ys \<Longrightarrow>
     insert_before cmp x ys = Inr zs \<Longrightarrow> sorted_wrt (\<lambda>a b. \<not> comp_less cmp b a) zs"
proof (induction ys arbitrary: zs)
  case Nil
  then show ?case by auto
next
  case (Cons y ys)
  from Cons.prems obtain r where r: "cmp y x = Inr r"
    by (auto split: sum.splits)
  show ?case
  proof (cases r)
    case True
    with r Cons.prems obtain zs' where zs': "insert_before cmp x ys = Inr zs'" "zs = y # zs'"
      by (auto split: sum.splits)
    have "sorted_wrt (\<lambda>a b. \<not> comp_less cmp b a) zs'"
      using Cons.IH [OF _ _ zs'(1)] Cons.prems by simp
    moreover have "\<not> comp_less cmp x y"
      using swo_asym [OF swo, of y x] Cons.prems(1) x r True by (simp add: comp_less_def)
    ultimately show ?thesis
      using Cons.prems(2) zs' insert_before_set [OF zs'(1)] by auto
  next
    case False
    with r Cons.prems have zs: "zs = x # y # ys"
      by simp
    have yx: "\<not> comp_less cmp y x"
      using r False by (simp add: comp_less_def)
    have "\<not> comp_less cmp z x" if "z \<in> set ys" for z
      using swo_negtrans [OF swo, of z y x] that Cons.prems(1,2) x yx by auto
    then show ?thesis
      using zs yx Cons.prems(2) by auto
  qed
qed

lemma insertion_sort_from_exception:
  "snd (insertion_sort_from cmp placed rest) = Some e \<Longrightarrow>
     \<exists>a \<in> set placed \<union> set rest. \<exists>b \<in> set placed \<union> set rest. cmp a b = Inl e"
proof (induction rest arbitrary: placed)
  case Nil
  then show ?case by simp
next
  case (Cons x rest)
  show ?case
  proof (cases "insert_before cmp x placed")
    case (Inl e')
    with Cons.prems have "e' = e" by simp
    with Inl insert_before_Inl [of cmp x placed e] show ?thesis by auto
  next
    case (Inr placed')
    with Cons.prems have "snd (insertion_sort_from cmp placed' rest) = Some e" by simp
    from Cons.IH [OF this] insert_before_set [OF Inr] show ?thesis by auto
  qed
qed

lemma insertion_sort_from_sorts:
  assumes tot: "comp_total_on S cmp" and swo: "strict_weak_ordering_on S (comp_less cmp)"
  shows "set placed \<union> set rest \<subseteq> S \<Longrightarrow> sorted_wrt (\<lambda>a b. \<not> comp_less cmp b a) placed \<Longrightarrow>
     snd (insertion_sort_from cmp placed rest) = None \<and>
     mset (fst (insertion_sort_from cmp placed rest)) = mset placed + mset rest \<and>
     sorted_wrt (\<lambda>a b. \<not> comp_less cmp b a) (fst (insertion_sort_from cmp placed rest))"
proof (induction rest arbitrary: placed)
  case Nil
  then show ?case by simp
next
  case (Cons x rest)
  then have x: "x \<in> S" and sub: "set placed \<subseteq> S" by auto
  from insert_before_total [OF tot x sub]
  obtain placed' where p: "insert_before cmp x placed = Inr placed'" by blast
  have "set placed' \<union> set rest \<subseteq> S"
    using insert_before_set [OF p] Cons.prems(1) by auto
  moreover have "sorted_wrt (\<lambda>a b. \<not> comp_less cmp b a) placed'"
    using insert_before_sorted [OF swo x sub Cons.prems(2) p] .
  ultimately show ?case
    using Cons.IH [of placed'] p insert_before_mset [OF p] by simp
qed

lemma insertion_sort_contract: "std_sort_contract insertion_sort"
  unfolding std_sort_contract_def insertion_sort_def
proof (intro allI conjI impI)
  fix cmp :: "'a compare" and xs e
  assume "snd (insertion_sort_from cmp [] xs) = Some e"
  from insertion_sort_from_exception [OF this]
  show "\<exists>a \<in> set xs. \<exists>b \<in> set xs. cmp a b = Inl e" by simp
next
  fix cmp :: "'a compare" and xs
  assume a: "comp_total_on (set xs) cmp \<and> strict_weak_ordering_on (set xs) (comp_less cmp)"
  from insertion_sort_from_sorts [of "set xs" cmp "[]" xs] a
  show "snd (insertion_sort_from cmp [] xs) = None"
    and "mset (fst (insertion_sort_from cmp [] xs)) = mset xs"
    and "sorted_wrt (\<lambda>a b. \<not> comp_less cmp b a) (fst (insertion_sort_from cmp [] xs))"
    by simp_all
qed

subsection \<open>What follows from the promise\<close>

lemma std_sort_sorts:
  assumes "std_sort_contract srt" "comp_total_on (set xs) cmp"
    "strict_weak_ordering_on (set xs) (comp_less cmp)"
  shows "snd (srt cmp xs) = None" "mset (fst (srt cmp xs)) = mset xs"
    "sorted_wrt (\<lambda>a b. \<not> comp_less cmp b a) (fst (srt cmp xs))"
  using assms unfolding std_sort_contract_def by blast+

lemma std_sort_exception:
  "std_sort_contract srt \<Longrightarrow> snd (srt cmp xs) = Some e \<Longrightarrow>
     \<exists>a \<in> set xs. \<exists>b \<in> set xs. cmp a b = Inl e"
  unfolding std_sort_contract_def by blast

lemma sorted_permutation_unique:
  "sorted_wrt (\<lambda>a b. \<not> R b a) ys \<Longrightarrow> sorted_wrt (\<lambda>a b. \<not> R b a) zs \<Longrightarrow> mset ys = mset zs \<Longrightarrow>
     no_ties_on (set ys) R \<Longrightarrow> ys = zs"
proof (induction ys arbitrary: zs)
  case Nil
  then show ?case by simp
next
  case (Cons y ys)
  from Cons.prems(3) obtain z zs' where zs: "zs = z # zs'"
    by (cases zs) auto
  have sets: "set (y # ys) = set (z # zs')"
    using Cons.prems(3) zs by (metis set_mset_mset)
  have "y = z"
  proof (rule ccontr)
    assume ne: "y \<noteq> z"
    with sets have "z \<in> set ys" "y \<in> set zs'" by auto
    with Cons.prems(1,2) zs have "\<not> R z y" "\<not> R y z" by auto
    with Cons.prems(4) sets ne show False
      unfolding no_ties_on_def by (metis list.set_intros(1))
  qed
  moreover have "ys = zs'"
    using Cons.IH [of zs'] Cons.prems zs \<open>y = z\<close>
    by (auto simp: no_ties_on_def)
  ultimately show ?case using zs by simp
qed

lemma std_sort_unique:
  assumes "std_sort_contract srt" "comp_total_on (set xs) cmp"
    "strict_weak_ordering_on (set xs) (comp_less cmp)" "no_ties_on (set xs) (comp_less cmp)"
    "mset ys = mset xs" "sorted_wrt (\<lambda>a b. \<not> comp_less cmp b a) ys"
  shows "srt cmp xs = (ys, None)"
proof -
  have "set ys = set xs" using assms(5) by (metis set_mset_mset)
  then have "ys = fst (srt cmp xs)"
    using sorted_permutation_unique [of "comp_less cmp" ys "fst (srt cmp xs)"]
      std_sort_sorts [OF assms(1-3)] assms(4-6) by simp
  then show ?thesis
    using std_sort_sorts(1) [OF assms(1-3)] by (simp add: prod_eq_iff)
qed

section \<open>The order of the wires\<close>

lemma sortWireStandard_spec:
  "sortWireStandard w1 w2 \<longleftrightarrow> spec_wire_less (wire_GetCenter w1) (wire_GetCenter w2)"
  by (simp add: sortWireStandard_def spec_wire_less_def DistanceTol_def Let_def)

lemma not_spec_wire_less:
  "\<not> spec_wire_less c2 c1 \<longleftrightarrow> spec_wire_order c1 c2"
  by (auto simp: spec_wire_less_def spec_wire_order_def abs_minus_commute)

lemma sorted_wrt_pairs:
  "sorted_wrt P xs \<longleftrightarrow> (\<forall>j < length xs. \<forall>i < j. P (xs ! i) (xs ! j))"
  by (auto simp: sorted_wrt_iff_nth_less)

lemma three_wires_swo:
  "strict_weak_ordering_on
     (set [\<lparr>wire_GetCenter = (x1, 5, 1)\<rparr>, \<lparr>wire_GetCenter = (x2, 3, 1)\<rparr>, \<lparr>wire_GetCenter = (x3, 9, 0)\<rparr>])
     sortWireStandard"
  by (simp add: strict_weak_ordering_on_def sortWireStandard_def DistanceTol_def)

lemma three_wires_no_ties:
  "no_ties_on
     (set [\<lparr>wire_GetCenter = (x1, 5, 1)\<rparr>, \<lparr>wire_GetCenter = (x2, 3, 1)\<rparr>, \<lparr>wire_GetCenter = (x3, 9, 0)\<rparr>])
     sortWireStandard"
  by (simp add: no_ties_on_def sortWireStandard_def DistanceTol_def)

text \<open>
  With the tolerance the comparison of the wires is not transitive on every set of wires:
  here the first wire is before the second and the second before the third by \<open>y\<close>, and the
  third before the first by \<open>z\<close>. The statements on the sorted order are for the ranges
  \<^verbatim>\<open>std::sort\<close> is defined on, those on which the comparison is a strict weak ordering.
\<close>

lemma sortWireStandard_cycle:
  "sortWireStandard \<lparr>wire_GetCenter = (0, 0, 0.0016)\<rparr> \<lparr>wire_GetCenter = (0, 1, 0.0008)\<rparr> \<and>
   sortWireStandard \<lparr>wire_GetCenter = (0, 1, 0.0008)\<rparr> \<lparr>wire_GetCenter = (0, 2, 0)\<rparr> \<and>
   sortWireStandard \<lparr>wire_GetCenter = (0, 2, 0)\<rparr> \<lparr>wire_GetCenter = (0, 0, 0.0016)\<rparr>"
  by (simp add: sortWireStandard_def DistanceTol_def)

text \<open>
  Three elements that a relation orders in a cycle have no arrangement in which every
  element is in that relation to every later one.
\<close>

lemma cycle_has_no_arrangement:
  assumes m: "mset ys = mset [a, b, c]"
    and ne: "a \<noteq> b" "b \<noteq> c" "a \<noteq> c"
    and cyc: "\<not> R a c" "\<not> R b a" "\<not> R c b"
  shows "\<not> sorted_wrt R ys"
proof
  assume s: "sorted_wrt R ys"
  have set: "set ys = {a, b, c}"
    using m by (metis list.simps(15) empty_set set_mset_mset)
  have d: "distinct ys"
    using m ne by (metis distinct.simps(2) distinct_singleton mset_eq_imp_distinct_iff
        set_ConsD empty_iff empty_set)
  from set obtain y tl where ys: "ys = y # tl"
    by (cases ys) auto
  with d set have tl: "y \<notin> set tl" "insert y (set tl) = {a, b, c}" by auto
  from s ys have all: "\<forall>z \<in> set tl. R y z" by simp
  from tl consider "y = a" | "y = b" | "y = c" by blast
  then show False
  proof cases
    case 1
    with tl ne have "c \<in> set tl" by (metis insertCI insertE)
    with all 1 cyc show False by blast
  next
    case 2
    with tl ne have "a \<in> set tl" by (metis insertCI insertE)
    with all 2 cyc show False by blast
  next
    case 3
    with tl ne have "b \<in> set tl" by (metis insertCI insertE)
    with all 3 cyc show False by blast
  qed
qed

text \<open>
  C6, as the specification states it, fails on these three wires: whatever \<^verbatim>\<open>std::sort\<close>
  does, if it leaves a permutation of them, some wire stands before a wire it should come
  after.
\<close>

theorem SortWires_cycle_has_no_order:
  "\<not> (\<exists>srt.
      mset (fst (SortWires srt
        [\<lparr>wire_GetCenter = (0, 0, 0.0016)\<rparr>, \<lparr>wire_GetCenter = (0, 1, 0.0008)\<rparr>,
         \<lparr>wire_GetCenter = (0, 2, 0)\<rparr>])) =
      mset [\<lparr>wire_GetCenter = (0, 0, 0.0016)\<rparr>, \<lparr>wire_GetCenter = (0, 1, 0.0008)\<rparr>,
         \<lparr>wire_GetCenter = (0, 2, 0)\<rparr>] \<and>
      (\<forall>j < length (fst (SortWires srt
          [\<lparr>wire_GetCenter = (0, 0, 0.0016)\<rparr>, \<lparr>wire_GetCenter = (0, 1, 0.0008)\<rparr>,
           \<lparr>wire_GetCenter = (0, 2, 0)\<rparr>])). \<forall>i < j.
         spec_wire_order
           (wire_GetCenter (fst (SortWires srt
              [\<lparr>wire_GetCenter = (0, 0, 0.0016)\<rparr>, \<lparr>wire_GetCenter = (0, 1, 0.0008)\<rparr>,
               \<lparr>wire_GetCenter = (0, 2, 0)\<rparr>]) ! i))
           (wire_GetCenter (fst (SortWires srt
              [\<lparr>wire_GetCenter = (0, 0, 0.0016)\<rparr>, \<lparr>wire_GetCenter = (0, 1, 0.0008)\<rparr>,
               \<lparr>wire_GetCenter = (0, 2, 0)\<rparr>]) ! j))))"
proof
  let ?a = "\<lparr>wire_GetCenter = (0, 0, 0.0016)\<rparr>"
  let ?b = "\<lparr>wire_GetCenter = (0, 1, 0.0008)\<rparr>"
  let ?c = "\<lparr>wire_GetCenter = (0, 2, 0)\<rparr>"
  let ?R = "\<lambda>w1 w2. spec_wire_order (wire_GetCenter w1) (wire_GetCenter w2)"
  assume "\<exists>srt. mset (fst (SortWires srt [?a, ?b, ?c])) = mset [?a, ?b, ?c] \<and>
      (\<forall>j < length (fst (SortWires srt [?a, ?b, ?c])). \<forall>i < j.
         ?R (fst (SortWires srt [?a, ?b, ?c]) ! i) (fst (SortWires srt [?a, ?b, ?c]) ! j))"
  then obtain srt where m: "mset (fst (SortWires srt [?a, ?b, ?c])) = mset [?a, ?b, ?c]"
    and o: "\<forall>j < length (fst (SortWires srt [?a, ?b, ?c])). \<forall>i < j.
         ?R (fst (SortWires srt [?a, ?b, ?c]) ! i) (fst (SortWires srt [?a, ?b, ?c]) ! j)"
    by blast
  from o have "sorted_wrt ?R (fst (SortWires srt [?a, ?b, ?c]))"
    by (simp only: sorted_wrt_pairs)
  moreover have "\<not> sorted_wrt ?R (fst (SortWires srt [?a, ?b, ?c]))"
    by (rule cycle_has_no_arrangement [OF m]) (simp_all add: spec_wire_order_def)
  ultimately show False by blast
qed

text \<open>
  It is one on wires whose \<open>z\<close> and whose \<open>y\<close> are either equal or more than the tolerance
  apart: there the comparison is the lexicographic order of \<open>(z, y, x)\<close>.
\<close>

lemma sortWireStandard_swo_separated:
  assumes "\<forall>a \<in> S. \<forall>b \<in> S.
      (Z (wire_GetCenter a) = Z (wire_GetCenter b) \<or> \<bar>Z (wire_GetCenter a) - Z (wire_GetCenter b)\<bar> > DistanceTol) \<and>
      (Y (wire_GetCenter a) = Y (wire_GetCenter b) \<or> \<bar>Y (wire_GetCenter a) - Y (wire_GetCenter b)\<bar> > DistanceTol)"
  shows "strict_weak_ordering_on S sortWireStandard"
proof (rule swo_by_key [where f = "\<lambda>w. (Z (wire_GetCenter w), Y (wire_GetCenter w), X (wire_GetCenter w))"])
  show "\<forall>a\<in>S. \<forall>b\<in>S. sortWireStandard a b =
       ((Z (wire_GetCenter a), Y (wire_GetCenter a), X (wire_GetCenter a))
        < (Z (wire_GetCenter b), Y (wire_GetCenter b), X (wire_GetCenter b)))"
    using assms by (fastforce simp: sortWireStandard_def Let_def DistanceTol_def less_prod_def)
qed

text \<open>
  C6, amended. The comparison of two wires is the one the specification words: by \<open>z\<close> of
  the centre ascending when the \<open>z\<close> differ by more than the tolerance 0.001, otherwise by
  \<open>y\<close> ascending when the \<open>y\<close> differ by more than the tolerance, otherwise by \<open>x\<close>
  ascending. For every \<^verbatim>\<open>std::sort\<close> that keeps the promise of the standard, and wires on
  which the comparison is a strict weak ordering, \<^const>\<open>SortWires\<close> throws nothing and
  permutes the wires so that every wire stands in this order before every later one. The
  wires with \<open>(z, y)\<close> centres \<open>(1, 5)\<close>, \<open>(1, 3)\<close>, \<open>(0, 9)\<close> are sorted to \<open>(0, 9)\<close>, \<open>(1, 3)\<close>,
  \<open>(1, 5)\<close>, whatever their \<open>x\<close>.
\<close>

theorem SortWires_order:
  assumes "std_sort_contract srt"
  shows "(sortWireStandard w1 w2 \<longleftrightarrow> spec_wire_less (wire_GetCenter w1) (wire_GetCenter w2)) \<and>
    (strict_weak_ordering_on (set wgeo) sortWireStandard \<longrightarrow>
       snd (SortWires srt wgeo) = None \<and>
       mset (fst (SortWires srt wgeo)) = mset wgeo \<and>
       (\<forall>j < length (fst (SortWires srt wgeo)). \<forall>i < j.
          spec_wire_order (wire_GetCenter (fst (SortWires srt wgeo) ! i))
            (wire_GetCenter (fst (SortWires srt wgeo) ! j)))) \<and>
    SortWires srt
      [\<lparr>wire_GetCenter = (x1, 5, 1)\<rparr>, \<lparr>wire_GetCenter = (x2, 3, 1)\<rparr>, \<lparr>wire_GetCenter = (x3, 9, 0)\<rparr>] =
      ([\<lparr>wire_GetCenter = (x3, 9, 0)\<rparr>, \<lparr>wire_GetCenter = (x2, 3, 1)\<rparr>, \<lparr>wire_GetCenter = (x1, 5, 1)\<rparr>],
       None)"
proof -
  have general: "snd (SortWires srt wgeo) = None \<and>
       mset (fst (SortWires srt wgeo)) = mset wgeo \<and>
       (\<forall>j < length (fst (SortWires srt wgeo)). \<forall>i < j.
          spec_wire_order (wire_GetCenter (fst (SortWires srt wgeo) ! i))
            (wire_GetCenter (fst (SortWires srt wgeo) ! j)))"
    if swo: "strict_weak_ordering_on (set wgeo) sortWireStandard"
  proof -
    have swo': "strict_weak_ordering_on (set wgeo) (comp_less (nothrow sortWireStandard))"
      using swo by (simp add: comp_less_nothrow [abs_def])
    note s = std_sort_sorts [OF assms comp_total_on_nothrow swo']
    have "\<forall>j < length (fst (SortWires srt wgeo)). \<forall>i < j.
        \<not> sortWireStandard (fst (SortWires srt wgeo) ! j) (fst (SortWires srt wgeo) ! i)"
      using s(3) by (simp add: SortWires_def sorted_wrt_pairs)
    then show ?thesis
      using s(1,2) by (simp add: SortWires_def sortWireStandard_spec not_spec_wire_less)
  qed
  let ?ws = "[\<lparr>wire_GetCenter = (x1, 5, 1)\<rparr>, \<lparr>wire_GetCenter = (x2, 3, 1)\<rparr>, \<lparr>wire_GetCenter = (x3, 9, 0)\<rparr>]"
  let ?ys = "[\<lparr>wire_GetCenter = (x3, 9, 0)\<rparr>, \<lparr>wire_GetCenter = (x2, 3, 1)\<rparr>, \<lparr>wire_GetCenter = (x1, 5, 1)\<rparr>]"
  have "SortWires srt ?ws = (?ys, None)"
    unfolding SortWires_def
  proof (rule std_sort_unique [OF assms comp_total_on_nothrow])
    show "strict_weak_ordering_on (set ?ws) (comp_less (nothrow sortWireStandard))"
      using three_wires_swo [of x1 x2 x3] by (simp add: comp_less_nothrow [abs_def])
    show "no_ties_on (set ?ws) (comp_less (nothrow sortWireStandard))"
      using three_wires_no_ties [of x1 x2 x3] by (simp add: comp_less_nothrow [abs_def])
    show "mset ?ys = mset ?ws" by simp
    show "sorted_wrt (\<lambda>a b. \<not> comp_less (nothrow sortWireStandard) b a) ?ys"
      by (simp add: sortWireStandard_def DistanceTol_def)
  qed
  with general sortWireStandard_spec show ?thesis by blast
qed

theorem SortWires_order_witness:
  "SortWires insertion_sort
      [\<lparr>wire_GetCenter = (0, 5, 1)\<rparr>, \<lparr>wire_GetCenter = (0, 3, 1)\<rparr>, \<lparr>wire_GetCenter = (0, 9, 0)\<rparr>] =
      ([\<lparr>wire_GetCenter = (0, 9, 0)\<rparr>, \<lparr>wire_GetCenter = (0, 3, 1)\<rparr>, \<lparr>wire_GetCenter = (0, 5, 1)\<rparr>],
       None) \<and>
   spec_wire_order (0, 9, 0) (0, 3, 1) \<and> spec_wire_order (0, 3, 1) (0, 5, 1)"
proof -
  let ?ws = "[\<lparr>wire_GetCenter = (0, 5, 1)\<rparr>, \<lparr>wire_GetCenter = (0, 3, 1)\<rparr>, \<lparr>wire_GetCenter = (0, 9, 0)\<rparr>]"
  note t = SortWires_order [OF insertion_sort_contract, of _ _ ?ws 0 0 0]
  have swo: "strict_weak_ordering_on (set ?ws) sortWireStandard"
    by (rule three_wires_swo)
  have r: "SortWires insertion_sort ?ws =
      ([\<lparr>wire_GetCenter = (0, 9, 0)\<rparr>, \<lparr>wire_GetCenter = (0, 3, 1)\<rparr>, \<lparr>wire_GetCenter = (0, 5, 1)\<rparr>], None)"
    using t by blast
  have o: "\<forall>j < length (fst (SortWires insertion_sort ?ws)). \<forall>i < j.
          spec_wire_order (wire_GetCenter (fst (SortWires insertion_sort ?ws) ! i))
            (wire_GetCenter (fst (SortWires insertion_sort ?ws) ! j))"
    using t swo by blast
  have "spec_wire_order (0, 9, 0) (0, 3, 1)"
    using o [rule_format, of 1 0] by (simp add: r)
  moreover have "spec_wire_order (0, 3, 1) (0, 5, 1)"
    using o [rule_format, of 2 1] by (simp add: r)
  ultimately show ?thesis using r by simp
qed

section \<open>The order of the planes\<close>

lemma not_sortPlaneStandard_negX:
  "\<not> sortPlaneStandard p2 p1 \<longleftrightarrow>
     plane_order_along_drift kNegX (plane_LocalToWorld p1 (0, 0, 0)) (plane_LocalToWorld p2 (0, 0, 0))"
  by (auto simp: sortPlaneStandard_def plane_order_along_drift_def DistanceTol_def Let_def
      abs_minus_commute)

lemma not_sortPlaneStandard_posX:
  "\<not> sortPlaneStandard p1 p2 \<longleftrightarrow>
     plane_order_along_drift kPosX (plane_LocalToWorld p1 (0, 0, 0)) (plane_LocalToWorld p2 (0, 0, 0))"
  by (auto simp: sortPlaneStandard_def plane_order_along_drift_def DistanceTol_def Let_def)

lemma SortPlanes_sorted:
  assumes c: "std_sort_contract srt"
    and swo: "strict_weak_ordering_on (set pgeo) sortPlaneStandard"
    and d: "driftDir \<noteq> kUnknownDrift"
  shows "snd (SortPlanes srt pgeo driftDir) = None \<and>
     mset (fst (SortPlanes srt pgeo driftDir)) = mset pgeo \<and>
     (\<forall>j < length (fst (SortPlanes srt pgeo driftDir)). \<forall>i < j.
        plane_order_along_drift driftDir
          (plane_LocalToWorld (fst (SortPlanes srt pgeo driftDir) ! i) (0, 0, 0))
          (plane_LocalToWorld (fst (SortPlanes srt pgeo driftDir) ! j) (0, 0, 0)))"
proof (cases driftDir)
  case kUnknownDrift
  with d show ?thesis by simp
next
  case kNegX
  have swo': "strict_weak_ordering_on (set pgeo) (comp_less (nothrow sortPlaneStandard))"
    using swo by (simp add: comp_less_nothrow [abs_def])
  note s = std_sort_sorts [OF c comp_total_on_nothrow swo']
  have "\<forall>j < length (fst (srt (nothrow sortPlaneStandard) pgeo)). \<forall>i < j.
      \<not> sortPlaneStandard (fst (srt (nothrow sortPlaneStandard) pgeo) ! j)
          (fst (srt (nothrow sortPlaneStandard) pgeo) ! i)"
    using s(3) by (simp add: sorted_wrt_pairs)
  then show ?thesis
    using s(1,2) kNegX by (simp add: SortPlanes_def not_sortPlaneStandard_negX)
next
  case kPosX
  have swo': "strict_weak_ordering_on (set (rev pgeo)) (comp_less (nothrow sortPlaneStandard))"
    using swo by (simp add: comp_less_nothrow [abs_def])
  note s = std_sort_sorts [OF c comp_total_on_nothrow swo']
  let ?ys = "fst (srt (nothrow sortPlaneStandard) (rev pgeo))"
  have res: "SortPlanes srt pgeo driftDir = (rev ?ys, None)"
    using s(1) kPosX by (auto simp: SortPlanes_def split: prod.splits)
  have "sorted_wrt (\<lambda>a b. \<not> sortPlaneStandard a b) (rev ?ys)"
    using s(3) by (simp add: sorted_wrt_rev)
  then have "\<forall>j < length (rev ?ys). \<forall>i < j. \<not> sortPlaneStandard (rev ?ys ! i) (rev ?ys ! j)"
    by (simp only: sorted_wrt_pairs)
  then show ?thesis
    using s(2) kPosX unfolding res by (simp add: not_sortPlaneStandard_posX)
qed

lemma three_planes_sorted:
  assumes c: "std_sort_contract srt"
    and x: "X (plane_LocalToWorld p5 (0, 0, 0)) = 5" "X (plane_LocalToWorld p10 (0, 0, 0)) = 10"
      "X (plane_LocalToWorld p15 (0, 0, 0)) = 15"
    and m: "mset pgeo = {#p5, p10, p15#}"
  shows "SortPlanes srt pgeo kNegX = ([p15, p10, p5], None)"
proof -
  have set: "set pgeo = {p5, p10, p15}"
    using m by (metis set_mset_mset set_mset_add_mset_insert set_mset_empty)
  have "srt (nothrow sortPlaneStandard) pgeo = ([p15, p10, p5], None)"
  proof (rule std_sort_unique [OF c comp_total_on_nothrow])
    show "strict_weak_ordering_on (set pgeo) (comp_less (nothrow sortPlaneStandard))"
      unfolding set using x
      by (simp add: strict_weak_ordering_on_def sortPlaneStandard_def DistanceTol_def)
    show "no_ties_on (set pgeo) (comp_less (nothrow sortPlaneStandard))"
      unfolding set using x
      by (auto simp: no_ties_on_def sortPlaneStandard_def DistanceTol_def)
    show "mset [p15, p10, p5] = mset pgeo"
      using m by simp
    show "sorted_wrt (\<lambda>a b. \<not> comp_less (nothrow sortPlaneStandard) b a) [p15, p10, p5]"
      using x by (simp add: sortPlaneStandard_def DistanceTol_def)
  qed
  then show ?thesis by (simp add: SortPlanes_def)
qed

lemma plane_orders_agree:
  "(plane_order_along_drift kNegX o1 o2 \<longleftrightarrow> spec_plane_order kNegX o1 o2) \<and>
   (\<bar>X o1 - X o2\<bar> > 0.001 \<longrightarrow>
      (plane_order_along_drift kPosX o1 o2 \<longleftrightarrow> spec_plane_order kPosX o1 o2))"
  by (simp add: plane_order_along_drift_def spec_plane_order_def)

text \<open>
  The comparison of the planes is a strict weak ordering on planes whose \<open>x\<close> and whose \<open>z\<close>
  are either equal or more than the tolerance apart: there it is the lexicographic order
  of \<open>(- x, z, y)\<close>.
\<close>

lemma sortPlaneStandard_swo_separated:
  assumes "\<forall>a \<in> S. \<forall>b \<in> S.
      (X (plane_LocalToWorld a (0, 0, 0)) = X (plane_LocalToWorld b (0, 0, 0)) \<or>
       \<bar>X (plane_LocalToWorld a (0, 0, 0)) - X (plane_LocalToWorld b (0, 0, 0))\<bar> > DistanceTol) \<and>
      (Z (plane_LocalToWorld a (0, 0, 0)) = Z (plane_LocalToWorld b (0, 0, 0)) \<or>
       \<bar>Z (plane_LocalToWorld a (0, 0, 0)) - Z (plane_LocalToWorld b (0, 0, 0))\<bar> > DistanceTol)"
  shows "strict_weak_ordering_on S sortPlaneStandard"
proof (rule swo_by_key [where f = "\<lambda>p. (- X (plane_LocalToWorld p (0, 0, 0)),
      Z (plane_LocalToWorld p (0, 0, 0)), Y (plane_LocalToWorld p (0, 0, 0)))"])
  show "\<forall>a\<in>S. \<forall>b\<in>S. sortPlaneStandard a b =
       ((- X (plane_LocalToWorld a (0, 0, 0)), Z (plane_LocalToWorld a (0, 0, 0)), Y (plane_LocalToWorld a (0, 0, 0)))
        < (- X (plane_LocalToWorld b (0, 0, 0)), Z (plane_LocalToWorld b (0, 0, 0)), Y (plane_LocalToWorld b (0, 0, 0))))"
    using assms by (fastforce simp: sortPlaneStandard_def Let_def DistanceTol_def less_prod_def)
qed

text \<open>
  It is not one on every set of planes: here the first plane is before the second and the
  second before the third by \<open>z\<close>, and the third before the first by \<open>x\<close>.
\<close>

lemma sortPlaneStandard_cycle:
  "sortPlaneStandard \<lparr>plane_LocalToWorld = (\<lambda>p. (X p, Y p, Z p))\<rparr>
     \<lparr>plane_LocalToWorld = (\<lambda>p. (X p + 0.0008, Y p, Z p + 1))\<rparr> \<and>
   sortPlaneStandard \<lparr>plane_LocalToWorld = (\<lambda>p. (X p + 0.0008, Y p, Z p + 1))\<rparr>
     \<lparr>plane_LocalToWorld = (\<lambda>p. (X p + 0.0016, Y p, Z p + 2))\<rparr> \<and>
   sortPlaneStandard \<lparr>plane_LocalToWorld = (\<lambda>p. (X p + 0.0016, Y p, Z p + 2))\<rparr>
     \<lparr>plane_LocalToWorld = (\<lambda>p. (X p, Y p, Z p))\<rparr>"
  by (simp add: sortPlaneStandard_def DistanceTol_def)

text \<open>
  C1, as the specification states it, fails for the drift towards positive \<open>x\<close>: the vector
  is sorted read backwards, which reverses the whole order of the comparison and not
  only its order in \<open>x\<close>. Two planes of equal \<open>x\<close> at \<open>z = 0\<close> and \<open>z = 10\<close> come out with the
  plane at \<open>z = 10\<close> first, from insertion sort and from every sort that keeps the promise.
\<close>

theorem SortPlanes_posX_ties_descend:
  "SortPlanes insertion_sort
     [\<lparr>plane_LocalToWorld = (\<lambda>p. (X p, Y p, Z p))\<rparr>,
      \<lparr>plane_LocalToWorld = (\<lambda>p. (X p, Y p, Z p + 10))\<rparr>] kPosX =
     ([\<lparr>plane_LocalToWorld = (\<lambda>p. (X p, Y p, Z p + 10))\<rparr>,
       \<lparr>plane_LocalToWorld = (\<lambda>p. (X p, Y p, Z p))\<rparr>], None) \<and>
   \<not> spec_plane_order kPosX
       (plane_LocalToWorld \<lparr>plane_LocalToWorld = (\<lambda>p. (X p, Y p, Z p + 10))\<rparr> (0, 0, 0))
       (plane_LocalToWorld \<lparr>plane_LocalToWorld = (\<lambda>p. (X p, Y p, Z p))\<rparr> (0, 0, 0))"
  by (simp add: SortPlanes_def insertion_sort_def nothrow_def sortPlaneStandard_def DistanceTol_def
      spec_plane_order_def)

lemma every_sort_descends_on_posX_ties:
  assumes "std_sort_contract srt"
  shows "SortPlanes srt
     [\<lparr>plane_LocalToWorld = (\<lambda>p. (X p, Y p, Z p))\<rparr>,
      \<lparr>plane_LocalToWorld = (\<lambda>p. (X p, Y p, Z p + 10))\<rparr>] kPosX =
     ([\<lparr>plane_LocalToWorld = (\<lambda>p. (X p, Y p, Z p + 10))\<rparr>,
       \<lparr>plane_LocalToWorld = (\<lambda>p. (X p, Y p, Z p))\<rparr>], None)"
proof -
  let ?a = "\<lparr>plane_LocalToWorld = (\<lambda>p. (X p, Y p, Z p))\<rparr>"
  let ?b = "\<lparr>plane_LocalToWorld = (\<lambda>p. (X p, Y p, Z p + 10))\<rparr>"
  have "srt (nothrow sortPlaneStandard) [?b, ?a] = ([?a, ?b], None)"
  proof (rule std_sort_unique [OF assms comp_total_on_nothrow])
    show "strict_weak_ordering_on (set [?b, ?a]) (comp_less (nothrow sortPlaneStandard))"
      by (simp add: strict_weak_ordering_on_def sortPlaneStandard_def DistanceTol_def)
    show "no_ties_on (set [?b, ?a]) (comp_less (nothrow sortPlaneStandard))"
      by (simp add: no_ties_on_def sortPlaneStandard_def DistanceTol_def)
    show "mset [?a, ?b] = mset [?b, ?a]" by simp
    show "sorted_wrt (\<lambda>a b. \<not> comp_less (nothrow sortPlaneStandard) b a) [?a, ?b]"
      by (simp add: sortPlaneStandard_def DistanceTol_def)
  qed
  then show ?thesis by (simp add: SortPlanes_def)
qed

text \<open>
  C1, amended. For every \<^verbatim>\<open>std::sort\<close> that keeps the promise of the standard, a known drift
  direction and planes on which the comparison is a strict weak ordering,
  \<^const>\<open>SortPlanes\<close> throws nothing and permutes the planes so that every plane stands before
  every later one in this order: when their \<open>x\<close> differ by more than the tolerance 0.001,
  the index increases along the drift direction; otherwise, for the drift towards
  negative \<open>x\<close>, by \<open>z\<close> ascending and, the \<open>z\<close> within the tolerance, by \<open>y\<close> ascending, and
  for the drift towards positive \<open>x\<close> by \<open>z\<close> descending and then \<open>y\<close> descending. This is
  the order the specification states for the drift towards negative \<open>x\<close>, and for planes
  whose \<open>x\<close> differ by more than the tolerance. Three planes at \<open>x\<close> = 5, 10, 15, sorted
  with the drift towards negative \<open>x\<close>, get the indices 0, 1, 2 at \<open>x\<close> = 15, 10, 5.
\<close>

theorem SortPlanes_order:
  assumes "std_sort_contract srt"
  shows "(driftDir \<noteq> kUnknownDrift \<and> strict_weak_ordering_on (set pgeo) sortPlaneStandard \<longrightarrow>
       snd (SortPlanes srt pgeo driftDir) = None \<and>
       mset (fst (SortPlanes srt pgeo driftDir)) = mset pgeo \<and>
       (\<forall>j < length (fst (SortPlanes srt pgeo driftDir)). \<forall>i < j.
          plane_order_along_drift driftDir
            (plane_LocalToWorld (fst (SortPlanes srt pgeo driftDir) ! i) (0, 0, 0))
            (plane_LocalToWorld (fst (SortPlanes srt pgeo driftDir) ! j) (0, 0, 0)))) \<and>
    (plane_order_along_drift kNegX o1 o2 \<longleftrightarrow> spec_plane_order kNegX o1 o2) \<and>
    (\<bar>X o1 - X o2\<bar> > 0.001 \<longrightarrow>
       (plane_order_along_drift kPosX o1 o2 \<longleftrightarrow> spec_plane_order kPosX o1 o2)) \<and>
    (X (plane_LocalToWorld p5 (0, 0, 0)) = 5 \<and> X (plane_LocalToWorld p10 (0, 0, 0)) = 10 \<and>
     X (plane_LocalToWorld p15 (0, 0, 0)) = 15 \<and> mset pgeo' = {#p5, p10, p15#} \<longrightarrow>
       SortPlanes srt pgeo' kNegX = ([p15, p10, p5], None))"
  using SortPlanes_sorted [OF assms, of pgeo driftDir] three_planes_sorted [OF assms, of p5 p10 p15 pgeo']
    plane_orders_agree [of o1 o2]
  by blast

theorem SortPlanes_order_witness:
  "SortPlanes insertion_sort
     [\<lparr>plane_LocalToWorld = (\<lambda>p. (X p + 5, Y p, Z p))\<rparr>,
      \<lparr>plane_LocalToWorld = (\<lambda>p. (X p + 10, Y p, Z p))\<rparr>,
      \<lparr>plane_LocalToWorld = (\<lambda>p. (X p + 15, Y p, Z p))\<rparr>] kNegX =
     ([\<lparr>plane_LocalToWorld = (\<lambda>p. (X p + 15, Y p, Z p))\<rparr>,
       \<lparr>plane_LocalToWorld = (\<lambda>p. (X p + 10, Y p, Z p))\<rparr>,
       \<lparr>plane_LocalToWorld = (\<lambda>p. (X p + 5, Y p, Z p))\<rparr>], None) \<and>
   snd (SortPlanes insertion_sort
     [\<lparr>plane_LocalToWorld = (\<lambda>p. (X p + 5, Y p, Z p))\<rparr>,
      \<lparr>plane_LocalToWorld = (\<lambda>p. (X p + 10, Y p, Z p))\<rparr>] kPosX) = None"
proof -
  let ?p5 = "\<lparr>plane_LocalToWorld = (\<lambda>p. (X p + 5, Y p, Z p))\<rparr>"
  let ?p10 = "\<lparr>plane_LocalToWorld = (\<lambda>p. (X p + 10, Y p, Z p))\<rparr>"
  let ?p15 = "\<lparr>plane_LocalToWorld = (\<lambda>p. (X p + 15, Y p, Z p))\<rparr>"
  have a: "SortPlanes insertion_sort [?p5, ?p10, ?p15] kNegX = ([?p15, ?p10, ?p5], None)"
    using SortPlanes_order [OF insertion_sort_contract,
        where ?p5.0 = ?p5 and ?p10.0 = ?p10 and ?p15.0 = ?p15 and pgeo' = "[?p5, ?p10, ?p15]"]
    by simp
  have swo: "strict_weak_ordering_on (set [?p5, ?p10]) sortPlaneStandard"
    by (simp add: strict_weak_ordering_on_def sortPlaneStandard_def DistanceTol_def)
  have b: "snd (SortPlanes insertion_sort [?p5, ?p10] kPosX) = None"
    using SortPlanes_order [OF insertion_sort_contract,
        where driftDir = kPosX and pgeo = "[?p5, ?p10]"] swo
    by blast
  show ?thesis using a b by simp
qed

section \<open>The auxiliary detectors: names and numbers\<close>

lemma atoi_no_digit: "\<not> isspace c \<Longrightarrow> \<not> isdigit c \<Longrightarrow> c \<noteq> CHR ''-'' \<Longrightarrow> c \<noteq> CHR ''+'' \<Longrightarrow>
    atoi (c # cs) = 0"
  by (simp add: atoi_def strtol_def long_to_int_def LONG_MAX_def)

lemma substr_rest: "pos \<le> length s \<Longrightarrow> substr s pos (length s) = Inr (drop pos s)"
  by (simp add: substr_def)

lemma sortAuxDetStandard_Inr:
  "9 \<le> length (ad_Name ad1) \<Longrightarrow> 9 \<le> length (ad_Name ad2) \<Longrightarrow>
     sortAuxDetStandard ad1 ad2 = Inr (atoi (drop 9 (ad_Name ad1)) < atoi (drop 9 (ad_Name ad2)))"
  by (simp add: sortAuxDetStandard_def substr_rest Let_def)

lemma sortAuxDetStandard_Inl:
  "sortAuxDetStandard ad1 ad2 = Inl e \<Longrightarrow>
     e = std_out_of_range \<and> (length (ad_Name ad1) < 9 \<or> length (ad_Name ad2) < 9)"
  by (auto simp: sortAuxDetStandard_def substr_def Let_def split: if_splits sum.splits)

lemma sortAuxDetSensitiveStandard_Inr:
  "9 \<le> length (ads_Name ad1) \<Longrightarrow> 9 \<le> length (ads_Name ad2) \<Longrightarrow>
     sortAuxDetSensitiveStandard ad1 ad2 =
       Inr (atoi (drop 9 (ads_Name ad1)) < atoi (drop 9 (ads_Name ad2)))"
  by (simp add: sortAuxDetSensitiveStandard_def substr_rest Let_def)

lemma sortAuxDetSensitiveStandard_Inl:
  "sortAuxDetSensitiveStandard ad1 ad2 = Inl e \<Longrightarrow>
     e = std_out_of_range \<and> (length (ads_Name ad1) < 9 \<or> length (ads_Name ad2) < 9)"
  by (auto simp: sortAuxDetSensitiveStandard_def substr_def Let_def split: if_splits sum.splits)

text \<open>
  The number a string of decimal digits denotes, and what \<^const>\<open>atoi\<close> makes of it: the
  number itself when it is in the range of \<^verbatim>\<open>int\<close>.
\<close>

lemma strtol_digits_decimal:
  "\<forall>c \<in> set ds. isdigit c \<Longrightarrow>
     strtol_digits acc ds = foldl (\<lambda>n c. 10 * n + (of_char c - 48)) acc ds"
  by (induction ds arbitrary: acc) auto

lemma decimal_nonneg:
  "\<forall>c \<in> set ds. isdigit c \<Longrightarrow> 0 \<le> acc \<Longrightarrow>
     (0::int) \<le> foldl (\<lambda>n c. 10 * n + (of_char c - 48)) acc ds"
proof (induction ds arbitrary: acc)
  case Nil
  then show ?case by simp
next
  case (Cons c cs)
  then have "(48::nat) \<le> of_char c" by (simp add: isdigit_def)
  then have "(48::int) \<le> of_char c" by (metis of_nat_le_iff of_nat_numeral of_nat_of_char)
  with Cons.prems have "0 \<le> 10 * acc + (of_char c - 48)" by simp
  with Cons show ?case by simp
qed

lemma isdigit_not_special: "isdigit c \<Longrightarrow> \<not> isspace c \<and> c \<noteq> CHR ''-'' \<and> c \<noteq> CHR ''+''"
  by (auto simp: isdigit_def isspace_def)

lemma atoi_decimal:
  assumes d: "\<forall>c \<in> set ds. isdigit c"
    and r: "foldl (\<lambda>n c. 10 * n + (of_char c - 48)) (0::int) ds < 2 ^ 31"
  shows "atoi ds = foldl (\<lambda>n c. 10 * n + (of_char c - 48)) 0 ds"
proof -
  let ?v = "foldl (\<lambda>n c. 10 * n + (of_char c - 48)) (0::int) ds"
  have nn: "0 \<le> ?v" using decimal_nonneg [OF d, of 0] by simp
  have "strtol ds = ?v"
  proof (cases ds)
    case Nil
    then show ?thesis by (simp add: strtol_def)
  next
    case (Cons c cs)
    with d have "isdigit c" by simp
    from isdigit_not_special [OF this] have "strtol ds = min LONG_MAX (strtol_digits 0 ds)"
      using Cons by (simp add: strtol_def)
    with strtol_digits_decimal [OF d, of 0] r show ?thesis
      by (simp add: LONG_MAX_def)
  qed
  with nn r show ?thesis
    by (simp add: atoi_def long_to_int_def)
qed

lemma sortAuxDetStandard_decimal_suffix:
  assumes "\<forall>c \<in> set ds1. isdigit c" "\<forall>c \<in> set ds2. isdigit c"
    and "foldl (\<lambda>n c. 10 * n + (of_char c - 48)) (0::int) ds1 < 2 ^ 31"
    and "foldl (\<lambda>n c. 10 * n + (of_char c - 48)) (0::int) ds2 < 2 ^ 31"
  shows "sortAuxDetStandard (ad1\<lparr>ad_Name := ''volAuxDet'' @ ds1\<rparr>) (ad2\<lparr>ad_Name := ''volAuxDet'' @ ds2\<rparr>) =
     Inr (foldl (\<lambda>n c. 10 * n + (of_char c - 48)) (0::int) ds1 <
          foldl (\<lambda>n c. 10 * n + (of_char c - 48)) 0 ds2)"
  using assms by (simp add: sortAuxDetStandard_Inr atoi_decimal)

text \<open>
  C7. The comparator of the sensitive volumes takes the name from position 9 on, as the
  comparator of the auxiliary detectors does, although the names it expects have the
  prefix \<open>''volAuxDetSensitive''\<close> of 18 characters. What it hands to \<^const>\<open>atoi\<close> starts with
  \<open>''Sensitive''\<close> and has the value 0 whatever the suffix is: no sensitive volume is placed
  before another, and the volume with suffix 1 is not placed before the one with
  suffix 2. (For the auxiliary detectors, \<open>sortAuxDetStandard_decimal_suffix\<close> above is
  the order by the decimal suffix, for suffixes in the range of \<^verbatim>\<open>int\<close>.)
\<close>

theorem sortAuxDetSensitiveStandard_ignores_suffix:
  "sortAuxDetSensitiveStandard (ad1\<lparr>ads_Name := ''volAuxDetSensitive'' @ suffix1\<rparr>)
     (ad2\<lparr>ads_Name := ''volAuxDetSensitive'' @ suffix2\<rparr>) = Inr False \<and>
   sortAuxDetSensitiveStandard (ad1\<lparr>ads_Name := ''volAuxDetSensitive1''\<rparr>)
     (ad2\<lparr>ads_Name := ''volAuxDetSensitive2''\<rparr>) = Inr False"
proof -
  have "atoi (''Sensitive'' @ s) = 0" for s
    by (simp add: atoi_def strtol_def long_to_int_def LONG_MAX_def isspace_def isdigit_def)
  then have "sortAuxDetSensitiveStandard (ad1\<lparr>ads_Name := ''volAuxDetSensitive'' @ s1\<rparr>)
     (ad2\<lparr>ads_Name := ''volAuxDetSensitive'' @ s2\<rparr>) = Inr False" for s1 s2
    by (simp add: sortAuxDetSensitiveStandard_Inr)
  from this [of suffix1 suffix2] this [of "''1''" "''2''"] show ?thesis by simp
qed

section \<open>Errors of the sorting operations\<close>


lemma sortCryoStandard_swo: "strict_weak_ordering_on S sortCryoStandard"
  by (rule swo_by_key [where f = "\<lambda>c. X (cryo_LocalToWorld c (0, 0, 0))"])
    (simp add: sortCryoStandard_def Let_def)

lemma sortTPCStandard_swo: "strict_weak_ordering_on S sortTPCStandard"
  by (rule swo_by_key [where f = "\<lambda>t. X (tpc_LocalToWorld t (0, 0, 0))"])
    (simp add: sortTPCStandard_def Let_def)

lemma sortAuxDetStandard_total:
  "\<forall>ad \<in> S. 9 \<le> length (ad_Name ad) \<Longrightarrow> comp_total_on S sortAuxDetStandard"
  by (simp add: comp_total_on_def sortAuxDetStandard_Inr)

lemma sortAuxDetStandard_swo:
  "\<forall>ad \<in> S. 9 \<le> length (ad_Name ad) \<Longrightarrow>
     strict_weak_ordering_on S (comp_less sortAuxDetStandard)"
  by (rule swo_by_key [where f = "\<lambda>ad. atoi (drop 9 (ad_Name ad))"])
    (simp add: comp_less_def sortAuxDetStandard_Inr)

lemma sortAuxDetSensitiveStandard_total:
  "\<forall>ad \<in> S. 9 \<le> length (ads_Name ad) \<Longrightarrow> comp_total_on S sortAuxDetSensitiveStandard"
  by (simp add: comp_total_on_def sortAuxDetSensitiveStandard_Inr)

lemma sortAuxDetSensitiveStandard_swo:
  "\<forall>ad \<in> S. 9 \<le> length (ads_Name ad) \<Longrightarrow>
     strict_weak_ordering_on S (comp_less sortAuxDetSensitiveStandard)"
  by (rule swo_by_key [where f = "\<lambda>ad. atoi (drop 9 (ads_Name ad))"])
    (simp add: comp_less_def sortAuxDetSensitiveStandard_Inr)

lemma nothrow_never_throws:
  "std_sort_contract srt \<Longrightarrow> snd (srt (nothrow f) xs) = None"
proof (cases "snd (srt (nothrow f) xs)")
  case None
  then show ?thesis by simp
next
  case (Some e)
  assume "std_sort_contract srt"
  from std_sort_exception [OF this Some] show ?thesis by (simp add: nothrow_def)
qed

lemma SortPlanes_exception:
  assumes "std_sort_contract srt"
  shows "SortPlanes srt pgeo kUnknownDrift = (pgeo, Some DriftDirectionUnknown)"
    and "snd (SortPlanes srt pgeo driftDir) \<noteq> None \<longleftrightarrow> driftDir = kUnknownDrift"
proof -
  show "SortPlanes srt pgeo kUnknownDrift = (pgeo, Some DriftDirectionUnknown)"
    by (simp add: SortPlanes_def)
  show "snd (SortPlanes srt pgeo driftDir) \<noteq> None \<longleftrightarrow> driftDir = kUnknownDrift"
    using nothrow_never_throws [OF assms, of sortPlaneStandard pgeo]
      nothrow_never_throws [OF assms, of sortPlaneStandard "rev pgeo"]
    by (cases driftDir) (auto simp: SortPlanes_def split: prod.splits)
qed

lemma SortAuxDets_exception:
  assumes "std_sort_contract srt" "snd (SortAuxDets srt adgeo) = Some e"
  shows "e = std_out_of_range \<and> (\<exists>ad \<in> set adgeo. length (ad_Name ad) < 9)"
  using std_sort_exception [OF assms(1), of sortAuxDetStandard adgeo e] assms(2)
    sortAuxDetStandard_Inl
  unfolding SortAuxDets_def by blast

lemma SortAuxDetSensitive_exception:
  assumes "std_sort_contract srt" "snd (SortAuxDetSensitive srt adsgeo) = Some e"
  shows "e = std_out_of_range \<and> (\<exists>ad \<in> set adsgeo. length (ads_Name ad) < 9)"
  using std_sort_exception [OF assms(1), of sortAuxDetSensitiveStandard adsgeo e] assms(2)
    sortAuxDetSensitiveStandard_Inl
  unfolding SortAuxDetSensitive_def by blast

text \<open>
  C5, as the specification states it, fails for the auxiliary detectors: the comparator
  reads the name from position 9 on, and \<^verbatim>\<open>substr\<close> throws \<^verbatim>\<open>std::out_of_range\<close> for a name of
  fewer than 9 characters.
\<close>

theorem SortAuxDets_short_name_throws:
  "snd (SortAuxDets insertion_sort
     [\<lparr>ad_Name = ''volAuxDet1'', ad_WorldToLocal = (\<lambda>p. p), ad_HalfWidth1 = 1,
       ad_HalfWidth2 = 1, ad_HalfHeight = 1, ad_Length = 2, ad_SensitiveVolumes = []\<rparr>,
      \<lparr>ad_Name = ''volAux'', ad_WorldToLocal = (\<lambda>p. p), ad_HalfWidth1 = 1,
       ad_HalfWidth2 = 1, ad_HalfHeight = 1, ad_Length = 2, ad_SensitiveVolumes = []\<rparr>]) =
   Some std_out_of_range"
  by (simp add: SortAuxDets_def insertion_sort_def sortAuxDetStandard_def substr_def)

text \<open>
  C5, amended. For every \<^verbatim>\<open>std::sort\<close> that keeps the promise of the standard:
  \<^const>\<open>SortPlanes\<close> throws exactly when the drift direction is unknown, and then leaves the
  planes as they are; with a known drift direction, and planes on which the comparison
  is a strict weak ordering, it permutes the planes. \<^const>\<open>SortCryostats\<close>, \<^const>\<open>SortTPCs\<close>
  and \<^const>\<open>SortWires\<close> throw nothing. \<^const>\<open>SortAuxDets\<close> and \<^const>\<open>SortAuxDetSensitive\<close> throw
  nothing but \<^verbatim>\<open>std::out_of_range\<close>, and only when the name of an element has fewer than 9
  characters.
\<close>

theorem sorting_error_conditions:
  assumes "std_sort_contract srtP" "std_sort_contract srtC" "std_sort_contract srtT"
    "std_sort_contract srtW" "std_sort_contract srtA" "std_sort_contract srtS"
  shows "SortPlanes srtP pgeo kUnknownDrift = (pgeo, Some DriftDirectionUnknown) \<and>
    (snd (SortPlanes srtP pgeo driftDir) \<noteq> None \<longleftrightarrow> driftDir = kUnknownDrift) \<and>
    (driftDir \<noteq> kUnknownDrift \<and> strict_weak_ordering_on (set pgeo) sortPlaneStandard \<longrightarrow>
       mset (fst (SortPlanes srtP pgeo driftDir)) = mset pgeo) \<and>
    snd (SortCryostats srtC cgeo) = None \<and>
    snd (SortTPCs srtT tgeo) = None \<and>
    snd (SortWires srtW wgeo) = None \<and>
    (snd (SortAuxDets srtA adgeo) = Some e \<longrightarrow>
       e = std_out_of_range \<and> (\<exists>ad \<in> set adgeo. length (ad_Name ad) < 9)) \<and>
    (snd (SortAuxDetSensitive srtS adsgeo) = Some e' \<longrightarrow>
       e' = std_out_of_range \<and> (\<exists>ad \<in> set adsgeo. length (ads_Name ad) < 9))"
  using SortPlanes_exception(1) [OF assms(1), of pgeo]
    SortPlanes_exception(2) [OF assms(1), of pgeo driftDir]
    SortPlanes_sorted [OF assms(1), of pgeo driftDir]
    nothrow_never_throws [OF assms(2), of sortCryoStandard cgeo]
    nothrow_never_throws [OF assms(3), of sortTPCStandard tgeo]
    nothrow_never_throws [OF assms(4), of sortWireStandard wgeo]
    SortAuxDets_exception [OF assms(5), of adgeo e]
    SortAuxDetSensitive_exception [OF assms(6), of adsgeo e']
  unfolding SortCryostats_def SortTPCs_def SortWires_def
  by blast

text \<open>
  The witness: two planes, sorted with an unknown and with a known drift direction, and
  two auxiliary detectors of which one has a name of 6 characters.
\<close>

theorem sorting_error_conditions_witness:
  "SortPlanes insertion_sort
     [\<lparr>plane_LocalToWorld = (\<lambda>p. (X p + 5, Y p, Z p))\<rparr>,
      \<lparr>plane_LocalToWorld = (\<lambda>p. (X p + 10, Y p, Z p))\<rparr>] kUnknownDrift =
     ([\<lparr>plane_LocalToWorld = (\<lambda>p. (X p + 5, Y p, Z p))\<rparr>,
       \<lparr>plane_LocalToWorld = (\<lambda>p. (X p + 10, Y p, Z p))\<rparr>], Some DriftDirectionUnknown) \<and>
   snd (SortPlanes insertion_sort
     [\<lparr>plane_LocalToWorld = (\<lambda>p. (X p + 5, Y p, Z p))\<rparr>,
      \<lparr>plane_LocalToWorld = (\<lambda>p. (X p + 10, Y p, Z p))\<rparr>] kPosX) = None \<and>
   mset (fst (SortPlanes insertion_sort
     [\<lparr>plane_LocalToWorld = (\<lambda>p. (X p + 5, Y p, Z p))\<rparr>,
      \<lparr>plane_LocalToWorld = (\<lambda>p. (X p + 10, Y p, Z p))\<rparr>] kPosX)) =
     {#\<lparr>plane_LocalToWorld = (\<lambda>p. (X p + 5, Y p, Z p))\<rparr>,
       \<lparr>plane_LocalToWorld = (\<lambda>p. (X p + 10, Y p, Z p))\<rparr>#} \<and>
   (\<exists>ad \<in> set
     [\<lparr>ad_Name = ''volAuxDet1'', ad_WorldToLocal = (\<lambda>p. p), ad_HalfWidth1 = 1,
       ad_HalfWidth2 = 1, ad_HalfHeight = 1, ad_Length = 2, ad_SensitiveVolumes = []\<rparr>,
      \<lparr>ad_Name = ''volAux'', ad_WorldToLocal = (\<lambda>p. p), ad_HalfWidth1 = 1,
       ad_HalfWidth2 = 1, ad_HalfHeight = 1, ad_Length = 2, ad_SensitiveVolumes = []\<rparr>].
      length (ad_Name ad) < 9)"
proof -
  let ?ps = "[\<lparr>plane_LocalToWorld = (\<lambda>p. (X p + 5, Y p, Z p))\<rparr>,
      \<lparr>plane_LocalToWorld = (\<lambda>p. (X p + 10, Y p, Z p))\<rparr>]"
  let ?ads = "[\<lparr>ad_Name = ''volAuxDet1'', ad_WorldToLocal = (\<lambda>p. p), ad_HalfWidth1 = 1,
       ad_HalfWidth2 = 1, ad_HalfHeight = 1, ad_Length = 2, ad_SensitiveVolumes = []\<rparr>,
      \<lparr>ad_Name = ''volAux'', ad_WorldToLocal = (\<lambda>p. p), ad_HalfWidth1 = 1,
       ad_HalfWidth2 = 1, ad_HalfHeight = 1, ad_Length = 2, ad_SensitiveVolumes = []\<rparr>]"
  note t = sorting_error_conditions [OF insertion_sort_contract insertion_sort_contract
      insertion_sort_contract insertion_sort_contract insertion_sort_contract
      insertion_sort_contract,
      where pgeo = ?ps and driftDir = kPosX and adgeo = ?ads and e = std_out_of_range]
  have swo: "strict_weak_ordering_on (set ?ps) sortPlaneStandard"
    by (simp add: strict_weak_ordering_on_def sortPlaneStandard_def DistanceTol_def)
  have thrown: "snd (SortAuxDets insertion_sort ?ads) = Some std_out_of_range"
    by (simp add: SortAuxDets_def insertion_sort_def sortAuxDetStandard_def substr_def)
  have a: "SortPlanes insertion_sort ?ps kUnknownDrift = (?ps, Some DriftDirectionUnknown)"
    using t by blast
  have b: "snd (SortPlanes insertion_sort ?ps kPosX) = None"
    using t by blast
  have c: "mset (fst (SortPlanes insertion_sort ?ps kPosX)) = mset ?ps"
    using t swo by blast
  have d: "\<exists>ad \<in> set ?ads. length (ad_Name ad) < 9"
    using t thrown by blast
  show ?thesis using a b c d by simp
qed

section \<open>Sorting twice\<close>


lemma std_sort_deterministic:
  assumes c: "std_sort_contract srt" and c': "std_sort_contract srt'"
    and tot: "comp_total_on (set xs) cmp"
    and swo: "strict_weak_ordering_on (set xs) (comp_less cmp)"
    and ties: "no_ties_on (set xs) (comp_less cmp)"
    and m: "mset xs' = mset xs"
  shows "srt' cmp xs' = srt cmp xs"
proof -
  have set: "set xs' = set xs" using m by (metis set_mset_mset)
  note s = std_sort_sorts [OF c tot swo]
  have "srt' cmp xs' = (fst (srt cmp xs), None)"
    by (rule std_sort_unique [OF c']) (use s m tot swo ties in \<open>simp_all add: set\<close>)
  then show ?thesis using s(1) by (simp add: prod_eq_iff)
qed

lemma std_sort_idempotent:
  assumes c: "std_sort_contract srt"
    and tot: "comp_total_on (set xs) cmp"
    and swo: "strict_weak_ordering_on (set xs) (comp_less cmp)"
    and ties: "no_ties_on (set xs) (comp_less cmp)"
  shows "srt cmp (fst (srt cmp xs)) = srt cmp xs"
  using std_sort_deterministic [OF c c tot swo ties, of "fst (srt cmp xs)"]
    std_sort_sorts(2) [OF c tot swo]
  by simp

lemma nothrow_deterministic:
  assumes "std_sort_contract srt" "std_sort_contract srt'"
    "strict_weak_ordering_on (set xs) f" "no_ties_on (set xs) f" "mset xs' = mset xs"
  shows "srt' (nothrow f) xs' = srt (nothrow f) xs"
proof (rule std_sort_deterministic [OF assms(1,2) comp_total_on_nothrow _ _ assms(5)])
  show "strict_weak_ordering_on (set xs) (comp_less (nothrow f))"
    and "no_ties_on (set xs) (comp_less (nothrow f))"
    using assms(3,4) by (simp_all add: comp_less_nothrow [abs_def])
qed

lemma nothrow_idempotent:
  assumes "std_sort_contract srt" "strict_weak_ordering_on (set xs) f" "no_ties_on (set xs) f"
  shows "srt (nothrow f) (fst (srt (nothrow f) xs)) = srt (nothrow f) xs"
proof (rule std_sort_idempotent [OF assms(1) comp_total_on_nothrow])
  show "strict_weak_ordering_on (set xs) (comp_less (nothrow f))"
    and "no_ties_on (set xs) (comp_less (nothrow f))"
    using assms(2,3) by (simp_all add: comp_less_nothrow [abs_def])
qed

lemma SortPlanes_deterministic:
  assumes "std_sort_contract srt" "std_sort_contract srt'"
    "strict_weak_ordering_on (set pgeo) sortPlaneStandard" "no_ties_on (set pgeo) sortPlaneStandard"
    "mset pgeo' = mset pgeo"
  shows "SortPlanes srt' pgeo' driftDir = SortPlanes srt pgeo driftDir \<or> driftDir = kUnknownDrift"
proof -
  have r: "strict_weak_ordering_on (set (rev pgeo)) sortPlaneStandard"
    "no_ties_on (set (rev pgeo)) sortPlaneStandard" "mset (rev pgeo') = mset (rev pgeo)"
    using assms(3-5) by simp_all
  show ?thesis
    using nothrow_deterministic [OF assms] nothrow_deterministic [OF assms(1,2) r]
    by (cases driftDir) (simp_all add: SortPlanes_def)
qed

lemma SortPlanes_idempotent:
  assumes "std_sort_contract srt"
    "strict_weak_ordering_on (set pgeo) sortPlaneStandard" "no_ties_on (set pgeo) sortPlaneStandard"
  shows "SortPlanes srt (fst (SortPlanes srt pgeo driftDir)) driftDir = SortPlanes srt pgeo driftDir"
proof (cases driftDir)
  case kUnknownDrift
  then show ?thesis by (simp add: SortPlanes_def)
next
  case kNegX
  then show ?thesis
    using nothrow_idempotent [OF assms] by (simp add: SortPlanes_def)
next
  case kPosX
  have r: "strict_weak_ordering_on (set (rev pgeo)) sortPlaneStandard"
    "no_ties_on (set (rev pgeo)) sortPlaneStandard"
    using assms(2,3) by simp_all
  obtain ys exc where e: "srt (nothrow sortPlaneStandard) (rev pgeo) = (ys, exc)"
    by (cases "srt (nothrow sortPlaneStandard) (rev pgeo)")
  with nothrow_idempotent [OF assms(1) r]
  have "srt (nothrow sortPlaneStandard) ys = (ys, exc)" by simp
  with e kPosX show ?thesis by (simp add: SortPlanes_def)
qed

lemma SortAuxDets_deterministic:
  assumes "std_sort_contract srt" "std_sort_contract srt'"
    "\<forall>ad \<in> set adgeo. 9 \<le> length (ad_Name ad)" "no_ties_on (set adgeo) (comp_less sortAuxDetStandard)"
    "mset adgeo' = mset adgeo"
  shows "SortAuxDets srt' adgeo' = SortAuxDets srt adgeo"
  unfolding SortAuxDets_def
  by (rule std_sort_deterministic [OF assms(1,2) sortAuxDetStandard_total [OF assms(3)]
      sortAuxDetStandard_swo [OF assms(3)] assms(4,5)])

lemma SortAuxDets_idempotent:
  assumes "std_sort_contract srt"
    "\<forall>ad \<in> set adgeo. 9 \<le> length (ad_Name ad)" "no_ties_on (set adgeo) (comp_less sortAuxDetStandard)"
  shows "SortAuxDets srt (fst (SortAuxDets srt adgeo)) = SortAuxDets srt adgeo"
  unfolding SortAuxDets_def
  by (rule std_sort_idempotent [OF assms(1) sortAuxDetStandard_total [OF assms(2)]
      sortAuxDetStandard_swo [OF assms(2)] assms(3)])

lemma SortAuxDetSensitive_deterministic:
  assumes "std_sort_contract srt" "std_sort_contract srt'"
    "\<forall>ad \<in> set adsgeo. 9 \<le> length (ads_Name ad)"
    "no_ties_on (set adsgeo) (comp_less sortAuxDetSensitiveStandard)"
    "mset adsgeo' = mset adsgeo"
  shows "SortAuxDetSensitive srt' adsgeo' = SortAuxDetSensitive srt adsgeo"
  unfolding SortAuxDetSensitive_def
  by (rule std_sort_deterministic [OF assms(1,2) sortAuxDetSensitiveStandard_total [OF assms(3)]
      sortAuxDetSensitiveStandard_swo [OF assms(3)] assms(4,5)])

lemma SortAuxDetSensitive_idempotent:
  assumes "std_sort_contract srt"
    "\<forall>ad \<in> set adsgeo. 9 \<le> length (ads_Name ad)"
    "no_ties_on (set adsgeo) (comp_less sortAuxDetSensitiveStandard)"
  shows "SortAuxDetSensitive srt (fst (SortAuxDetSensitive srt adsgeo)) =
      SortAuxDetSensitive srt adsgeo"
  unfolding SortAuxDetSensitive_def
  by (rule std_sort_idempotent [OF assms(1) sortAuxDetSensitiveStandard_total [OF assms(2)]
      sortAuxDetSensitiveStandard_swo [OF assms(2)] assms(3)])

subsection \<open>Equivalent elements in the sort of the GNU C++ library\<close>

lemmas gnu_sort_simps = gnu_sort_def introsort_loop.simps unguarded_partition_pivot_def
  move_median_to_first_def unguarded_partition.simps unguarded_partition_first_loop.simps
  unguarded_partition_last_loop.simps iter_swap_def final_insertion_sort_def gnu_insertion_sort_def
  insertion_sort_loop.simps unguarded_insertion_sort.simps unguarded_linear_insert_def
  unguarded_linear_insert_loop.simps
  S_threshold_def lg.simps

text \<open>
  Seventeen elements that are all equivalent: the median step exchanges the elements at
  0 and 8, the partition exchanges 1 with 16, 2 with 15, and so on to 8 with 9, and the
  insertion sort that follows moves nothing.
\<close>

lemma gnu_sort_17_tied:
  assumes "\<And>i j. cmp (g i) (g j) = Inr False"
  shows "gnu_sort cmp [g n0, g n1, g n2, g n3, g n4, g n5, g n6, g n7, g n8, g n9, g n10, g n11,
      g n12, g n13, g n14, g n15, g n16] =
    Returned [g n8, g n16, g n15, g n14, g n13, g n12, g n11, g n10, g n9, g n0, g n7, g n6,
      g n5, g n4, g n3, g n2, g n1]"
  by (simp add: gnu_sort_simps assms)


text \<open>
  A vector of at most 16 elements in which no element is less than an element before it
  is left as it is: the sort is the insertion sort alone, and it moves nothing.
\<close>

lemma unguarded_linear_insert_stays:
  "0 < i \<Longrightarrow> cmp (a ! i) (a ! (i - 1)) = Inr False \<Longrightarrow>
     unguarded_linear_insert cmp a i = Returned a"
  by (simp add: unguarded_linear_insert_def unguarded_linear_insert_loop.simps)

lemma insertion_sort_loop_stays:
  assumes "\<forall>j. first < j \<and> j < lst \<longrightarrow>
      cmp (a ! j) (a ! first) = Inr False \<and> cmp (a ! j) (a ! (j - 1)) = Inr False"
  shows "first < i \<Longrightarrow> insertion_sort_loop cmp a first i lst = Returned a"
proof (induction "lst - i" arbitrary: i)
  case 0
  then show ?case by (simp add: insertion_sort_loop.simps)
next
  case (Suc d)
  then have i: "first < i" "i < lst" by simp_all
  with assms have c: "cmp (a ! i) (a ! first) = Inr False" "cmp (a ! i) (a ! (i - 1)) = Inr False"
    by simp_all
  have "insertion_sort_loop cmp a first (Suc i) lst = Returned a"
    using Suc.hyps(1) [of "Suc i"] Suc.hyps(2) i by simp
  with c i unguarded_linear_insert_stays [of i cmp a] show ?case
    by (subst insertion_sort_loop.simps) simp
qed

lemma gnu_sort_sorted_short:
  assumes len: "length xs \<le> 16"
    and srt: "sorted_wrt (\<lambda>x y. cmp y x = Inr False) xs"
  shows "gnu_sort cmp xs = Returned xs"
proof (cases "xs = []")
  case True
  then show ?thesis by (simp add: gnu_sort_def)
next
  case False
  have nth: "cmp (xs ! j) (xs ! i) = Inr False" if "i < j" "j < length xs" for i j
    using srt that by (simp add: sorted_wrt_iff_nth_less)
  have "insertion_sort_loop cmp xs 0 (Suc 0) (length xs) = Returned xs"
    by (rule insertion_sort_loop_stays) (use nth in auto)
  with False len show ?thesis
    by (simp add: gnu_sort_def introsort_loop.simps final_insertion_sort_def
        gnu_insertion_sort_def S_threshold_def)
qed

lemma gnu_std_sort_all_tied:
  assumes "length xs \<le> 16" "\<forall>x \<in> set xs. \<forall>y \<in> set xs. cmp x y = Inr False"
  shows "gnu_std_sort cmp xs = (xs, None)"
proof -
  have "sorted_wrt (\<lambda>x y. cmp y x = Inr False) xs"
    using assms(2) by (simp add: sorted_wrt_iff_nth_less)
  from gnu_sort_sorted_short [OF assms(1) this] show ?thesis
    by (simp add: gnu_std_sort_def)
qed

text \<open>Sensitive volumes with the names the comparator expects are all equivalent.\<close>

lemma sensitive_names_tie:
  "ads_Name ad1 = ''volAuxDetSensitive'' @ s1 \<Longrightarrow> ads_Name ad2 = ''volAuxDetSensitive'' @ s2 \<Longrightarrow>
     sortAuxDetSensitiveStandard ad1 ad2 = Inr False"
proof -
  have "atoi (''Sensitive'' @ s) = 0" for s
    by (simp add: atoi_def strtol_def long_to_int_def LONG_MAX_def isspace_def isdigit_def)
  then show "ads_Name ad1 = ''volAuxDetSensitive'' @ s1 \<Longrightarrow>
      ads_Name ad2 = ''volAuxDetSensitive'' @ s2 \<Longrightarrow> sortAuxDetSensitiveStandard ad1 ad2 = Inr False"
    by (simp add: sortAuxDetSensitiveStandard_Inr)
qed

lemma upt_17: "[0..<17] = [0, 1, 2, 3, 4, 5, 6, 7, 8, 9, 10, 11, 12, 13, 14, 15, 16::nat]"
  by (simp add: upt_rec_numeral upt_conv_Cons)

text \<open>
  The vectors of the examples of the sections above, under the sort of the GNU C++
  library: the two planes of equal \<open>x\<close> for the drift towards positive \<open>x\<close>, the auxiliary
  detector with a name of 6 characters, and the three wires.
\<close>

lemma gnu_sort_descends_on_posX:
  "SortPlanes gnu_std_sort
     [\<lparr>plane_LocalToWorld = (\<lambda>p. (X p, Y p, Z p))\<rparr>,
      \<lparr>plane_LocalToWorld = (\<lambda>p. (X p, Y p, Z p + 10))\<rparr>] kPosX =
     ([\<lparr>plane_LocalToWorld = (\<lambda>p. (X p, Y p, Z p + 10))\<rparr>,
       \<lparr>plane_LocalToWorld = (\<lambda>p. (X p, Y p, Z p))\<rparr>], None)"
  by (simp add: SortPlanes_def gnu_std_sort_def gnu_sort_simps move_backward_def nothrow_def
      sortPlaneStandard_def DistanceTol_def)

lemma gnu_sort_throws_on_short_name:
  "snd (SortAuxDets gnu_std_sort
     [\<lparr>ad_Name = ''volAuxDet1'', ad_WorldToLocal = (\<lambda>p. p), ad_HalfWidth1 = 1,
       ad_HalfWidth2 = 1, ad_HalfHeight = 1, ad_Length = 2, ad_SensitiveVolumes = []\<rparr>,
      \<lparr>ad_Name = ''volAux'', ad_WorldToLocal = (\<lambda>p. p), ad_HalfWidth1 = 1,
       ad_HalfWidth2 = 1, ad_HalfHeight = 1, ad_Length = 2, ad_SensitiveVolumes = []\<rparr>]) =
   Some std_out_of_range"
  by (simp add: SortAuxDets_def gnu_std_sort_def gnu_sort_simps sortAuxDetStandard_def substr_def)

lemma gnu_sort_three_wires:
  "SortWires gnu_std_sort
      [\<lparr>wire_GetCenter = (x1, 5, 1)\<rparr>, \<lparr>wire_GetCenter = (x2, 3, 1)\<rparr>, \<lparr>wire_GetCenter = (x3, 9, 0)\<rparr>] =
      ([\<lparr>wire_GetCenter = (x3, 9, 0)\<rparr>, \<lparr>wire_GetCenter = (x2, 3, 1)\<rparr>, \<lparr>wire_GetCenter = (x1, 5, 1)\<rparr>],
       None)"
  by (simp add: SortWires_def gnu_std_sort_def gnu_sort_simps move_backward_def nothrow_def
      sortWireStandard_def DistanceTol_def)

text \<open>
  C9, as the specification states it, fails where elements are equivalent for the
  comparator: \<^verbatim>\<open>std::sort\<close> is not a stable sort, and a vector that it has sorted is not safe
  from it. The sort of the GNU C++ library partitions a vector of more than 16 elements
  before anything else, and exchanges equivalent elements as it does. Of 17 cryostats at
  the same \<open>x\<close>, numbered 0 to 16 by \<open>fID\<close>, the first sort makes the order 8, 16, 15, ...,
  and the second sort, applied to this output, makes the order 9, 1, 2, ...: no exception
  is thrown, and the second sort does not leave the order of the first unchanged. The
  same happens to 17 sensitive volumes named \<open>volAuxDetSensitive00\<close> to
  \<open>volAuxDetSensitive16\<close>, which are all equivalent for their comparator.
\<close>

theorem sorting_twice_reorders_ties:
  "SortCryostats gnu_std_sort
     (map (\<lambda>n. \<lparr>cryo_LocalToWorld = (\<lambda>p. p), fTPCs = [], fOpDets = [], fID = n\<rparr>) [0..<17]) =
     (map (\<lambda>n. \<lparr>cryo_LocalToWorld = (\<lambda>p. p), fTPCs = [], fOpDets = [], fID = n\<rparr>)
        [8, 16, 15, 14, 13, 12, 11, 10, 9, 0, 7, 6, 5, 4, 3, 2, 1], None) \<and>
   SortCryostats gnu_std_sort
     (map (\<lambda>n. \<lparr>cryo_LocalToWorld = (\<lambda>p. p), fTPCs = [], fOpDets = [], fID = n\<rparr>)
        [8, 16, 15, 14, 13, 12, 11, 10, 9, 0, 7, 6, 5, 4, 3, 2, 1]) =
     (map (\<lambda>n. \<lparr>cryo_LocalToWorld = (\<lambda>p. p), fTPCs = [], fOpDets = [], fID = n\<rparr>)
        [9, 1, 2, 3, 4, 5, 6, 7, 0, 8, 10, 11, 12, 13, 14, 15, 16], None) \<and>
   SortCryostats gnu_std_sort (fst (SortCryostats gnu_std_sort
     (map (\<lambda>n. \<lparr>cryo_LocalToWorld = (\<lambda>p. p), fTPCs = [], fOpDets = [], fID = n\<rparr>) [0..<17]))) \<noteq>
   SortCryostats gnu_std_sort
     (map (\<lambda>n. \<lparr>cryo_LocalToWorld = (\<lambda>p. p), fTPCs = [], fOpDets = [], fID = n\<rparr>) [0..<17]) \<and>
   SortAuxDetSensitive gnu_std_sort
     (map (\<lambda>s. \<lparr>ads_Name = ''volAuxDetSensitive'' @ s, ads_WorldToLocal = (\<lambda>p. p),
          ads_HalfWidth1 = 1, ads_HalfWidth2 = 1, ads_HalfHeight = 1, ads_Length = 2\<rparr>)
        [''00'', ''01'', ''02'', ''03'', ''04'', ''05'', ''06'', ''07'', ''08'', ''09'', ''10'', ''11'', ''12'',
         ''13'', ''14'', ''15'', ''16'']) =
     (map (\<lambda>s. \<lparr>ads_Name = ''volAuxDetSensitive'' @ s, ads_WorldToLocal = (\<lambda>p. p),
          ads_HalfWidth1 = 1, ads_HalfWidth2 = 1, ads_HalfHeight = 1, ads_Length = 2\<rparr>)
        [''08'', ''16'', ''15'', ''14'', ''13'', ''12'', ''11'', ''10'', ''09'', ''00'', ''07'', ''06'', ''05'',
         ''04'', ''03'', ''02'', ''01''], None) \<and>
   SortAuxDetSensitive gnu_std_sort (fst (SortAuxDetSensitive gnu_std_sort
     (map (\<lambda>s. \<lparr>ads_Name = ''volAuxDetSensitive'' @ s, ads_WorldToLocal = (\<lambda>p. p),
          ads_HalfWidth1 = 1, ads_HalfWidth2 = 1, ads_HalfHeight = 1, ads_Length = 2\<rparr>)
        [''00'', ''01'', ''02'', ''03'', ''04'', ''05'', ''06'', ''07'', ''08'', ''09'', ''10'', ''11'', ''12'',
         ''13'', ''14'', ''15'', ''16'']))) \<noteq>
   SortAuxDetSensitive gnu_std_sort
     (map (\<lambda>s. \<lparr>ads_Name = ''volAuxDetSensitive'' @ s, ads_WorldToLocal = (\<lambda>p. p),
          ads_HalfWidth1 = 1, ads_HalfWidth2 = 1, ads_HalfHeight = 1, ads_Length = 2\<rparr>)
        [''00'', ''01'', ''02'', ''03'', ''04'', ''05'', ''06'', ''07'', ''08'', ''09'', ''10'', ''11'', ''12'',
         ''13'', ''14'', ''15'', ''16''])"
proof -
  let ?c = "\<lambda>n::nat. \<lparr>cryo_LocalToWorld = (\<lambda>p. p), fTPCs = [], fOpDets = [], fID = n\<rparr>"
  let ?s = "\<lambda>s. \<lparr>ads_Name = ''volAuxDetSensitive'' @ s, ads_WorldToLocal = (\<lambda>p. p),
          ads_HalfWidth1 = 1, ads_HalfWidth2 = 1, ads_HalfHeight = 1, ads_Length = 2\<rparr>"
  have tie: "nothrow sortCryoStandard (?c i) (?c j) = Inr False" for i j
    by (simp add: nothrow_def sortCryoStandard_def)
  note t = gnu_sort_17_tied [of "nothrow sortCryoStandard" ?c, OF tie]
  have a: "SortCryostats gnu_std_sort (map ?c [0..<17]) =
      (map ?c [8, 16, 15, 14, 13, 12, 11, 10, 9, 0, 7, 6, 5, 4, 3, 2, 1], None)"
    using t [of 0 1 2 3 4 5 6 7 8 9 10 11 12 13 14 15 16]
    by (simp add: SortCryostats_def gnu_std_sort_def upt_17)
  have b: "SortCryostats gnu_std_sort (map ?c [8, 16, 15, 14, 13, 12, 11, 10, 9, 0, 7, 6, 5, 4, 3, 2, 1]) =
      (map ?c [9, 1, 2, 3, 4, 5, 6, 7, 0, 8, 10, 11, 12, 13, 14, 15, 16], None)"
    using t [of 8 16 15 14 13 12 11 10 9 0 7 6 5 4 3 2 1]
    by (simp add: SortCryostats_def gnu_std_sort_def)
  have c: "SortCryostats gnu_std_sort (fst (SortCryostats gnu_std_sort (map ?c [0..<17]))) \<noteq>
      SortCryostats gnu_std_sort (map ?c [0..<17])"
    unfolding a fst_conv b by simp
  have stie: "sortAuxDetSensitiveStandard (?s i) (?s j) = Inr False" for i j
    by (rule sensitive_names_tie [of _ i _ j]) simp_all
  note u = gnu_sort_17_tied [of sortAuxDetSensitiveStandard ?s, OF stie]
  have d: "SortAuxDetSensitive gnu_std_sort (map ?s
        [''00'', ''01'', ''02'', ''03'', ''04'', ''05'', ''06'', ''07'', ''08'', ''09'', ''10'', ''11'', ''12'',
         ''13'', ''14'', ''15'', ''16'']) =
      (map ?s [''08'', ''16'', ''15'', ''14'', ''13'', ''12'', ''11'', ''10'', ''09'', ''00'', ''07'', ''06'', ''05'',
         ''04'', ''03'', ''02'', ''01''], None)"
    using u [of "''00''" "''01''" "''02''" "''03''" "''04''" "''05''" "''06''" "''07''" "''08''" "''09''"
        "''10''" "''11''" "''12''" "''13''" "''14''" "''15''" "''16''"]
    by (simp add: SortAuxDetSensitive_def gnu_std_sort_def)
  have e: "SortAuxDetSensitive gnu_std_sort (map ?s
        [''08'', ''16'', ''15'', ''14'', ''13'', ''12'', ''11'', ''10'', ''09'', ''00'', ''07'', ''06'', ''05'',
         ''04'', ''03'', ''02'', ''01'']) =
      (map ?s [''09'', ''01'', ''02'', ''03'', ''04'', ''05'', ''06'', ''07'', ''00'', ''08'', ''10'', ''11'', ''12'',
         ''13'', ''14'', ''15'', ''16''], None)"
    using u [of "''08''" "''16''" "''15''" "''14''" "''13''" "''12''" "''11''" "''10''" "''09''" "''00''"
        "''07''" "''06''" "''05''" "''04''" "''03''" "''02''" "''01''"]
    by (simp add: SortAuxDetSensitive_def gnu_std_sort_def)
  have f: "SortAuxDetSensitive gnu_std_sort (fst (SortAuxDetSensitive gnu_std_sort (map ?s
        [''00'', ''01'', ''02'', ''03'', ''04'', ''05'', ''06'', ''07'', ''08'', ''09'', ''10'', ''11'', ''12'',
         ''13'', ''14'', ''15'', ''16'']))) \<noteq>
      SortAuxDetSensitive gnu_std_sort (map ?s
        [''00'', ''01'', ''02'', ''03'', ''04'', ''05'', ''06'', ''07'', ''08'', ''09'', ''10'', ''11'', ''12'',
         ''13'', ''14'', ''15'', ''16''])"
    unfolding d fst_conv e by simp
  show ?thesis
    using a b c d f by blast
qed

text \<open>
  C9, amended. Each sorting operation is deterministic: two runs on equal vectors give
  equal results, as the operations read nothing but the vector and the comparators
  nothing but the two elements. For every \<^verbatim>\<open>std::sort\<close> that keeps the promise of the standard, each operation
  is idempotent on elements on which the comparator throws nothing, is a strict weak
  ordering and leaves no two different elements equivalent: sorting the output a second
  time leaves it unchanged, and the result is the same for every arrangement of the same
  elements. (The comparators of the cryostats and of the TPCs are strict weak orderings on
  every vector, and those of the auxiliary detectors on every vector of names of 9
  characters or more.) Sensitive volumes with the names the comparator expects,
  \<open>volAuxDetSensitive\<close> and a suffix, are all equivalent: no more than one of them is
  covered by the above. The sort of the GNU C++ library leaves up to 16 of them in the
  order they came in, which makes the operation idempotent on them; 17 it does not, as
  shown above.
\<close>

theorem sorting_deterministic_and_idempotent:
  assumes "std_sort_contract srtC" "std_sort_contract srtT" "std_sort_contract srtP"
    "std_sort_contract srtW" "std_sort_contract srtA" "std_sort_contract srtS"
  shows "((cgeo' = cgeo \<longrightarrow> SortCryostats srtC cgeo' = SortCryostats srtC cgeo) \<and>
     (no_ties_on (set cgeo) sortCryoStandard \<longrightarrow>
       (mset cgeo' = mset cgeo \<longrightarrow> SortCryostats srtC cgeo' = SortCryostats srtC cgeo) \<and>
       SortCryostats srtC (fst (SortCryostats srtC cgeo)) = SortCryostats srtC cgeo)) \<and>
    ((tgeo' = tgeo \<longrightarrow> SortTPCs srtT tgeo' = SortTPCs srtT tgeo) \<and>
     (no_ties_on (set tgeo) sortTPCStandard \<longrightarrow>
       (mset tgeo' = mset tgeo \<longrightarrow> SortTPCs srtT tgeo' = SortTPCs srtT tgeo) \<and>
       SortTPCs srtT (fst (SortTPCs srtT tgeo)) = SortTPCs srtT tgeo)) \<and>
    ((pgeo' = pgeo \<longrightarrow> SortPlanes srtP pgeo' driftDir = SortPlanes srtP pgeo driftDir) \<and>
     (driftDir \<noteq> kUnknownDrift \<and> strict_weak_ordering_on (set pgeo) sortPlaneStandard \<and>
      no_ties_on (set pgeo) sortPlaneStandard \<longrightarrow>
       (mset pgeo' = mset pgeo \<longrightarrow> SortPlanes srtP pgeo' driftDir = SortPlanes srtP pgeo driftDir) \<and>
       SortPlanes srtP (fst (SortPlanes srtP pgeo driftDir)) driftDir = SortPlanes srtP pgeo driftDir)) \<and>
    ((wgeo' = wgeo \<longrightarrow> SortWires srtW wgeo' = SortWires srtW wgeo) \<and>
     (strict_weak_ordering_on (set wgeo) sortWireStandard \<and> no_ties_on (set wgeo) sortWireStandard \<longrightarrow>
       (mset wgeo' = mset wgeo \<longrightarrow> SortWires srtW wgeo' = SortWires srtW wgeo) \<and>
       SortWires srtW (fst (SortWires srtW wgeo)) = SortWires srtW wgeo)) \<and>
    ((adgeo' = adgeo \<longrightarrow> SortAuxDets srtA adgeo' = SortAuxDets srtA adgeo) \<and>
     ((\<forall>ad \<in> set adgeo. 9 \<le> length (ad_Name ad)) \<and>
      no_ties_on (set adgeo) (comp_less sortAuxDetStandard) \<longrightarrow>
       (mset adgeo' = mset adgeo \<longrightarrow> SortAuxDets srtA adgeo' = SortAuxDets srtA adgeo) \<and>
       SortAuxDets srtA (fst (SortAuxDets srtA adgeo)) = SortAuxDets srtA adgeo)) \<and>
    ((adsgeo' = adsgeo \<longrightarrow> SortAuxDetSensitive srtS adsgeo' = SortAuxDetSensitive srtS adsgeo) \<and>
     ((\<forall>ad \<in> set adsgeo. 9 \<le> length (ads_Name ad)) \<and>
      no_ties_on (set adsgeo) (comp_less sortAuxDetSensitiveStandard) \<longrightarrow>
       (mset adsgeo' = mset adsgeo \<longrightarrow>
          SortAuxDetSensitive srtS adsgeo' = SortAuxDetSensitive srtS adsgeo) \<and>
       SortAuxDetSensitive srtS (fst (SortAuxDetSensitive srtS adsgeo)) =
         SortAuxDetSensitive srtS adsgeo) \<and>
     (length adsgeo \<le> 16 \<and> (\<forall>ad \<in> set adsgeo. \<exists>s. ads_Name ad = ''volAuxDetSensitive'' @ s) \<longrightarrow>
       SortAuxDetSensitive gnu_std_sort adsgeo = (adsgeo, None) \<and>
       SortAuxDetSensitive gnu_std_sort (fst (SortAuxDetSensitive gnu_std_sort adsgeo)) =
         SortAuxDetSensitive gnu_std_sort adsgeo))"
proof -
  have cryo: "(mset cgeo' = mset cgeo \<longrightarrow> SortCryostats srtC cgeo' = SortCryostats srtC cgeo) \<and>
       SortCryostats srtC (fst (SortCryostats srtC cgeo)) = SortCryostats srtC cgeo"
    if "no_ties_on (set cgeo) sortCryoStandard"
    unfolding SortCryostats_def
    using nothrow_deterministic [OF assms(1,1) sortCryoStandard_swo that, of cgeo']
      nothrow_idempotent [OF assms(1) sortCryoStandard_swo that] by blast
  have tpc: "(mset tgeo' = mset tgeo \<longrightarrow> SortTPCs srtT tgeo' = SortTPCs srtT tgeo) \<and>
       SortTPCs srtT (fst (SortTPCs srtT tgeo)) = SortTPCs srtT tgeo"
    if "no_ties_on (set tgeo) sortTPCStandard"
    unfolding SortTPCs_def
    using nothrow_deterministic [OF assms(2,2) sortTPCStandard_swo that, of tgeo']
      nothrow_idempotent [OF assms(2) sortTPCStandard_swo that] by blast
  have plane: "(mset pgeo' = mset pgeo \<longrightarrow> SortPlanes srtP pgeo' driftDir = SortPlanes srtP pgeo driftDir) \<and>
       SortPlanes srtP (fst (SortPlanes srtP pgeo driftDir)) driftDir = SortPlanes srtP pgeo driftDir"
    if "driftDir \<noteq> kUnknownDrift" "strict_weak_ordering_on (set pgeo) sortPlaneStandard"
      "no_ties_on (set pgeo) sortPlaneStandard"
    using SortPlanes_deterministic [OF assms(3,3) that(2,3), of pgeo' driftDir]
      SortPlanes_idempotent [OF assms(3) that(2,3), of driftDir] that(1) by blast
  have wire: "(mset wgeo' = mset wgeo \<longrightarrow> SortWires srtW wgeo' = SortWires srtW wgeo) \<and>
       SortWires srtW (fst (SortWires srtW wgeo)) = SortWires srtW wgeo"
    if "strict_weak_ordering_on (set wgeo) sortWireStandard" "no_ties_on (set wgeo) sortWireStandard"
    unfolding SortWires_def
    using nothrow_deterministic [OF assms(4,4) that, of wgeo']
      nothrow_idempotent [OF assms(4) that] by blast
  have ad: "(mset adgeo' = mset adgeo \<longrightarrow> SortAuxDets srtA adgeo' = SortAuxDets srtA adgeo) \<and>
       SortAuxDets srtA (fst (SortAuxDets srtA adgeo)) = SortAuxDets srtA adgeo"
    if "\<forall>ad \<in> set adgeo. 9 \<le> length (ad_Name ad)"
      "no_ties_on (set adgeo) (comp_less sortAuxDetStandard)"
    using SortAuxDets_deterministic [OF assms(5,5) that, of adgeo']
      SortAuxDets_idempotent [OF assms(5) that] by blast
  have ads: "(mset adsgeo' = mset adsgeo \<longrightarrow>
          SortAuxDetSensitive srtS adsgeo' = SortAuxDetSensitive srtS adsgeo) \<and>
       SortAuxDetSensitive srtS (fst (SortAuxDetSensitive srtS adsgeo)) =
         SortAuxDetSensitive srtS adsgeo"
    if "\<forall>ad \<in> set adsgeo. 9 \<le> length (ads_Name ad)"
      "no_ties_on (set adsgeo) (comp_less sortAuxDetSensitiveStandard)"
    using SortAuxDetSensitive_deterministic [OF assms(6,6) that, of adsgeo']
      SortAuxDetSensitive_idempotent [OF assms(6) that] by blast
  have gnu: "SortAuxDetSensitive gnu_std_sort adsgeo = (adsgeo, None) \<and>
       SortAuxDetSensitive gnu_std_sort (fst (SortAuxDetSensitive gnu_std_sort adsgeo)) =
         SortAuxDetSensitive gnu_std_sort adsgeo"
    if "length adsgeo \<le> 16" "\<forall>ad \<in> set adsgeo. \<exists>s. ads_Name ad = ''volAuxDetSensitive'' @ s"
  proof -
    have "\<forall>x \<in> set adsgeo. \<forall>y \<in> set adsgeo. sortAuxDetSensitiveStandard x y = Inr False"
      using that(2) sensitive_names_tie by blast
    from gnu_std_sort_all_tied [OF that(1) this] show ?thesis
      by (simp add: SortAuxDetSensitive_def)
  qed
  show ?thesis
    using cryo tpc plane wire ad ads gnu by blast
qed

text \<open>
  The operations of the witness, on two elements each: cryostats and TPCs at \<open>x = 5\<close> and
  \<open>x = 0\<close> in both arrangements, planes, wires, auxiliary detectors with suffixes 2 and 1,
  sensitive volumes whose names have the numbers 2 and 1 from position 9 on, and
  sensitive volumes named as the comparator expects, which the sort of the GNU C++
  library leaves in the order 2, 1.
\<close>

theorem sorting_deterministic_and_idempotent_witness:
  "SortCryostats insertion_sort
     [\<lparr>cryo_LocalToWorld = (\<lambda>p. (X p + 5, Y p, Z p)), fTPCs = [], fOpDets = [], fID = 0\<rparr>,
      \<lparr>cryo_LocalToWorld = (\<lambda>p. p), fTPCs = [], fOpDets = [], fID = 0\<rparr>] =
   SortCryostats insertion_sort
     [\<lparr>cryo_LocalToWorld = (\<lambda>p. p), fTPCs = [], fOpDets = [], fID = 0\<rparr>,
      \<lparr>cryo_LocalToWorld = (\<lambda>p. (X p + 5, Y p, Z p)), fTPCs = [], fOpDets = [], fID = 0\<rparr>] \<and>
   SortTPCs insertion_sort
     [\<lparr>tpc_LocalToWorld = (\<lambda>p. (X p + 5, Y p, Z p)), tpc_ContainsPosition = (\<lambda>p w. False)\<rparr>,
      \<lparr>tpc_LocalToWorld = (\<lambda>p. p), tpc_ContainsPosition = (\<lambda>p w. False)\<rparr>] =
   SortTPCs insertion_sort
     [\<lparr>tpc_LocalToWorld = (\<lambda>p. p), tpc_ContainsPosition = (\<lambda>p w. False)\<rparr>,
      \<lparr>tpc_LocalToWorld = (\<lambda>p. (X p + 5, Y p, Z p)), tpc_ContainsPosition = (\<lambda>p w. False)\<rparr>] \<and>
   SortTPCs insertion_sort (fst (SortTPCs insertion_sort
     [\<lparr>tpc_LocalToWorld = (\<lambda>p. (X p + 5, Y p, Z p)), tpc_ContainsPosition = (\<lambda>p w. False)\<rparr>,
      \<lparr>tpc_LocalToWorld = (\<lambda>p. p), tpc_ContainsPosition = (\<lambda>p w. False)\<rparr>])) =
   SortTPCs insertion_sort
     [\<lparr>tpc_LocalToWorld = (\<lambda>p. (X p + 5, Y p, Z p)), tpc_ContainsPosition = (\<lambda>p w. False)\<rparr>,
      \<lparr>tpc_LocalToWorld = (\<lambda>p. p), tpc_ContainsPosition = (\<lambda>p w. False)\<rparr>] \<and>
   SortPlanes insertion_sort (fst (SortPlanes insertion_sort
     [\<lparr>plane_LocalToWorld = (\<lambda>p. (X p + 5, Y p, Z p))\<rparr>,
      \<lparr>plane_LocalToWorld = (\<lambda>p. (X p + 10, Y p, Z p))\<rparr>] kPosX)) kPosX =
   SortPlanes insertion_sort
     [\<lparr>plane_LocalToWorld = (\<lambda>p. (X p + 5, Y p, Z p))\<rparr>,
      \<lparr>plane_LocalToWorld = (\<lambda>p. (X p + 10, Y p, Z p))\<rparr>] kPosX \<and>
   SortWires insertion_sort (fst (SortWires insertion_sort
     [\<lparr>wire_GetCenter = (0, 5, 1)\<rparr>, \<lparr>wire_GetCenter = (0, 3, 1)\<rparr>])) =
   SortWires insertion_sort [\<lparr>wire_GetCenter = (0, 5, 1)\<rparr>, \<lparr>wire_GetCenter = (0, 3, 1)\<rparr>] \<and>
   SortAuxDets insertion_sort (fst (SortAuxDets insertion_sort
     [\<lparr>ad_Name = ''volAuxDet2'', ad_WorldToLocal = (\<lambda>p. p), ad_HalfWidth1 = 1,
       ad_HalfWidth2 = 1, ad_HalfHeight = 1, ad_Length = 2, ad_SensitiveVolumes = []\<rparr>,
      \<lparr>ad_Name = ''volAuxDet1'', ad_WorldToLocal = (\<lambda>p. p), ad_HalfWidth1 = 1,
       ad_HalfWidth2 = 1, ad_HalfHeight = 1, ad_Length = 2, ad_SensitiveVolumes = []\<rparr>])) =
   SortAuxDets insertion_sort
     [\<lparr>ad_Name = ''volAuxDet2'', ad_WorldToLocal = (\<lambda>p. p), ad_HalfWidth1 = 1,
       ad_HalfWidth2 = 1, ad_HalfHeight = 1, ad_Length = 2, ad_SensitiveVolumes = []\<rparr>,
      \<lparr>ad_Name = ''volAuxDet1'', ad_WorldToLocal = (\<lambda>p. p), ad_HalfWidth1 = 1,
       ad_HalfWidth2 = 1, ad_HalfHeight = 1, ad_Length = 2, ad_SensitiveVolumes = []\<rparr>] \<and>
   SortAuxDetSensitive insertion_sort (fst (SortAuxDetSensitive insertion_sort
     [\<lparr>ads_Name = ''volAuxDet2'', ads_WorldToLocal = (\<lambda>p. p), ads_HalfWidth1 = 1,
       ads_HalfWidth2 = 1, ads_HalfHeight = 1, ads_Length = 2\<rparr>,
      \<lparr>ads_Name = ''volAuxDet1'', ads_WorldToLocal = (\<lambda>p. p), ads_HalfWidth1 = 1,
       ads_HalfWidth2 = 1, ads_HalfHeight = 1, ads_Length = 2\<rparr>])) =
   SortAuxDetSensitive insertion_sort
     [\<lparr>ads_Name = ''volAuxDet2'', ads_WorldToLocal = (\<lambda>p. p), ads_HalfWidth1 = 1,
       ads_HalfWidth2 = 1, ads_HalfHeight = 1, ads_Length = 2\<rparr>,
      \<lparr>ads_Name = ''volAuxDet1'', ads_WorldToLocal = (\<lambda>p. p), ads_HalfWidth1 = 1,
       ads_HalfWidth2 = 1, ads_HalfHeight = 1, ads_Length = 2\<rparr>] \<and>
   SortAuxDetSensitive gnu_std_sort
     [\<lparr>ads_Name = ''volAuxDetSensitive2'', ads_WorldToLocal = (\<lambda>p. p), ads_HalfWidth1 = 1,
       ads_HalfWidth2 = 1, ads_HalfHeight = 1, ads_Length = 2\<rparr>,
      \<lparr>ads_Name = ''volAuxDetSensitive1'', ads_WorldToLocal = (\<lambda>p. p), ads_HalfWidth1 = 1,
       ads_HalfWidth2 = 1, ads_HalfHeight = 1, ads_Length = 2\<rparr>] =
     ([\<lparr>ads_Name = ''volAuxDetSensitive2'', ads_WorldToLocal = (\<lambda>p. p), ads_HalfWidth1 = 1,
        ads_HalfWidth2 = 1, ads_HalfHeight = 1, ads_Length = 2\<rparr>,
       \<lparr>ads_Name = ''volAuxDetSensitive1'', ads_WorldToLocal = (\<lambda>p. p), ads_HalfWidth1 = 1,
        ads_HalfWidth2 = 1, ads_HalfHeight = 1, ads_Length = 2\<rparr>], None)"
proof -
  let ?c0 = "\<lparr>cryo_LocalToWorld = (\<lambda>p. p), fTPCs = [], fOpDets = [], fID = 0\<rparr>"
  let ?c5 = "\<lparr>cryo_LocalToWorld = (\<lambda>p. (X p + 5, Y p, Z p)), fTPCs = [], fOpDets = [], fID = 0\<rparr>"
  let ?t0 = "\<lparr>tpc_LocalToWorld = (\<lambda>p. p), tpc_ContainsPosition = (\<lambda>p w. False)\<rparr>"
  let ?t5 = "\<lparr>tpc_LocalToWorld = (\<lambda>p. (X p + 5, Y p, Z p)), tpc_ContainsPosition = (\<lambda>p w. False)\<rparr>"
  let ?ps = "[\<lparr>plane_LocalToWorld = (\<lambda>p. (X p + 5, Y p, Z p))\<rparr>,
      \<lparr>plane_LocalToWorld = (\<lambda>p. (X p + 10, Y p, Z p))\<rparr>]"
  let ?ws = "[\<lparr>wire_GetCenter = (0, 5, 1)\<rparr>, \<lparr>wire_GetCenter = (0, 3, 1)\<rparr>]"
  let ?ads = "[\<lparr>ad_Name = ''volAuxDet2'', ad_WorldToLocal = (\<lambda>p. p), ad_HalfWidth1 = 1,
       ad_HalfWidth2 = 1, ad_HalfHeight = 1, ad_Length = 2, ad_SensitiveVolumes = []\<rparr>,
      \<lparr>ad_Name = ''volAuxDet1'', ad_WorldToLocal = (\<lambda>p. p), ad_HalfWidth1 = 1,
       ad_HalfWidth2 = 1, ad_HalfHeight = 1, ad_Length = 2, ad_SensitiveVolumes = []\<rparr>]"
  let ?svs = "[\<lparr>ads_Name = ''volAuxDet2'', ads_WorldToLocal = (\<lambda>p. p), ads_HalfWidth1 = 1,
       ads_HalfWidth2 = 1, ads_HalfHeight = 1, ads_Length = 2\<rparr>,
      \<lparr>ads_Name = ''volAuxDet1'', ads_WorldToLocal = (\<lambda>p. p), ads_HalfWidth1 = 1,
       ads_HalfWidth2 = 1, ads_HalfHeight = 1, ads_Length = 2\<rparr>]"
  let ?std = "[\<lparr>ads_Name = ''volAuxDetSensitive2'', ads_WorldToLocal = (\<lambda>p. p), ads_HalfWidth1 = 1,
       ads_HalfWidth2 = 1, ads_HalfHeight = 1, ads_Length = 2\<rparr>,
      \<lparr>ads_Name = ''volAuxDetSensitive1'', ads_WorldToLocal = (\<lambda>p. p), ads_HalfWidth1 = 1,
       ads_HalfWidth2 = 1, ads_HalfHeight = 1, ads_Length = 2\<rparr>]"
  note t = sorting_deterministic_and_idempotent [OF insertion_sort_contract insertion_sort_contract
      insertion_sort_contract insertion_sort_contract insertion_sort_contract
      insertion_sort_contract,
      where cgeo = "[?c0, ?c5]" and cgeo' = "[?c5, ?c0]" and tgeo = "[?t5, ?t0]" and tgeo' = "[?t0, ?t5]"
        and pgeo = ?ps and driftDir = kPosX and wgeo = ?ws and adgeo = ?ads]
  note t' = t [where adsgeo = ?svs]
  note t'' = t [where adsgeo = ?std]
  have hc: "no_ties_on (set [?c0, ?c5]) sortCryoStandard" "mset [?c5, ?c0] = mset [?c0, ?c5]"
    by (simp_all add: no_ties_on_def sortCryoStandard_def)
  have ht: "no_ties_on (set [?t5, ?t0]) sortTPCStandard" "mset [?t0, ?t5] = mset [?t5, ?t0]"
    by (simp_all add: no_ties_on_def sortTPCStandard_def)
  have hp: "strict_weak_ordering_on (set ?ps) sortPlaneStandard" "no_ties_on (set ?ps) sortPlaneStandard"
    by (simp_all add: strict_weak_ordering_on_def no_ties_on_def sortPlaneStandard_def DistanceTol_def)
  have hw: "strict_weak_ordering_on (set ?ws) sortWireStandard" "no_ties_on (set ?ws) sortWireStandard"
    by (simp_all add: strict_weak_ordering_on_def no_ties_on_def sortWireStandard_def DistanceTol_def)
  have ha: "\<forall>ad \<in> set ?ads. 9 \<le> length (ad_Name ad)"
    "no_ties_on (set ?ads) (comp_less sortAuxDetStandard)"
    by (simp_all add: no_ties_on_def comp_less_def sortAuxDetStandard_def substr_def atoi_def strtol_def
        long_to_int_def LONG_MAX_def
        isspace_def isdigit_def)
  have hs: "\<forall>ad \<in> set ?svs. 9 \<le> length (ads_Name ad)"
    "no_ties_on (set ?svs) (comp_less sortAuxDetSensitiveStandard)"
    by (simp_all add: no_ties_on_def comp_less_def sortAuxDetSensitiveStandard_def substr_def atoi_def
        strtol_def long_to_int_def LONG_MAX_def isspace_def isdigit_def)
  have hg: "length ?std \<le> 16" "\<forall>ad \<in> set ?std. \<exists>s. ads_Name ad = ''volAuxDetSensitive'' @ s"
    by simp_all
  have a: "SortCryostats insertion_sort [?c5, ?c0] = SortCryostats insertion_sort [?c0, ?c5]"
    using t' hc by blast
  have a': "SortTPCs insertion_sort [?t0, ?t5] = SortTPCs insertion_sort [?t5, ?t0]"
    "SortTPCs insertion_sort (fst (SortTPCs insertion_sort [?t5, ?t0])) = SortTPCs insertion_sort [?t5, ?t0]"
    using t' ht by blast+
  have b: "SortPlanes insertion_sort (fst (SortPlanes insertion_sort ?ps kPosX)) kPosX =
      SortPlanes insertion_sort ?ps kPosX"
    using t' hp by blast
  have c: "SortWires insertion_sort (fst (SortWires insertion_sort ?ws)) = SortWires insertion_sort ?ws"
    using t' hw by blast
  have d: "SortAuxDets insertion_sort (fst (SortAuxDets insertion_sort ?ads)) =
      SortAuxDets insertion_sort ?ads"
    using t' ha by blast
  have e: "SortAuxDetSensitive insertion_sort (fst (SortAuxDetSensitive insertion_sort ?svs)) =
      SortAuxDetSensitive insertion_sort ?svs"
    using t' hs by blast
  have f: "SortAuxDetSensitive gnu_std_sort ?std = (?std, None)"
    using t'' hg by blast
  show ?thesis using a a' b c d e f by simp
qed

end
